(* ===== verification/JS_Prelude.thy ===== *)
theory JS_Prelude
  imports Main "HOL-Library.Word" "HOL-Library.Multiset"
begin

text \<open>
  Shared ground of the development: the fact collections the component theories
  fill and use, the representation of JavaScript strings, and the few pieces of
  the ECMAScript runtime that the sources under \<^verbatim>\<open>src/frontend/src\<close> call and
  whose result decides a branch of the program (\<^verbatim>\<open>String.prototype.trim\<close>,
  truthiness of a string, \<^verbatim>\<open>instanceof Error\<close> in a \<^verbatim>\<open>catch\<close> clause, the
  decimal rendering of an integer inside a template literal).

  A JavaScript string is a sequence of 16-bit UTF-16 code units, so it is a list
  of \<^typ>\<open>16 word\<close>. String literals of the sources that are not ASCII are written
  as their code units; ASCII literals are written with \<open>ascii\<close>.

  None of the definitions of this theory translates lines of the repository:
  they describe the platform the repository runs on, after ECMA-262.
\<close>

section \<open>Fact collections\<close>

named_theorems js_defs "unfoldings of the runtime model"
named_theorems api_defs "unfoldings of the HTTP client's operations"
named_theorems handler_defs "unfoldings of the components' event handlers"
named_theorems view_defs "unfoldings of the components' render functions"
named_theorems inv_defs "unfoldings of the invariants"

section \<open>Strings\<close>

type_synonym code_unit = "16 word"
type_synonym jsstring = "code_unit list"

definition ascii :: "string \<Rightarrow> jsstring" where
  "ascii s = map (\<lambda>c. of_nat (of_char c)) s"

lemma ascii_Nil [simp]: "ascii [] = []"
  by (simp add: ascii_def)

lemma ascii_Cons [simp]: "ascii (c # s) = of_nat (of_char c) # ascii s"
  by (simp add: ascii_def)

lemma ascii_append [simp]: "ascii (s @ t) = ascii s @ ascii t"
  by (simp add: ascii_def)

lemma length_ascii [simp]: "length (ascii s) = length s"
  by (simp add: ascii_def)

lemma ascii_eq_Nil_iff [simp]: "ascii s = [] \<longleftrightarrow> s = []"
  by (simp add: ascii_def)

lemma of_char_less_256: "(of_char c :: nat) < 256"
proof -
  have "(of_char c :: nat) mod 256 < 256"
    by simp
  then show ?thesis
    by (simp only: of_char_mod_256)
qed

lemma unat_ascii_unit: "unat (of_nat (of_char c) :: code_unit) = of_char c"
proof -
  have "(of_char c :: nat) < 65536"
    by (rule less_trans [OF of_char_less_256]) simp
  then show ?thesis
    by (simp add: unat_of_nat)
qed

lemma ascii_unit_inj: "(of_nat (of_char c) :: code_unit) = of_nat (of_char d) \<longleftrightarrow> c = d"
proof
  assume "(of_nat (of_char c) :: code_unit) = of_nat (of_char d)"
  then have "unat (of_nat (of_char c) :: code_unit) = unat (of_nat (of_char d) :: code_unit)"
    by simp
  then have "(of_char c :: nat) = of_char d"
    by (simp only: unat_ascii_unit)
  then show "c = d"
    by simp
qed simp

lemma ascii_inj [simp]: "ascii s = ascii t \<longleftrightarrow> s = t"
proof (induction s arbitrary: t)
  case Nil
  then show ?case by (cases t) simp_all
next
  case (Cons c s)
  then show ?case by (cases t) (simp_all add: ascii_unit_inj)
qed

text \<open>
  \<^verbatim>\<open>ToBoolean\<close> of a string: the empty string is the only falsy one. The sources
  test strings with \<^verbatim>\<open>!s\<close>, \<^verbatim>\<open>s && e\<close> and \<^verbatim>\<open>s || d\<close>.
\<close>

definition truthy :: "jsstring \<Rightarrow> bool" where
  "truthy s \<longleftrightarrow> s \<noteq> []"

lemma truthy_simps [simp]:
  "\<not> truthy []" "truthy (c # s)" "truthy (s @ t) \<longleftrightarrow> truthy s \<or> truthy t"
  by (simp_all add: truthy_def)

lemma truthy_ascii [simp]: "truthy (ascii s) \<longleftrightarrow> s \<noteq> []"
  by (simp add: truthy_def)

text \<open>
  A nullable string (\<^verbatim>\<open>string | null\<close>) in a boolean position: \<^verbatim>\<open>null\<close> and the
  empty string are falsy. This is the test of \<^verbatim>\<open>{error && <div ...>}\<close>.
\<close>

definition truthy_opt :: "jsstring option \<Rightarrow> bool" where
  "truthy_opt x = (case x of None \<Rightarrow> False | Some s \<Rightarrow> truthy s)"

lemma truthy_opt_simps [simp]:
  "\<not> truthy_opt None" "truthy_opt (Some s) \<longleftrightarrow> truthy s"
  by (simp_all add: truthy_opt_def)

section \<open>\<^verbatim>\<open>String.prototype.trim\<close>\<close>

text \<open>
  \<^verbatim>\<open>trim\<close> removes leading and trailing code units that are WhiteSpace or
  LineTerminator in the sense of ECMA-262: TAB, VT, FF, ZWNBSP, the Unicode
  space separators (category Zs) and LF, CR, LS, PS. All of them are in the
  Basic Multilingual Plane, so the test is on single code units. The ideographic
  space U+3000 is among them.
\<close>

definition is_white_space :: "code_unit \<Rightarrow> bool" where
  "is_white_space c \<longleftrightarrow>
     c \<in> {0x0009, 0x000A, 0x000B, 0x000C, 0x000D, 0x0020, 0x00A0, 0x1680,
          0x2028, 0x2029, 0x202F, 0x205F, 0x3000, 0xFEFF}
     \<or> (0x2000 \<le> c \<and> c \<le> 0x200A)"

definition trim :: "jsstring \<Rightarrow> jsstring" where
  "trim s = rev (dropWhile is_white_space (rev (dropWhile is_white_space s)))"

definition blank :: "jsstring \<Rightarrow> bool" where
  "blank s \<longleftrightarrow> \<not> truthy (trim s)"

lemma trim_Nil [simp]: "trim [] = []"
  by (simp add: trim_def)

lemma dropWhile_all_iff: "(\<forall>x \<in> set (dropWhile P s). P x) \<longleftrightarrow> (\<forall>x \<in> set s. P x)"
  by (induction s) auto

lemma trim_eq_Nil_iff: "trim s = [] \<longleftrightarrow> (\<forall>c \<in> set s. is_white_space c)"
  by (simp add: trim_def dropWhile_eq_Nil_conv dropWhile_all_iff)

lemma blank_iff: "blank s \<longleftrightarrow> (\<forall>c \<in> set s. is_white_space c)"
  by (simp add: blank_def truthy_def trim_eq_Nil_iff)

lemma blank_Nil [simp]: "blank []"
  by (simp add: blank_iff)

lemma blank_Cons [simp]: "blank (c # s) \<longleftrightarrow> is_white_space c \<and> blank s"
  by (simp add: blank_iff)

lemma blank_append [simp]: "blank (s @ t) \<longleftrightarrow> blank s \<and> blank t"
  by (auto simp: blank_iff)

lemma not_blank_nonempty: "\<not> blank s \<Longrightarrow> s \<noteq> []"
  by auto

lemma trim_no_leading_space: "trim s = c # t \<Longrightarrow> \<not> is_white_space c"
proof -
  assume eq: "trim s = c # t"
  let ?d = "dropWhile is_white_space s"
  have "rev (dropWhile is_white_space (rev ?d)) = c # t"
    using eq by (simp add: trim_def)
  then have "dropWhile is_white_space (rev ?d) = rev t @ [c]"
    by (metis rev.simps(2) rev_rev_ident)
  then have "rev ?d = takeWhile is_white_space (rev ?d) @ rev t @ [c]"
    by (metis takeWhile_dropWhile_id)
  then have "?d = c # t @ rev (takeWhile is_white_space (rev ?d))"
    by (metis append_Cons rev.simps(2) rev_append rev_rev_ident append_assoc)
  then have "hd ?d = c" and "?d \<noteq> []"
    by (metis list.sel(1), metis list.distinct(1))
  then show ?thesis
    using hd_dropWhile by metis
qed

lemma trim_idem [simp]: "trim (trim s) = trim s"
proof (cases "trim s")
  case Nil
  then show ?thesis by simp
next
  case (Cons c t)
  then have c: "\<not> is_white_space c"
    by (rule trim_no_leading_space)
  have "dropWhile is_white_space (rev (trim s)) = rev (trim s)"
    by (simp add: trim_def)
  moreover have "dropWhile is_white_space (trim s) = trim s"
    using Cons c by simp
  ultimately show ?thesis
    by (simp add: trim_def [of "trim s"])
qed

section \<open>Thrown values and \<^verbatim>\<open>catch\<close>\<close>

text \<open>
  What a \<^verbatim>\<open>catch (err)\<close> clause receives. Every handler of the components
  reads it the same way: \<^verbatim>\<open>err instanceof Error ? err.message : fallback\<close>.
  \<open>Error_instance m\<close> is any object with \<^verbatim>\<open>Error.prototype\<close> on its prototype
  chain (Error, TypeError, SyntaxError, URIError, DOMException) and message \<open>m\<close>;
  \<open>Non_error\<close> is any other thrown value.
\<close>

datatype thrown = Error_instance jsstring | Non_error

fun is_error :: "thrown \<Rightarrow> bool" where
  "is_error (Error_instance m) = True"
| "is_error Non_error = False"

definition catch_message :: "thrown \<Rightarrow> jsstring \<Rightarrow> jsstring" where
  "catch_message err fallback =
     (case err of Error_instance m \<Rightarrow> m | Non_error \<Rightarrow> fallback)"

lemma catch_message_simps [simp]:
  "catch_message (Error_instance m) fallback = m"
  "catch_message Non_error fallback = fallback"
  by (simp_all add: catch_message_def)

lemma catch_message_is_error: "is_error err \<Longrightarrow> catch_message err fallback = catch_message err fallback'"
  by (cases err) simp_all

section \<open>Integers in template literals\<close>

text \<open>
  \<^verbatim>\<open>`${n}`\<close> applies \<^verbatim>\<open>Number::toString\<close>. For an integer of magnitude below
  \<open>10\<^sup>2\<^sup>1\<close> the result is its decimal digits, with a leading minus sign when it is
  negative. The counts the components print (\<^verbatim>\<open>deleted_count\<close>, \<^verbatim>\<open>indexed\<close>,
  \<^verbatim>\<open>total\<close>, \<^verbatim>\<open>size\<close>) are modelled as \<^typ>\<open>int\<close>; the model is exact for the
  safe integers (magnitude at most \<open>2\<^sup>5\<^sup>3 - 1\<close>).
\<close>

definition digit_unit :: "nat \<Rightarrow> code_unit" where
  "digit_unit d = of_nat (48 + d)"

fun nat_digits :: "nat \<Rightarrow> jsstring" where
  "nat_digits n = (if n < 10 then [digit_unit n] else nat_digits (n div 10) @ [digit_unit (n mod 10)])"

declare nat_digits.simps [simp del]

definition number_to_string :: "int \<Rightarrow> jsstring" where
  "number_to_string i = (if i < 0 then 0x2D # nat_digits (nat (- i)) else nat_digits (nat i))"

definition is_digit_unit :: "code_unit \<Rightarrow> bool" where
  "is_digit_unit c \<longleftrightarrow> 0x30 \<le> c \<and> c \<le> 0x39"

lemma nat_digits_small [simp]: "n < 10 \<Longrightarrow> nat_digits n = [digit_unit n]"
  by (subst nat_digits.simps) simp

lemma nat_digits_large: "\<not> n < 10 \<Longrightarrow> nat_digits n = nat_digits (n div 10) @ [digit_unit (n mod 10)]"
  by (subst nat_digits.simps) simp

lemma nat_digits_nonempty [simp]: "nat_digits n \<noteq> []"
  by (subst nat_digits.simps) simp

lemma unat_digit_unit: "d < 10 \<Longrightarrow> unat (digit_unit d) = 48 + d"
  unfolding digit_unit_def by (subst unat_of_nat) simp

lemma is_digit_unit_digit: "d < 10 \<Longrightarrow> is_digit_unit (digit_unit d)"
  by (simp add: is_digit_unit_def word_le_nat_alt unat_digit_unit)

lemma nat_digits_are_digits: "\<forall>c \<in> set (nat_digits n). is_digit_unit c"
proof (induction n rule: nat_digits.induct)
  case (1 n)
  show ?case
  proof (cases "n < 10")
    case True
    then show ?thesis by (simp add: is_digit_unit_digit)
  next
    case False
    with "1.IH" show ?thesis
      by (simp add: nat_digits_large is_digit_unit_digit)
  qed
qed

lemma number_to_string_nonempty [simp]: "number_to_string i \<noteq> []"
  by (simp add: number_to_string_def)

lemma truthy_number_to_string [simp]: "truthy (number_to_string i)"
  by (simp add: truthy_def)

lemma digit_not_white_space: "is_digit_unit c \<Longrightarrow> \<not> is_white_space c"
  by (auto simp: is_digit_unit_def is_white_space_def word_le_nat_alt)

text \<open>Reading the digits back: the rendering loses nothing.\<close>

definition digit_value :: "code_unit \<Rightarrow> nat" where
  "digit_value c = unat c - 48"

definition digits_value :: "jsstring \<Rightarrow> nat" where
  "digits_value s = foldl (\<lambda>acc c. 10 * acc + digit_value c) 0 s"

lemma digit_value_digit_unit [simp]: "d < 10 \<Longrightarrow> digit_value (digit_unit d) = d"
  by (simp add: digit_value_def unat_digit_unit)

lemma digits_value_snoc [simp]: "digits_value (s @ [c]) = 10 * digits_value s + digit_value c"
  by (simp add: digits_value_def)

lemma digits_value_single [simp]: "digits_value [c] = digit_value c"
  by (simp add: digits_value_def)

lemma digits_value_nat_digits [simp]: "digits_value (nat_digits n) = n"
proof (induction n rule: nat_digits.induct)
  case (1 n)
  show ?case
  proof (cases "n < 10")
    case True
    then show ?thesis by simp
  next
    case False
    with "1.IH" show ?thesis
      by (simp add: nat_digits_large)
  qed
qed

lemma nat_digits_inj: "nat_digits m = nat_digits n \<Longrightarrow> m = n"
  by (metis digits_value_nat_digits)

text \<open>
  \<^verbatim>\<open>x.toFixed(1)\<close> for a quotient \<open>x = num / den\<close> of integers with \<open>den > 0\<close>. The
  standard takes the integer \<open>n\<close> for which \<open>n / 10 - x\<close> is closest to zero, the
  larger one if there are two, and prints \<open>n\<close> with a point before its last digit
  (and a minus sign first if \<open>x < 0\<close>). \<open>tenths\<close> is that \<open>n\<close> for \<open>x \<ge> 0\<close>. The
  components divide a byte count by a power of two, which is exact in floating
  point for safe integers, so the quotient of the model is the number the code
  has.
\<close>

definition tenths :: "int \<Rightarrow> int \<Rightarrow> int" where
  "tenths num den = (20 * num + den) div (2 * den)"

definition to_fixed_1 :: "int \<Rightarrow> int \<Rightarrow> jsstring" where
  "to_fixed_1 num den =
     (let n = tenths \<bar>num\<bar> den;
          digits = number_to_string (n div 10) @ [0x2E, digit_unit (nat (n mod 10))]
      in if num < 0 then 0x2D # digits else digits)"

lemma tenths_bounds:
  assumes "0 < den"
  shows "2 * den * tenths num den \<le> 20 * num + den" and "20 * num + den < 2 * den * tenths num den + 2 * den"
proof -
  let ?a = "20 * num + den" and ?d = "2 * den"
  from assms have d: "0 < ?d" by simp
  have "?a = ?d * (?a div ?d) + ?a mod ?d" by simp
  moreover have "0 \<le> ?a mod ?d" and "?a mod ?d < ?d"
    using d by (simp_all only: pos_mod_sign pos_mod_bound)
  ultimately show "2 * den * tenths num den \<le> 20 * num + den"
    and "20 * num + den < 2 * den * tenths num den + 2 * den"
    unfolding tenths_def by linarith+
qed

lemma tenths_close:
  assumes "0 < den"
  shows "2 * \<bar>10 * num - tenths num den * den\<bar> \<le> den"
proof -
  define q where "q = tenths num den * den"
  from tenths_bounds [OF assms, of num] have "2 * q \<le> 20 * num + den" and "20 * num + den < 2 * q + 2 * den"
    by (simp_all add: q_def algebra_simps)
  then have "2 * \<bar>10 * num - q\<bar> \<le> den"
    by (simp add: abs_if)
  then show ?thesis
    by (simp add: q_def)
qed

lemma tenths_mono: "0 < den \<Longrightarrow> a \<le> b \<Longrightarrow> tenths a den \<le> tenths b den"
  unfolding tenths_def by (intro zdiv_mono1) simp_all

lemma tenths_nonneg: "0 < den \<Longrightarrow> 0 \<le> num \<Longrightarrow> 0 \<le> tenths num den"
  unfolding tenths_def by (intro pos_imp_zdiv_nonneg_iff [THEN iffD2]) simp_all

text \<open>
  \<open>read_count s\<close> is the number a reader finds in a message: the value of
  its first run of decimal digits.
\<close>

definition read_count :: "jsstring \<Rightarrow> nat" where
  "read_count s = digits_value (takeWhile is_digit_unit (dropWhile (\<lambda>c. \<not> is_digit_unit c) s))"

lemma read_count_Cons [simp]: "\<not> is_digit_unit c \<Longrightarrow> read_count (c # s) = read_count s"
  by (simp add: read_count_def)

lemma read_count_digits [simp]:
  assumes "\<not> is_digit_unit c"
  shows "read_count (nat_digits n @ c # rest) = n"
proof -
  have "is_digit_unit (hd (nat_digits n))"
    using nat_digits_are_digits [of n] by (cases "nat_digits n") simp_all
  then have "dropWhile (\<lambda>c. \<not> is_digit_unit c) (nat_digits n @ c # rest) = nat_digits n @ c # rest"
    by (simp add: dropWhile_eq_self_iff)
  moreover have "takeWhile is_digit_unit (nat_digits n @ c # rest) = nat_digits n"
    using assms nat_digits_are_digits [of n] by simp
  ultimately show ?thesis
    by (simp add: read_count_def)
qed

text \<open>
  \<open>read_fixed_1 s\<close> reads a number with one decimal the same way and gives it
  in tenths.
\<close>

definition read_fixed_1 :: "jsstring \<Rightarrow> nat" where
  "read_fixed_1 s =
     (let d = dropWhile (\<lambda>c. \<not> is_digit_unit c) s;
          whole = takeWhile is_digit_unit d
      in 10 * digits_value whole +
         (case drop (length whole) d of
            p # t # rest \<Rightarrow> if p = 0x2E \<and> is_digit_unit t then digit_value t else 0
          | _ \<Rightarrow> 0))"

lemma not_digit_point [simp]: "\<not> is_digit_unit 0x2E"
  by (simp add: is_digit_unit_def)

lemma read_fixed_1_digits:
  assumes "d < 10"
  shows "read_fixed_1 (nat_digits n @ 0x2E # digit_unit d # rest) = 10 * n + d"
proof -
  have "is_digit_unit (hd (nat_digits n))"
    using nat_digits_are_digits [of n] by (cases "nat_digits n") simp_all
  then have "dropWhile (\<lambda>c. \<not> is_digit_unit c) (nat_digits n @ 0x2E # digit_unit d # rest) =
      nat_digits n @ 0x2E # digit_unit d # rest"
    by (simp add: dropWhile_eq_self_iff)
  moreover have "takeWhile is_digit_unit (nat_digits n @ 0x2E # digit_unit d # rest) = nat_digits n"
    using nat_digits_are_digits [of n] by simp
  ultimately show ?thesis
    using assms by (simp add: read_fixed_1_def is_digit_unit_digit)
qed

lemma read_fixed_1_to_fixed_1:
  assumes "0 \<le> num" and "0 < den"
  shows "int (read_fixed_1 (to_fixed_1 num den @ rest)) = tenths num den"
proof -
  let ?n = "tenths num den"
  from assms have n: "0 \<le> ?n"
    by (simp add: tenths_nonneg)
  then have "nat (?n mod 10) < 10" by simp
  moreover from n have "int (10 * nat (?n div 10) + nat (?n mod 10)) = ?n"
    by (simp add: pos_imp_zdiv_nonneg_iff)
  moreover from n have "\<not> ?n div 10 < 0"
    by (simp add: not_less pos_imp_zdiv_nonneg_iff)
  ultimately show ?thesis
    using assms
    by (simp add: to_fixed_1_def number_to_string_def Let_def read_fixed_1_digits
        del: of_nat_add of_nat_mult)
qed

section \<open>Lists of pending work\<close>

text \<open>
  The components keep continuations and timers that the environment completes in
  any order. \<open>remove_nth i xs\<close> takes the \<open>i\<close>-th one out.
\<close>

definition remove_nth :: "nat \<Rightarrow> 'a list \<Rightarrow> 'a list" where
  "remove_nth i xs = take i xs @ drop (Suc i) xs"

lemma remove_nth_Nil [simp]: "remove_nth i [] = []"
  by (simp add: remove_nth_def)

lemma remove_nth_0 [simp]: "remove_nth 0 (x # xs) = xs"
  by (simp add: remove_nth_def)

lemma remove_nth_Suc [simp]: "remove_nth (Suc i) (x # xs) = x # remove_nth i xs"
  by (simp add: remove_nth_def)

lemma length_remove_nth [simp]: "i < length xs \<Longrightarrow> length (remove_nth i xs) = length xs - 1"
  by (simp add: remove_nth_def)

lemma remove_nth_beyond [simp]: "length xs \<le> i \<Longrightarrow> remove_nth i xs = xs"
  by (simp add: remove_nth_def)

lemma remove_nth_append: "i < length xs \<Longrightarrow> remove_nth i (xs @ ys) = remove_nth i xs @ ys"
  by (simp add: remove_nth_def)

lemma set_remove_nth_subset: "set (remove_nth i xs) \<subseteq> set xs"
  by (auto simp: remove_nth_def dest: in_set_takeD in_set_dropD)

lemma in_set_remove_nthD: "x \<in> set (remove_nth i xs) \<Longrightarrow> x \<in> set xs"
  using set_remove_nth_subset by fastforce

lemma list_all_remove_nth: "list_all P xs \<Longrightarrow> list_all P (remove_nth i xs)"
  by (auto simp: list_all_iff dest: in_set_remove_nthD)

lemma mset_remove_nth: "i < length xs \<Longrightarrow> mset (remove_nth i xs) = mset xs - {#xs ! i#}"
proof -
  assume "i < length xs"
  then have "xs = take i xs @ xs ! i # drop (Suc i) xs"
    by (rule id_take_nth_drop)
  then have "mset xs = mset (remove_nth i xs) + {#xs ! i#}"
    by (metis add_mset_add_single mset.simps(2) mset_append remove_nth_def union_mset_add_mset_right)
  then show ?thesis
    by simp
qed

lemma mset_concat_map_remove_nth:
  assumes "i < length xs"
  shows "mset (concat (map f (remove_nth i xs))) = mset (concat (map f xs)) - mset (f (xs ! i))"
proof -
  from assms have "xs = take i xs @ xs ! i # drop (Suc i) xs"
    by (rule id_take_nth_drop)
  then have "concat (map f xs) =
      concat (map f (take i xs)) @ f (xs ! i) @ concat (map f (drop (Suc i) xs))"
    by (metis concat.simps(2) concat_append list.simps(9) map_append)
  then show ?thesis
    by (simp add: remove_nth_def)
qed

lemma remove_nth_single [simp]: "remove_nth 0 [x] = []"
  by simp

lemma remove_nth_short: "length xs \<le> Suc 0 \<Longrightarrow> i < length xs \<Longrightarrow> remove_nth i xs = []"
  by (cases xs) (auto simp: remove_nth_def)

lemma list_all_nthD: "list_all P xs \<Longrightarrow> i < length xs \<Longrightarrow> P (xs ! i)"
  by (simp add: list_all_length)

end
