(* ===== verification/Json.thy ===== *)
theory Json
  imports JS_Prelude
begin

text \<open>
  The values \<^verbatim>\<open>response.json()\<close> can produce, and the three operations the HTTP
  client applies to an error payload it knows nothing about: reading its
  \<^verbatim>\<open>detail\<close> property, testing the result for truthiness (\<^verbatim>\<open>||\<close>) and turning
  it into the message of an \<^verbatim>\<open>Error\<close> (\<^verbatim>\<open>ToString\<close>).

  Numbers are integers here (see \<open>number_to_string\<close>); an object is the list of
  its members in the order the parser met them, and where a key occurs twice the
  later member is the one a property read sees, as in \<^verbatim>\<open>JSON.parse\<close>.
  Like the prelude, this theory describes the platform, not lines of the
  repository.
\<close>

section \<open>Values\<close>

datatype json =
    JNull
  | JBool bool
  | JNum int
  | JStr jsstring
  | JArr "json list"
  | JObj "(jsstring \<times> json) list"

fun is_array :: "json \<Rightarrow> bool" where
  "is_array (JArr xs) = True"
| "is_array j = False"

fun is_object :: "json \<Rightarrow> bool" where
  "is_object (JObj kvs) = True"
| "is_object j = False"

section \<open>Reading a property\<close>

text \<open>
  \<open>member k j\<close> is the expression \<^verbatim>\<open>j.k\<close> for a name \<open>k\<close> that no prototype
  defines (\<^verbatim>\<open>detail\<close> is one): \<open>Inl\<close> the TypeError that reading a property of
  \<^verbatim>\<open>null\<close> throws, \<open>Inr None\<close> for \<^verbatim>\<open>undefined\<close>, \<open>Inr (Some v)\<close> for a value.
  The text of the TypeError is the one V8 gives; no branch of the program
  depends on it.
\<close>

definition null_property_error :: "jsstring \<Rightarrow> thrown" where
  "null_property_error k =
     Error_instance (ascii ''Cannot read properties of null (reading '' @ [0x27] @ k @ [0x27] @ ascii '')'')"

definition lookup_member :: "(jsstring \<times> json) list \<Rightarrow> jsstring \<Rightarrow> json option" where
  "lookup_member kvs k = map_of (rev kvs) k"

fun member :: "jsstring \<Rightarrow> json \<Rightarrow> thrown + json option" where
  "member k JNull = Inl (null_property_error k)"
| "member k (JObj kvs) = Inr (lookup_member kvs k)"
| "member k j = Inr None"

lemma is_error_null_property_error [simp]: "is_error (null_property_error k)"
  by (simp add: null_property_error_def)

lemma lookup_member_Nil [simp]: "lookup_member [] k = None"
  by (simp add: lookup_member_def)

lemma lookup_member_single [simp]: "lookup_member [(k', v)] k = (if k = k' then Some v else None)"
  by (simp add: lookup_member_def)

lemma lookup_member_snoc [simp]:
  "lookup_member (kvs @ [(k', v)]) k = (if k = k' then Some v else lookup_member kvs k)"
  by (simp add: lookup_member_def)

lemma member_is_error: "member k j = Inl e \<Longrightarrow> is_error e"
  by (cases j) auto

section \<open>Truthiness and \<^verbatim>\<open>||\<close>\<close>

fun js_truthy :: "json \<Rightarrow> bool" where
  "js_truthy JNull = False"
| "js_truthy (JBool b) = b"
| "js_truthy (JNum n) = (n \<noteq> 0)"
| "js_truthy (JStr s) = truthy s"
| "js_truthy (JArr xs) = True"
| "js_truthy (JObj kvs) = True"

text \<open>\<^verbatim>\<open>v || d\<close> where \<open>v\<close> may be \<^verbatim>\<open>undefined\<close> (\<open>None\<close>).\<close>

definition js_or :: "json option \<Rightarrow> json \<Rightarrow> json" where
  "js_or v d = (case v of None \<Rightarrow> d | Some j \<Rightarrow> if js_truthy j then j else d)"

lemma js_or_simps [simp]:
  "js_or None d = d"
  "js_truthy j \<Longrightarrow> js_or (Some j) d = j"
  "\<not> js_truthy j \<Longrightarrow> js_or (Some j) d = d"
  by (simp_all add: js_or_def)

lemma js_truthy_js_or: "js_truthy d \<Longrightarrow> js_truthy (js_or v d)"
  by (simp add: js_or_def split: option.splits)

section \<open>\<^verbatim>\<open>ToString\<close>\<close>

text \<open>
  An array is joined with commas, \<^verbatim>\<open>null\<close> elements giving the empty string
  (\<^verbatim>\<open>Array.prototype.join\<close>); a plain object is \<^verbatim>\<open>[object Object]\<close>.
\<close>

fun join_comma :: "jsstring list \<Rightarrow> jsstring" where
  "join_comma [] = []"
| "join_comma [s] = s"
| "join_comma (s # t # ss) = s @ 0x2C # join_comma (t # ss)"

fun js_to_string :: "json \<Rightarrow> jsstring" where
  "js_to_string JNull = ascii ''null''"
| "js_to_string (JBool b) = (if b then ascii ''true'' else ascii ''false'')"
| "js_to_string (JNum n) = number_to_string n"
| "js_to_string (JStr s) = s"
| "js_to_string (JArr xs) = join_comma (map (\<lambda>x. if x = JNull then [] else js_to_string x) xs)"
| "js_to_string (JObj kvs) = ascii ''[object Object]''"

text \<open>\<^verbatim>\<open>new Error(v)\<close> for a value \<open>v\<close> that is not \<^verbatim>\<open>undefined\<close>.\<close>

definition new_Error :: "json \<Rightarrow> thrown" where
  "new_Error v = Error_instance (js_to_string v)"

lemma is_error_new_Error [simp]: "is_error (new_Error v)"
  by (simp add: new_Error_def)

lemma new_Error_JStr [simp]: "new_Error (JStr s) = Error_instance s"
  by (simp add: new_Error_def)

lemma js_to_string_truthy:
  "js_truthy j \<Longrightarrow> \<not> is_array j \<Longrightarrow> truthy (js_to_string j)"
  by (cases j) auto

lemma js_to_string_empty_array [simp]: "js_to_string (JArr []) = []"
  by simp

end
