(* ===== verification/Api_Client.thy ===== *)
theory Api_Client
  imports Json
begin

text \<open>
  The HTTP client of \<^verbatim>\<open>src/frontend/src/api/client.ts\<close>: the data transfer
  types, the private \<^verbatim>\<open>request\<close> method and one operation per endpoint.

  An \<^verbatim>\<open>async\<close> method is modelled in two halves. The first half is everything
  up to the first \<^verbatim>\<open>await\<close>: it computes the arguments of \<^verbatim>\<open>fetch\<close> and is a
  function into \<open>fetch_call\<close> named after the method. The second half is what
  the method does with the outcome of \<^verbatim>\<open>fetch\<close>; it is the same for every
  method built on \<^verbatim>\<open>request\<close> (\<open>request_result\<close>) and is written out once more
  in \<^verbatim>\<open>uploadDocument\<close> (\<open>uploadDocument_result\<close>). The outcome itself is an
  input: the network and the backend are the environment.

  The type parameter of \<open>request_result\<close> is the type parameter \<^verbatim>\<open>T\<close> of
  \<^verbatim>\<open>request<T>\<close>: a successful response is taken to carry a value of the type
  the TypeScript signature promises, as the source takes it. An error payload
  has no declared type and is a \<open>json\<close> value.

  \<^verbatim>\<open>JSON.stringify\<close> is not modelled: a request body is the \<open>json\<close> value that is
  serialised. \<^verbatim>\<open>encodeURIComponent\<close> is a parameter of \<open>deleteDocument\<close>.
\<close>

section \<open>Data transfer types\<close>

record Document =
  name :: jsstring
  size_bytes :: int
  last_modified :: "jsstring option"

text \<open>
  The relevance score is a number the client never computes with; its type is
  left open.
\<close>

record 'num SearchResult =
  result_id :: jsstring
  title :: jsstring
  result_content :: jsstring
  file_name :: jsstring
  upload_date :: "jsstring option"
  score :: 'num

datatype role = user | assistant

record ChatMessage =
  role :: role
  content :: jsstring

text \<open>The result types of the endpoint methods, from their signatures.\<close>

record upload_response =
  upload_success :: bool
  upload_file_name :: jsstring
  blob_url :: jsstring
  doc_id :: jsstring

record list_response =
  documents :: "Document list"

record delete_response =
  delete_success :: bool

record 'num search_response =
  results :: "'num SearchResult list"

record summarize_response =
  summary :: jsstring

record question_response =
  answer :: jsstring

record chat_response =
  response :: jsstring

record index_response =
  index_success :: bool
  index_message :: jsstring

record reindex_entry =
  entry_file :: jsstring
  entry_status :: jsstring
  file_type :: "jsstring option"
  text_length :: "int option"
  entry_error :: "jsstring option"

record reindex_response =
  reindex_success :: bool
  total :: int
  indexed :: int
  reindex_results :: "reindex_entry list"

record auth_response =
  auth_success :: bool
  auth_message :: jsstring

record clear_search_response =
  clear_search_success :: bool
  clear_search_message :: jsstring
  clear_search_cleared :: bool
  index_name :: jsstring

record clear_storage_response =
  clear_storage_success :: bool
  clear_storage_message :: jsstring
  clear_storage_cleared :: bool
  deleted_count :: int

text \<open>The browser's \<^verbatim>\<open>File\<close>: only its name is read.\<close>

record browser_file =
  filename :: jsstring

section \<open>Calls of \<^verbatim>\<open>fetch\<close> and their outcomes\<close>

datatype http_method = GET | POST | DELETE

datatype request_body =
    Json_text json
  | Form_data "(jsstring \<times> browser_file) list"

record RequestInit =
  init_method :: "http_method option"
  init_headers :: "(jsstring \<times> jsstring) list"
  init_body :: "request_body option"

record fetch_call =
  url :: jsstring
  init :: RequestInit

text \<open>
  What \<^verbatim>\<open>await fetch(...)\<close> gives: a rejection, or a response whose \<^verbatim>\<open>ok\<close> flag
  chooses how the body is read. The argument of \<open>Response_ok\<close> and
  \<open>Response_not_ok\<close> is the outcome of \<^verbatim>\<open>response.json()\<close>: \<open>Inl\<close> when that
  promise rejects (a body that is not JSON), \<open>Inr\<close> the parsed value.
\<close>

datatype 'a response =
    Response_ok "thrown + 'a"
  | Response_not_ok "thrown + json"

datatype 'a fetch_outcome =
    Fetch_rejected thrown
  | Fetch_resolved "'a response"

section \<open>Configuration\<close>

text \<open>
  \<^verbatim>\<open>import.meta.env.VITE_API_BASE || '/api'\<close>: the argument is the build-time
  variable, \<open>None\<close> when it is not set.
\<close>

definition API_BASE :: "jsstring option \<Rightarrow> jsstring" where
  "API_BASE env = (case env of None \<Rightarrow> ascii ''/api''
                   | Some v \<Rightarrow> if truthy v then v else ascii ''/api'')"

section \<open>The \<^verbatim>\<open>request\<close> method\<close>

definition no_options :: RequestInit where
  "no_options = \<lparr>init_method = None, init_headers = [], init_body = None\<rparr>"

text \<open>An object spread \<^verbatim>\<open>{...a, ...b}\<close> of string-keyed records: later keys win.\<close>

fun spread :: "(jsstring \<times> jsstring) list \<Rightarrow> (jsstring \<times> jsstring) list \<Rightarrow> (jsstring \<times> jsstring) list" where
  "spread a [] = a"
| "spread a ((k, v) # b) =
     spread (if k \<in> fst ` set a then map (\<lambda>(k', v'). if k' = k then (k', v) else (k', v')) a
             else a @ [(k, v)]) b"

definition content_type_json :: "jsstring \<times> jsstring" where
  "content_type_json = (ascii ''Content-Type'', ascii ''application/json'')"

definition request :: "jsstring \<Rightarrow> jsstring \<Rightarrow> RequestInit option \<Rightarrow> fetch_call" where
  "request base endpoint options =
     (let opts = (case options of None \<Rightarrow> no_options | Some opts \<Rightarrow> opts) in
      \<lparr>url = base @ endpoint,
       init = opts\<lparr>init_headers := spread [content_type_json] (init_headers opts)\<rparr>\<rparr>)"

text \<open>
  The second half, with the fallback message as a parameter: the text from
  \<^verbatim>\<open>if (!response.ok)\<close> to \<^verbatim>\<open>return response.json()\<close> occurs twice in the
  source, with \<^verbatim>\<open>'Request failed'\<close> and with \<^verbatim>\<open>'Upload failed'\<close>.
\<close>

definition error_of_payload :: "jsstring \<Rightarrow> thrown + json \<Rightarrow> thrown" where
  "error_of_payload fallback parsed =
     (let error = (case parsed of
                     Inl e \<Rightarrow> JObj [(ascii ''detail'', JStr fallback)]
                   | Inr j \<Rightarrow> j)
      in case member (ascii ''detail'') error of
           Inl type_error \<Rightarrow> type_error
         | Inr detail \<Rightarrow> new_Error (js_or detail (JStr fallback)))"

definition settle :: "jsstring \<Rightarrow> 'a fetch_outcome \<Rightarrow> thrown + 'a" where
  "settle fallback outcome =
     (case outcome of
        Fetch_rejected e \<Rightarrow> Inl e
      | Fetch_resolved (Response_not_ok parsed) \<Rightarrow> Inl (error_of_payload fallback parsed)
      | Fetch_resolved (Response_ok parsed) \<Rightarrow> parsed)"

definition request_result :: "'a fetch_outcome \<Rightarrow> thrown + 'a" where
  "request_result = settle (ascii ''Request failed'')"

section \<open>Document endpoints\<close>

definition uploadDocument :: "jsstring \<Rightarrow> browser_file \<Rightarrow> fetch_call" where
  "uploadDocument base file =
     (let formData = [(ascii ''file'', file)] in
      \<lparr>url = base @ ascii ''/documents/upload'',
       init = \<lparr>init_method = Some POST, init_headers = [], init_body = Some (Form_data formData)\<rparr>\<rparr>)"

definition uploadDocument_result :: "upload_response fetch_outcome \<Rightarrow> thrown + upload_response" where
  "uploadDocument_result = settle (ascii ''Upload failed'')"

definition listDocuments :: "jsstring \<Rightarrow> fetch_call" where
  "listDocuments base = request base (ascii ''/documents'') None"

text \<open>
  \<^verbatim>\<open>encodeURIComponent\<close> throws a URIError on a lone surrogate; the exception
  leaves the \<^verbatim>\<open>async\<close> method as a rejected promise and no request is made.
\<close>

definition deleteDocument ::
    "(jsstring \<Rightarrow> thrown + jsstring) \<Rightarrow> jsstring \<Rightarrow> jsstring \<Rightarrow> thrown + fetch_call" where
  "deleteDocument encodeURIComponent base fileName =
     (case encodeURIComponent fileName of
        Inl uri_error \<Rightarrow> Inl uri_error
      | Inr encoded \<Rightarrow>
          Inr (request base (ascii ''/documents/'' @ encoded)
                 (Some (no_options\<lparr>init_method := Some DELETE\<rparr>))))"

section \<open>Search endpoint\<close>

definition post_json :: "json \<Rightarrow> RequestInit" where
  "post_json j = \<lparr>init_method = Some POST, init_headers = [], init_body = Some (Json_text j)\<rparr>"

definition search :: "jsstring \<Rightarrow> jsstring \<Rightarrow> bool option \<Rightarrow> int option \<Rightarrow> fetch_call" where
  "search base query useVector top' =
     (let useVector = (case useVector of None \<Rightarrow> False | Some b \<Rightarrow> b);
          top' = (case top' of None \<Rightarrow> 5 | Some n \<Rightarrow> n)
      in request base (ascii ''/search'')
           (Some (post_json (JObj [(ascii ''query'', JStr query),
                                   (ascii ''use_vector'', JBool useVector),
                                   (ascii ''top'', JNum top')]))))"

section \<open>AI endpoints\<close>

definition summarize :: "jsstring \<Rightarrow> jsstring \<Rightarrow> int option \<Rightarrow> fetch_call" where
  "summarize base text' maxLength =
     (let maxLength = (case maxLength of None \<Rightarrow> 500 | Some n \<Rightarrow> n)
      in request base (ascii ''/ai/summarize'')
           (Some (post_json (JObj [(ascii ''text'', JStr text'),
                                   (ascii ''max_length'', JNum maxLength)]))))"

text \<open>\<^verbatim>\<open>JSON.stringify\<close> leaves out a member whose value is \<^verbatim>\<open>undefined\<close>.\<close>

definition askQuestion :: "jsstring \<Rightarrow> jsstring \<Rightarrow> jsstring option \<Rightarrow> fetch_call" where
  "askQuestion base question context' =
     request base (ascii ''/ai/question'')
       (Some (post_json (JObj ((ascii ''question'', JStr question) #
                               (case context' of None \<Rightarrow> []
                                | Some c \<Rightarrow> [(ascii ''context'', JStr c)])))))"

fun json_of_role :: "role \<Rightarrow> json" where
  "json_of_role user = JStr (ascii ''user'')"
| "json_of_role assistant = JStr (ascii ''assistant'')"

definition json_of_message :: "ChatMessage \<Rightarrow> json" where
  "json_of_message m = JObj [(ascii ''role'', json_of_role (role m)), (ascii ''content'', JStr (content m))]"

definition chat :: "jsstring \<Rightarrow> ChatMessage list \<Rightarrow> bool option \<Rightarrow> bool option \<Rightarrow> fetch_call" where
  "chat base messages useSearch useSemantic =
     (let useSearch = (case useSearch of None \<Rightarrow> False | Some b \<Rightarrow> b);
          useSemantic = (case useSemantic of None \<Rightarrow> False | Some b \<Rightarrow> b)
      in request base (ascii ''/ai/chat'')
           (Some (post_json (JObj [(ascii ''messages'', JArr (map json_of_message messages)),
                                   (ascii ''use_search'', JBool useSearch),
                                   (ascii ''use_semantic'', JBool useSemantic)]))))"

section \<open>Admin endpoints\<close>

definition post_empty :: RequestInit where
  "post_empty = no_options\<lparr>init_method := Some POST\<rparr>"

definition createIndex :: "jsstring \<Rightarrow> fetch_call" where
  "createIndex base = request base (ascii ''/admin/create-index'') (Some post_empty)"

definition reindexAll :: "jsstring \<Rightarrow> fetch_call" where
  "reindexAll base = request base (ascii ''/admin/reindex-all'') (Some post_empty)"

definition password_body :: "jsstring \<Rightarrow> json" where
  "password_body password = JObj [(ascii ''password'', JStr password)]"

definition adminAuth :: "jsstring \<Rightarrow> jsstring \<Rightarrow> fetch_call" where
  "adminAuth base password =
     request base (ascii ''/admin/auth'') (Some (post_json (password_body password)))"

definition clearSearch :: "jsstring \<Rightarrow> jsstring \<Rightarrow> fetch_call" where
  "clearSearch base password =
     request base (ascii ''/admin/clear-search'') (Some (post_json (password_body password)))"

definition clearStorage :: "jsstring \<Rightarrow> jsstring \<Rightarrow> fetch_call" where
  "clearStorage base password =
     request base (ascii ''/admin/clear-storage'') (Some (post_json (password_body password)))"

lemmas endpoint_defs [api_defs] =
  uploadDocument_def listDocuments_def deleteDocument_def search_def summarize_def
  askQuestion_def chat_def createIndex_def reindexAll_def adminAuth_def clearSearch_def
  clearStorage_def

lemmas request_defs [api_defs] =
  request_def no_options_def post_json_def post_empty_def content_type_json_def password_body_def

section \<open>What the second half returns\<close>

text \<open>
  \<open>rejects_with_errors\<close> says of an outcome that whatever the platform threw is
  an \<^verbatim>\<open>Error\<close> object, which is what \<^verbatim>\<open>fetch\<close> and \<^verbatim>\<open>Response.json\<close> are
  specified to do (TypeError, SyntaxError, DOMException).
\<close>

fun rejects_with_errors :: "'a fetch_outcome \<Rightarrow> bool" where
  "rejects_with_errors (Fetch_rejected e) = is_error e"
| "rejects_with_errors (Fetch_resolved (Response_ok (Inl e))) = is_error e"
| "rejects_with_errors (Fetch_resolved r) = True"

definition sends_json :: "fetch_call \<Rightarrow> bool" where
  "sends_json c \<longleftrightarrow> init_headers (init c) = [content_type_json]"

text \<open>
  The \<^verbatim>\<open>detail\<close> of an error payload that the client will show: the payload is an
  object, it has the member, and the member is truthy.
\<close>

fun usable_detail :: "thrown + json \<Rightarrow> json option" where
  "usable_detail (Inr (JObj kvs)) =
     (case lookup_member kvs (ascii ''detail'') of
        None \<Rightarrow> None
      | Some d \<Rightarrow> if js_truthy d then Some d else None)"
| "usable_detail q = None"

lemma settle_simps [simp]:
  "settle fb (Fetch_rejected e) = Inl e"
  "settle fb (Fetch_resolved (Response_ok p)) = p"
  "settle fb (Fetch_resolved (Response_not_ok q)) = Inl (error_of_payload fb q)"
  by (simp_all add: settle_def)

lemma error_of_payload_unparsable [simp]: "error_of_payload fb (Inl e) = Error_instance fb"
  by (simp add: error_of_payload_def js_or_def)

lemma error_of_payload_null [simp]:
  "error_of_payload fb (Inr JNull) = null_property_error (ascii ''detail'')"
  by (simp add: error_of_payload_def)

lemma error_of_payload_object:
  "error_of_payload fb (Inr (JObj kvs)) =
     new_Error (js_or (lookup_member kvs (ascii ''detail'')) (JStr fb))"
  by (simp add: error_of_payload_def)

lemma error_of_payload_other:
  "j \<noteq> JNull \<Longrightarrow> \<not> is_object j \<Longrightarrow> error_of_payload fb (Inr j) = Error_instance fb"
  by (cases j) (simp_all add: error_of_payload_def)

lemma is_error_error_of_payload [simp]: "is_error (error_of_payload fb q)"
  by (auto simp: error_of_payload_def split: sum.splits dest: member_is_error)

lemma settle_Inr_iff: "settle fb out = Inr v \<longleftrightarrow> out = Fetch_resolved (Response_ok (Inr v))"
proof (cases out)
  case (Fetch_rejected e)
  then show ?thesis by simp
next
  case (Fetch_resolved r)
  then show ?thesis by (cases r) auto
qed

lemma settle_is_error: "rejects_with_errors out \<Longrightarrow> settle fb out = Inl e \<Longrightarrow> is_error e"
proof (cases out)
  case (Fetch_rejected e')
  then show "rejects_with_errors out \<Longrightarrow> settle fb out = Inl e \<Longrightarrow> is_error e" by simp
next
  case (Fetch_resolved r)
  then show "rejects_with_errors out \<Longrightarrow> settle fb out = Inl e \<Longrightarrow> is_error e"
    by (cases r) auto
qed

lemma settle_fallback_only:
  "settle fb out = settle fb' out \<or>
   (settle fb out = Inl (Error_instance fb) \<and> settle fb' out = Inl (Error_instance fb'))"
proof (cases out)
  case (Fetch_rejected e)
  then show ?thesis by simp
next
  case (Fetch_resolved r)
  show ?thesis
  proof (cases r)
    case (Response_ok p)
    with Fetch_resolved show ?thesis by simp
  next
    case (Response_not_ok q)
    have "error_of_payload fb q = error_of_payload fb' q \<or>
          (error_of_payload fb q = Error_instance fb \<and> error_of_payload fb' q = Error_instance fb')"
      by (auto simp: error_of_payload_def js_or_def split: sum.splits option.splits)
    with Fetch_resolved Response_not_ok show ?thesis by auto
  qed
qed

lemma spread_Nil [simp]: "spread a [] = a"
  by simp

lemma request_url [simp]: "url (request base endpoint options) = base @ endpoint"
  by (simp add: request_def Let_def)

lemma request_no_headers:
  "(case options of None \<Rightarrow> True | Some opts \<Rightarrow> init_headers opts = []) \<Longrightarrow>
   sends_json (request base endpoint options)"
  by (simp add: request_def sends_json_def no_options_def Let_def split: option.splits)

lemma request_method [simp]:
  "init_method (init (request base endpoint options)) =
     (case options of None \<Rightarrow> None | Some opts \<Rightarrow> init_method opts)"
  by (simp add: request_def no_options_def Let_def split: option.splits)

lemma request_body [simp]:
  "init_body (init (request base endpoint options)) =
     (case options of None \<Rightarrow> None | Some opts \<Rightarrow> init_body opts)"
  by (simp add: request_def no_options_def Let_def split: option.splits)

lemma json_of_role_inj: "json_of_role r = json_of_role r' \<Longrightarrow> r = r'"
  by (cases r; cases r') simp_all

lemma json_of_message_inj: "json_of_message m = json_of_message m' \<Longrightarrow> m = m'"
  by (cases m; cases m') (auto simp: json_of_message_def dest: json_of_role_inj)

lemma map_json_of_message_inj: "map json_of_message ms = map json_of_message ms' \<Longrightarrow> ms = ms'"
  by (rule map_injective) (auto intro: injI dest: json_of_message_inj)

lemma chat_body:
  "init_body (init (chat base ms s e)) =
     Some (Json_text (JObj [(ascii ''messages'', JArr (map json_of_message ms)),
                            (ascii ''use_search'', JBool (case s of None \<Rightarrow> False | Some b \<Rightarrow> b)),
                            (ascii ''use_semantic'', JBool (case e of None \<Rightarrow> False | Some b \<Rightarrow> b))]))"
  by (simp add: chat_def post_json_def Let_def)

lemma error_of_payload_usable:
  "usable_detail q = Some d \<Longrightarrow> error_of_payload fb q = new_Error d"
  by (induction q rule: usable_detail.induct)
     (auto simp: error_of_payload_object split: option.splits if_splits)

lemma error_of_payload_fallback:
  "usable_detail q = None \<Longrightarrow> q \<noteq> Inr JNull \<Longrightarrow> error_of_payload fb q = Error_instance fb"
  by (induction q rule: usable_detail.induct)
     (auto simp: error_of_payload_object error_of_payload_other split: option.splits if_splits)

section \<open>Properties of the client\<close>

text \<open>
  C27: A method built on \<^verbatim>\<open>request\<close> resolves with a value exactly when \<^verbatim>\<open>fetch\<close>
  resolved, the response was \<^verbatim>\<open>ok\<close> and its body parsed; in every other case it
  rejects.
\<close>

theorem request_result_success_iff:
  "request_result out = Inr v \<longleftrightarrow> out = Fetch_resolved (Response_ok (Inr v))"
  by (simp add: request_result_def settle_Inr_iff)

text \<open>
  C17: For a response that is not \<^verbatim>\<open>ok\<close> and whose payload is an object with a
  truthy \<^verbatim>\<open>detail\<close>, \<^verbatim>\<open>request\<close> rejects with an \<^verbatim>\<open>Error\<close> whose message is
  \<^verbatim>\<open>detail\<close> converted to a string.
\<close>

theorem request_result_detail_message:
  assumes "usable_detail q = Some d"
  shows "request_result (Fetch_resolved (Response_not_ok q)) = Inl (Error_instance (js_to_string d))"
  using assms by (simp add: request_result_def error_of_payload_usable new_Error_def)

theorem request_result_detail_message_witness:
  "request_result (Fetch_resolved (Response_not_ok
       (Inr (JObj [(ascii ''detail'', JStr (ascii ''File not found''))])))) =
     (Inl (Error_instance (js_to_string (JStr (ascii ''File not found'')))) :: thrown + chat_response)"
  by (rule request_result_detail_message) simp

text \<open>
  C16: For a response that is not \<^verbatim>\<open>ok\<close> and has no usable \<^verbatim>\<open>detail\<close> (the body is
  not JSON, or is not an object, or has no \<^verbatim>\<open>detail\<close>, or a falsy one), and whose
  payload is not \<^verbatim>\<open>null\<close>, \<^verbatim>\<open>request\<close> rejects with the message
  \<^verbatim>\<open>'Request failed'\<close>.
\<close>

theorem request_result_fallback:
  assumes "usable_detail q = None" and "q \<noteq> Inr JNull"
  shows "request_result (Fetch_resolved (Response_not_ok q)) =
           Inl (Error_instance (ascii ''Request failed''))"
  using assms by (simp add: request_result_def error_of_payload_fallback)

theorem request_result_fallback_witness:
  "request_result (Fetch_resolved (Response_not_ok
       (Inr (JObj [(ascii ''detail'', JStr [])])))) =
     (Inl (Error_instance (ascii ''Request failed'')) :: thrown + chat_response)"
  by (rule request_result_fallback) simp_all

text \<open>
  C29: Among the error responses without a usable \<^verbatim>\<open>detail\<close>, the JSON value
  \<^verbatim>\<open>null\<close> is the only one for which \<^verbatim>\<open>request\<close> does not reject with the fallback
  message: reading \<^verbatim>\<open>error.detail\<close> throws there, and the caller gets that
  TypeError.
\<close>

theorem request_result_null_payload:
  assumes "usable_detail q = None"
  shows "request_result (Fetch_resolved (Response_not_ok q)) =
           Inl (Error_instance (ascii ''Request failed'')) \<longleftrightarrow> q \<noteq> Inr JNull"
proof (cases "q = Inr JNull")
  case True
  then show ?thesis
    by (simp add: request_result_def null_property_error_def)
next
  case False
  with assms show ?thesis
    by (simp add: request_result_def error_of_payload_fallback)
qed

theorem request_result_null_payload_witness:
  "(request_result (Fetch_resolved (Response_not_ok (Inr JNull))) =
      (Inl (Error_instance (ascii ''Request failed'')) :: thrown + chat_response)) \<longleftrightarrow>
   (Inr JNull :: thrown + json) \<noteq> Inr JNull"
  by (rule request_result_null_payload) simp

text \<open>
  C36: If the platform rejects only with \<^verbatim>\<open>Error\<close> objects, so does \<^verbatim>\<open>request\<close>:
  whatever a caller catches passes its \<^verbatim>\<open>instanceof Error\<close> test.
\<close>

theorem request_failures_are_errors:
  assumes "rejects_with_errors out" and "request_result out = Inl e"
  shows "is_error e"
  using assms by (auto simp: request_result_def dest: settle_is_error)

theorem request_failures_are_errors_witness:
  "is_error (null_property_error (ascii ''detail''))"
  by (rule request_failures_are_errors
        [where out = "Fetch_resolved (Response_not_ok (Inr JNull)) :: chat_response fetch_outcome"])
     (simp_all add: request_result_def)

text \<open>
  C38: The error handling written out in \<^verbatim>\<open>uploadDocument\<close> agrees with that of
  \<^verbatim>\<open>request\<close> on every outcome, up to the fallback text.
\<close>

theorem upload_result_agrees_with_request:
  "uploadDocument_result out = request_result out \<or>
   (uploadDocument_result out = Inl (Error_instance (ascii ''Upload failed'')) \<and>
    request_result out = Inl (Error_instance (ascii ''Request failed'')))"
  unfolding uploadDocument_result_def request_result_def by (rule settle_fallback_only)

text \<open>
  Every endpoint method built on \<^verbatim>\<open>request\<close> sends exactly the header
  \<^verbatim>\<open>Content-Type: application/json\<close>; \<^verbatim>\<open>uploadDocument\<close>, which calls \<^verbatim>\<open>fetch\<close>
  itself, sends no header, a POST and the file under the form key \<^verbatim>\<open>file\<close>.
\<close>

theorem endpoint_headers:
  "sends_json (listDocuments b) \<and> sends_json (search b q v t) \<and> sends_json (summarize b x m) \<and>
   sends_json (askQuestion b q c) \<and> sends_json (chat b ms s e) \<and> sends_json (createIndex b) \<and>
   sends_json (reindexAll b) \<and> sends_json (adminAuth b p) \<and> sends_json (clearSearch b p) \<and>
   sends_json (clearStorage b p) \<and>
   init (uploadDocument b f) =
     \<lparr>init_method = Some POST, init_headers = [],
      init_body = Some (Form_data [(ascii ''file'', f)])\<rparr>"
  by (simp add: endpoint_defs post_json_def post_empty_def no_options_def Let_def
        request_no_headers)

text \<open>
  The body of a chat request determines the message history it was made
  from: two calls of \<^verbatim>\<open>chat\<close> that produce the same request carry the same
  messages, in the same order.
\<close>

theorem chat_request_determines_history:
  assumes "chat b ms s e = chat b' ms' s' e'"
  shows "ms = ms'"
proof -
  from assms have "init_body (init (chat b ms s e)) = init_body (init (chat b' ms' s' e'))"
    by simp
  then have "map json_of_message ms = map json_of_message ms'"
    by (simp add: chat_body)
  then show ?thesis
    by (rule map_json_of_message_inj)
qed

theorem chat_request_determines_history_witness:
  "[\<lparr>role = user, content = ascii ''hi''\<rparr>] = [\<lparr>role = user, content = ascii ''hi''\<rparr>]"
  by (rule chat_request_determines_history [where b = "[]" and b' = "[]" and s = None and s' = None
        and e = None and e' = None]) simp

end
