(* ===== verification/Chat.thy ===== *)
theory Chat
  imports Api_Client
begin

text \<open>
  The chat panel of \<^verbatim>\<open>src/frontend/src/components/Chat.tsx\<close>.

  \<^descr>[State] \<open>chat_state\<close> has one field per \<^verbatim>\<open>useState\<close> hook, \<open>initial_chat\<close> their
  initial values.
  \<^descr>[Handlers] One definition per handler. \<^verbatim>\<open>handleSend\<close> is \<^verbatim>\<open>async\<close>: \<open>handleSend\<close>
  is its text up to the \<^verbatim>\<open>await\<close> (guard, state updates, the call of
  \<^verbatim>\<open>apiClient.chat\<close>) and returns, beside the new state, the call of \<^verbatim>\<open>fetch\<close> it
  makes and the value its continuation closes over (\<^verbatim>\<open>newMessages\<close>);
  \<open>handleSend_settled\<close> is the rest of the \<^verbatim>\<open>try\<close>/\<^verbatim>\<open>catch\<close>/\<^verbatim>\<open>finally\<close>, run when
  the promise settles, on the state of that moment.
  \<^descr>[View] \<open>render_Chat\<close> is the JSX as a record of what is shown and what is
  disabled.
  \<^descr>[System] \<open>chat_step\<close> runs one event on a configuration: the state, the
  continuations in flight and the calls made so far. A user event on a disabled
  control does nothing, since the browser does not dispatch it. \<open>Settled i out\<close>
  is the environment completing the \<open>i\<close>-th pending call with outcome \<open>out\<close>.

  A handler sees the state of the latest render, and the updates of one
  synchronous stretch of a handler are applied together; this is how React
  treats discrete events.
\<close>

section \<open>State\<close>

record chat_state =
  messages :: "ChatMessage list"
  input :: jsstring
  useSearch :: bool
  loading :: bool
  error :: "jsstring option"

definition initial_chat :: chat_state where
  "initial_chat = \<lparr>messages = [], input = [], useSearch = True, loading = False, error = None\<rparr>"

section \<open>Handlers\<close>

text \<open>The fallback text of the \<^verbatim>\<open>catch\<close> clause (line 35), as code units.\<close>

definition msg_response_failed :: jsstring where
  "msg_response_failed =
     [0x5FDC, 0x7B54, 0x306E, 0x53D6, 0x5F97, 0x306B, 0x5931, 0x6557, 0x3057, 0x307E, 0x3057, 0x305F]"

definition handleSend ::
    "jsstring \<Rightarrow> chat_state \<Rightarrow> chat_state \<times> (ChatMessage list \<times> fetch_call) option" where
  "handleSend base s =
     (if \<not> truthy (trim (input s)) \<or> loading s then (s, None)
      else
        let userMessage = \<lparr>role = user, content = input s\<rparr>;
            newMessages = messages s @ [userMessage]
        in (s\<lparr>messages := newMessages, input := [], loading := True, error := None\<rparr>,
            Some (newMessages, chat base newMessages (Some (useSearch s)) None)))"

definition handleSend_settled ::
    "ChatMessage list \<Rightarrow> thrown + chat_response \<Rightarrow> chat_state \<Rightarrow> chat_state" where
  "handleSend_settled newMessages settled s =
     (case settled of
        Inr resp \<Rightarrow>
          let assistantMessage = \<lparr>role = assistant, content = response resp\<rparr>
          in s\<lparr>messages := newMessages @ [assistantMessage], loading := False\<rparr>
      | Inl err \<Rightarrow>
          s\<lparr>error := Some (catch_message err msg_response_failed), loading := False\<rparr>)"

record key_event =
  key :: jsstring
  shiftKey :: bool

text \<open>The third component says whether \<^verbatim>\<open>preventDefault\<close> was called.\<close>

definition handleKeyPress ::
    "jsstring \<Rightarrow> key_event \<Rightarrow> chat_state \<Rightarrow>
     chat_state \<times> (ChatMessage list \<times> fetch_call) option \<times> bool" where
  "handleKeyPress base e s =
     (if key e = ascii ''Enter'' \<and> \<not> shiftKey e
      then (fst (handleSend base s), snd (handleSend base s), True)
      else (s, None, False))"

definition clearChat :: "chat_state \<Rightarrow> chat_state" where
  "clearChat s = s\<lparr>messages := [], error := None\<rparr>"

section \<open>View\<close>

record chat_view =
  error_banner :: "jsstring option"
  empty_state :: bool
  bubbles :: "(role \<times> bool \<times> jsstring) list"
  thinking :: bool
  search_checked :: bool
  clear_highlighted :: bool
  input_value :: jsstring
  input_disabled :: bool
  send_disabled :: bool
  send_icon :: jsstring

definition render_Chat :: "chat_state \<Rightarrow> chat_view" where
  "render_Chat s =
     \<lparr>error_banner = (if truthy_opt (error s) then error s else None),
      empty_state = (length (messages s) = 0),
      bubbles = (if length (messages s) = 0 then []
                 else map (\<lambda>msg. (role msg, role msg = assistant, content msg)) (messages s)),
      thinking = (length (messages s) \<noteq> 0 \<and> loading s),
      search_checked = useSearch s,
      clear_highlighted = (length (messages s) > 0),
      input_value = input s,
      input_disabled = loading s,
      send_disabled = (loading s \<or> \<not> truthy (trim (input s))),
      send_icon = (if loading s then [0x23F3] else [0xD83D, 0xDE80])\<rparr>"

section \<open>The panel as a system\<close>

datatype chat_event =
    Change_input jsstring
  | Toggle_search bool
  | Click_send
  | Key_press key_event
  | Click_clear
  | Settled nat "chat_response fetch_outcome"

record chat_config =
  ui :: chat_state
  inflight :: "ChatMessage list list"
  sent :: "fetch_call list"

definition initial_config :: chat_config where
  "initial_config = \<lparr>ui = initial_chat, inflight = [], sent = []\<rparr>"

definition launch :: "chat_config \<Rightarrow> chat_state \<times> (ChatMessage list \<times> fetch_call) option \<Rightarrow> chat_config" where
  "launch c r =
     (case snd r of
        None \<Rightarrow> c\<lparr>ui := fst r\<rparr>
      | Some (k, call) \<Rightarrow> c\<lparr>ui := fst r, inflight := inflight c @ [k], sent := sent c @ [call]\<rparr>)"

fun chat_step :: "jsstring \<Rightarrow> chat_config \<Rightarrow> chat_event \<Rightarrow> chat_config" where
  "chat_step base c (Change_input v) =
     (if input_disabled (render_Chat (ui c)) then c else c\<lparr>ui := (ui c)\<lparr>input := v\<rparr>\<rparr>)"
| "chat_step base c (Toggle_search b) = c\<lparr>ui := (ui c)\<lparr>useSearch := b\<rparr>\<rparr>"
| "chat_step base c Click_send =
     (if send_disabled (render_Chat (ui c)) then c else launch c (handleSend base (ui c)))"
| "chat_step base c (Key_press e) =
     (if input_disabled (render_Chat (ui c)) then c
      else launch c (fst (handleKeyPress base e (ui c)), fst (snd (handleKeyPress base e (ui c)))))"
| "chat_step base c Click_clear = c\<lparr>ui := clearChat (ui c)\<rparr>"
| "chat_step base c (Settled i out) =
     (if i < length (inflight c)
      then c\<lparr>ui := handleSend_settled (inflight c ! i) (request_result out) (ui c),
             inflight := remove_nth i (inflight c)\<rparr>
      else c)"

fun chat_run :: "jsstring \<Rightarrow> chat_config \<Rightarrow> chat_event list \<Rightarrow> chat_config" where
  "chat_run base c [] = c"
| "chat_run base c (e # es) = chat_run base (chat_step base c e) es"

inductive chat_reachable :: "jsstring \<Rightarrow> chat_config \<Rightarrow> bool" for base where
  start: "chat_reachable base initial_config"
| step: "chat_reachable base c \<Longrightarrow> chat_reachable base (chat_step base c e)"

section \<open>Invariants\<close>

text \<open>
  \<open>answers_follow p ms\<close>: in \<open>ms\<close>, every assistant message comes directly after
  a user message; \<open>p\<close> says whether the message before \<open>ms\<close> was a user message.
\<close>

fun answers_follow :: "bool \<Rightarrow> ChatMessage list \<Rightarrow> bool" where
  "answers_follow p [] = True"
| "answers_follow p (m # ms) =
     (case role m of
        user \<Rightarrow> answers_follow True ms
      | assistant \<Rightarrow> p \<and> answers_follow False ms)"

definition history_ok :: "ChatMessage list \<Rightarrow> bool" where
  "history_ok ms \<longleftrightarrow>
     answers_follow False ms \<and> list_all (\<lambda>m. role m = user \<longrightarrow> \<not> blank (content m)) ms"

definition ends_with_question :: "ChatMessage list \<Rightarrow> bool" where
  "ends_with_question ms \<longleftrightarrow> ms \<noteq> [] \<and> role (last ms) = user"

definition one_at_a_time :: "chat_config \<Rightarrow> bool" where
  "one_at_a_time c \<longleftrightarrow> length (inflight c) \<le> 1 \<and> (loading (ui c) \<longleftrightarrow> inflight c \<noteq> [])"

definition histories_ok :: "chat_config \<Rightarrow> bool" where
  "histories_ok c \<longleftrightarrow>
     history_ok (messages (ui c)) \<and>
     list_all (\<lambda>k. history_ok k \<and> ends_with_question k) (inflight c)"

definition is_chat_call :: "jsstring \<Rightarrow> fetch_call \<Rightarrow> bool" where
  "is_chat_call base call \<longleftrightarrow>
     url call = base @ ascii ''/ai/chat'' \<and> init_method (init call) = Some POST \<and> sends_json call"

lemmas chat_handler_defs [handler_defs] =
  handleSend_def handleSend_settled_def handleKeyPress_def clearChat_def launch_def

lemmas chat_view_defs [view_defs] = render_Chat_def

lemmas chat_inv_defs [inv_defs] =
  history_ok_def ends_with_question_def one_at_a_time_def histories_ok_def

section \<open>The handlers, branch by branch\<close>

lemma handleSend_refused:
  "blank (input s) \<or> loading s \<Longrightarrow> handleSend base s = (s, None)"
  by (auto simp: handleSend_def blank_def)

lemma handleSend_accepted:
  assumes "\<not> blank (input s)" and "\<not> loading s"
  shows "handleSend base s =
           (s\<lparr>messages := messages s @ [\<lparr>role = user, content = input s\<rparr>],
              input := [], loading := True, error := None\<rparr>,
            Some (messages s @ [\<lparr>role = user, content = input s\<rparr>],
                  chat base (messages s @ [\<lparr>role = user, content = input s\<rparr>])
                    (Some (useSearch s)) None))"
  using assms by (simp add: handleSend_def blank_def Let_def)

lemma send_disabled_iff [simp]:
  "send_disabled (render_Chat s) \<longleftrightarrow> loading s \<or> blank (input s)"
  by (simp add: render_Chat_def blank_def)

lemma input_disabled_iff [simp]: "input_disabled (render_Chat s) \<longleftrightarrow> loading s"
  by (simp add: render_Chat_def)

lemma handleSend_settled_simps [simp]:
  "handleSend_settled k (Inr resp) s =
     s\<lparr>messages := k @ [\<lparr>role = assistant, content = response resp\<rparr>], loading := False\<rparr>"
  "handleSend_settled k (Inl err) s =
     s\<lparr>error := Some (catch_message err msg_response_failed), loading := False\<rparr>"
  by (simp_all add: handleSend_settled_def)

lemma loading_handleSend_settled [simp]: "loading (handleSend_settled k r s) = False"
  by (cases r) simp_all

lemma messages_handleSend_settled:
  "messages (handleSend_settled k r s) =
     (case r of Inl err \<Rightarrow> messages s
      | Inr resp \<Rightarrow> k @ [\<lparr>role = assistant, content = response resp\<rparr>])"
  by (cases r) simp_all

lemma handleKeyPress_Enter:
  "handleKeyPress base \<lparr>key = ascii ''Enter'', shiftKey = False\<rparr> s =
     (fst (handleSend base s), snd (handleSend base s), True)"
  by (simp add: handleKeyPress_def)

lemma handleKeyPress_other:
  "key e \<noteq> ascii ''Enter'' \<or> shiftKey e \<Longrightarrow> handleKeyPress base e s = (s, None, False)"
  by (auto simp: handleKeyPress_def)

lemma is_chat_call_chat [simp]: "is_chat_call base (chat base ms s e)"
  by (simp add: is_chat_call_def chat_def Let_def post_json_def request_no_headers)

section \<open>Well-formed histories\<close>

lemma answers_follow_append:
  "answers_follow p (xs @ ys) \<longleftrightarrow>
     answers_follow p xs \<and> answers_follow (if xs = [] then p else role (last xs) = user) ys"
  by (induction xs arbitrary: p) (auto split: role.splits)

lemma history_ok_Nil [simp]: "history_ok []"
  by (simp add: history_ok_def)

lemma history_ok_snoc_user [simp]:
  "history_ok (ms @ [\<lparr>role = user, content = t\<rparr>]) \<longleftrightarrow> history_ok ms \<and> \<not> blank t"
  by (auto simp: history_ok_def answers_follow_append)

lemma history_ok_snoc_assistant [simp]:
  "history_ok (ms @ [\<lparr>role = assistant, content = t\<rparr>]) \<longleftrightarrow> history_ok ms \<and> ends_with_question ms"
  by (auto simp: history_ok_def answers_follow_append ends_with_question_def)

lemma ends_with_question_snoc [simp]: "ends_with_question (ms @ [m]) \<longleftrightarrow> role m = user"
  by (simp add: ends_with_question_def)

lemma history_ok_first_is_question: "history_ok (m # ms) \<Longrightarrow> role m = user"
  by (cases "role m") (simp_all add: history_ok_def)

section \<open>Every step keeps the invariants\<close>

lemma launch_handleSend:
  "launch c (handleSend base (ui c)) =
     (if blank (input (ui c)) \<or> loading (ui c) then c
      else c\<lparr>ui := (ui c)\<lparr>messages := messages (ui c) @ [\<lparr>role = user, content = input (ui c)\<rparr>],
                        input := [], loading := True, error := None\<rparr>,
             inflight := inflight c @ [messages (ui c) @ [\<lparr>role = user, content = input (ui c)\<rparr>]],
             sent := sent c @ [chat base (messages (ui c) @ [\<lparr>role = user, content = input (ui c)\<rparr>])
                                 (Some (useSearch (ui c))) None]\<rparr>)"
  by (auto simp: launch_def handleSend_refused handleSend_accepted)

lemma launch_handleKeyPress:
  "launch c (fst (handleKeyPress base e (ui c)), fst (snd (handleKeyPress base e (ui c)))) =
     (if key e = ascii ''Enter'' \<and> \<not> shiftKey e then launch c (handleSend base (ui c)) else c)"
  by (simp add: handleKeyPress_def launch_def split: option.splits)

lemma one_at_a_time_step: "one_at_a_time c \<Longrightarrow> one_at_a_time (chat_step base c e)"
  by (cases e)
     (auto simp: one_at_a_time_def launch_handleSend launch_handleKeyPress clearChat_def
                 remove_nth_short)

lemma histories_ok_settled:
  assumes "histories_ok c" and "i < length (inflight c)"
  shows "histories_ok (c\<lparr>ui := handleSend_settled (inflight c ! i) r (ui c),
                         inflight := remove_nth i (inflight c)\<rparr>)"
proof -
  from assms have "history_ok (inflight c ! i) \<and> ends_with_question (inflight c ! i)"
    by (auto simp: histories_ok_def dest: list_all_nthD)
  with assms(1) show ?thesis
    by (cases r) (simp_all add: histories_ok_def list_all_remove_nth)
qed

lemma histories_ok_step: "histories_ok c \<Longrightarrow> histories_ok (chat_step base c e)"
  by (cases e)
     (auto simp: histories_ok_settled launch_handleSend launch_handleKeyPress,
      auto simp: histories_ok_def clearChat_def)

lemma sent_step: "list_all (is_chat_call base) (sent c) \<Longrightarrow> list_all (is_chat_call base) (sent (chat_step base c e))"
  by (cases e) (auto simp: launch_handleSend launch_handleKeyPress)

lemma one_at_a_time_initial [simp]: "one_at_a_time initial_config"
  by (simp add: one_at_a_time_def initial_config_def initial_chat_def)

lemma histories_ok_initial [simp]: "histories_ok initial_config"
  by (simp add: histories_ok_def initial_config_def initial_chat_def)

lemma reachable_one_at_a_time: "chat_reachable base c \<Longrightarrow> one_at_a_time c"
  by (induction rule: chat_reachable.induct) (simp_all add: one_at_a_time_step)

lemma reachable_histories_ok: "chat_reachable base c \<Longrightarrow> histories_ok c"
  by (induction rule: chat_reachable.induct) (simp_all add: histories_ok_step)

lemma reachable_sent: "chat_reachable base c \<Longrightarrow> list_all (is_chat_call base) (sent c)"
  by (induction rule: chat_reachable.induct) (simp_all add: sent_step initial_config_def)

lemma reachable_run: "chat_reachable base c \<Longrightarrow> chat_reachable base (chat_run base c es)"
  by (induction es arbitrary: c) (auto intro: chat_reachable.step)

lemma chat_run_append [simp]: "chat_run base c (es @ fs) = chat_run base (chat_run base c es) fs"
  by (induction es arbitrary: c) simp_all

lemma settled_one_at_a_time:
  assumes "one_at_a_time c" and "loading (ui c)"
  shows "chat_step base c (Settled 0 out) =
           c\<lparr>ui := handleSend_settled (hd (inflight c)) (request_result out) (ui c), inflight := []\<rparr>"
proof -
  from assms obtain k where "inflight c = [k]"
    by (cases "inflight c") (auto simp: one_at_a_time_def)
  then show ?thesis by simp
qed

lemma pending_single:
  assumes "one_at_a_time c" and "loading (ui c)"
  obtains k where "inflight c = [k]"
  using assms by (cases "inflight c") (auto simp: one_at_a_time_def)

text \<open>A run used to instantiate the theorems below: type \<^verbatim>\<open>hi\<close>, press send.\<close>

lemma not_blank_hi [simp]: "\<not> blank (ascii ''hi'')"
  by (simp add: is_white_space_def)

lemma example_run:
  "chat_run base initial_config [Change_input (ascii ''hi''), Click_send] =
     \<lparr>ui = \<lparr>messages = [\<lparr>role = user, content = ascii ''hi''\<rparr>], input = [], useSearch = True,
            loading = True, error = None\<rparr>,
      inflight = [[\<lparr>role = user, content = ascii ''hi''\<rparr>]],
      sent = [chat base [\<lparr>role = user, content = ascii ''hi''\<rparr>] (Some True) None]\<rparr>"
  by (simp add: initial_config_def initial_chat_def launch_def handleSend_def trim_def
        is_white_space_def Let_def)

section \<open>Properties of the chat panel\<close>

text \<open>
  C24: While the input is blank (empty or only white space) or a request is
  pending, neither the send button nor the Enter key does anything: the state
  is unchanged and no request is made.
\<close>

theorem send_refused:
  assumes "blank (input (ui c)) \<or> loading (ui c)"
  shows "chat_step base c Click_send = c \<and>
         chat_step base c (Key_press \<lparr>key = ascii ''Enter'', shiftKey = False\<rparr>) = c"
  using assms by (auto simp: launch_handleSend launch_handleKeyPress)

theorem send_refused_witness:
  "chat_step [] initial_config Click_send = initial_config \<and>
   chat_step [] initial_config (Key_press \<lparr>key = ascii ''Enter'', shiftKey = False\<rparr>) = initial_config"
  by (rule send_refused) (simp add: initial_config_def initial_chat_def)

text \<open>
  C4: A send with a non-blank input and no request pending appends one user
  message holding the input as typed, empties the input, sets the loading flag,
  clears the error, and makes exactly one call: \<^verbatim>\<open>chat\<close> with the whole history
  including the new message, the retrieval toggle, and \<^verbatim>\<open>useSemantic\<close> left to
  its default.
\<close>

theorem send_accepted:
  assumes "\<not> blank (input (ui c))" and "\<not> loading (ui c)"
  shows "chat_step base c Click_send =
           c\<lparr>ui := (ui c)\<lparr>messages := messages (ui c) @ [\<lparr>role = user, content = input (ui c)\<rparr>],
                            input := [], loading := True, error := None\<rparr>,
              inflight := inflight c @ [messages (ui c) @ [\<lparr>role = user, content = input (ui c)\<rparr>]],
              sent := sent c @ [chat base (messages (ui c) @ [\<lparr>role = user, content = input (ui c)\<rparr>])
                                  (Some (useSearch (ui c))) None]\<rparr>"
  using assms by (simp add: launch_handleSend)

theorem send_accepted_witness:
  "chat_step [] (initial_config\<lparr>ui := initial_chat\<lparr>input := ascii ''hi''\<rparr>\<rparr>) Click_send =
     \<lparr>ui = \<lparr>messages = [\<lparr>role = user, content = ascii ''hi''\<rparr>], input = [], useSearch = True,
            loading = True, error = None\<rparr>,
      inflight = [[\<lparr>role = user, content = ascii ''hi''\<rparr>]],
      sent = [chat [] [\<lparr>role = user, content = ascii ''hi''\<rparr>] (Some True) None]\<rparr>"
  using send_accepted [of "initial_config\<lparr>ui := initial_chat\<lparr>input := ascii ''hi''\<rparr>\<rparr>" "[]"]
  by (simp add: initial_config_def initial_chat_def is_white_space_def)

text \<open>
  C5: When a pending request fails, the message history is left as it is, the
  error is set to the message of what was caught, and the loading flag is
  cleared.
\<close>

theorem failure_keeps_history:
  assumes "i < length (inflight c)" and "request_result out = Inl err"
  shows "messages (ui (chat_step base c (Settled i out))) = messages (ui c) \<and>
         error (ui (chat_step base c (Settled i out))) = Some (catch_message err msg_response_failed) \<and>
         \<not> loading (ui (chat_step base c (Settled i out)))"
  using assms by simp

theorem failure_keeps_history_witness:
  "messages (ui (chat_step [] (initial_config\<lparr>inflight := [[]]\<rparr>) (Settled 0 (Fetch_rejected Non_error)))) =
     messages (ui (initial_config\<lparr>inflight := [[]]\<rparr>)) \<and>
   error (ui (chat_step [] (initial_config\<lparr>inflight := [[]]\<rparr>) (Settled 0 (Fetch_rejected Non_error)))) =
     Some (catch_message Non_error msg_response_failed) \<and>
   \<not> loading (ui (chat_step [] (initial_config\<lparr>inflight := [[]]\<rparr>) (Settled 0 (Fetch_rejected Non_error))))"
  by (rule failure_keeps_history) (simp_all add: request_result_def)

text \<open>
  C1: In every reachable configuration at most one chat request is pending, and
  the loading flag is set exactly when one is.
\<close>

theorem chat_one_request_at_a_time:
  assumes "chat_reachable base c"
  shows "length (inflight c) \<le> 1 \<and> (loading (ui c) \<longleftrightarrow> inflight c \<noteq> [])"
  using reachable_one_at_a_time [OF assms] by (simp add: one_at_a_time_def)

theorem chat_one_request_at_a_time_witness:
  "length (inflight (chat_run [] initial_config [Change_input (ascii ''hi''), Click_send])) \<le> 1 \<and>
   (loading (ui (chat_run [] initial_config [Change_input (ascii ''hi''), Click_send])) \<longleftrightarrow>
      inflight (chat_run [] initial_config [Change_input (ascii ''hi''), Click_send]) \<noteq> [])"
  by (rule chat_one_request_at_a_time [OF reachable_run [OF chat_reachable.start]])

text \<open>
  C10: In every reachable configuration the displayed history is well formed:
  every assistant message comes directly after a user message (so the history
  never starts with an answer and never holds two answers in a row), and no user
  message is blank.
\<close>

theorem chat_history_well_formed:
  assumes "chat_reachable base c"
  shows "history_ok (messages (ui c))"
  using reachable_histories_ok [OF assms] by (simp add: histories_ok_def)

theorem chat_history_well_formed_witness:
  "history_ok (messages (ui (chat_run [] initial_config
     [Change_input (ascii ''hi''), Click_send,
      Settled 0 (Fetch_resolved (Response_ok (Inr \<lparr>response = ascii ''hello''\<rparr>)))])))"
  by (rule chat_history_well_formed [OF reachable_run [OF chat_reachable.start]])

text \<open>
  C23: The loading state always ends: in a reachable configuration with the
  loading flag set, the pending request exists, and whatever its outcome, its
  completion clears the flag and leaves nothing pending.
\<close>

theorem chat_loading_ends:
  assumes "chat_reachable base c" and "loading (ui c)"
  shows "\<not> loading (ui (chat_step base c (Settled 0 out))) \<and>
         inflight (chat_step base c (Settled 0 out)) = []"
  using settled_one_at_a_time [OF reachable_one_at_a_time [OF assms(1)] assms(2)] by simp

theorem chat_loading_ends_witness:
  "\<not> loading (ui (chat_step [] (chat_run [] initial_config [Change_input (ascii ''hi''), Click_send])
                    (Settled 0 (Fetch_rejected Non_error)))) \<and>
   inflight (chat_step [] (chat_run [] initial_config [Change_input (ascii ''hi''), Click_send])
               (Settled 0 (Fetch_rejected Non_error))) = []"
  by (rule chat_loading_ends [OF reachable_run [OF chat_reachable.start]])
     (simp only: example_run, simp)

text \<open>
  C6: Clearing the chat does not cancel a pending request. If the user clears
  while a request is pending and the request then succeeds, the history is set
  to the messages captured when the request was sent, followed by the answer:
  the cleared conversation is back.
\<close>

theorem answer_restores_cleared_history:
  assumes "chat_reachable base c" and "loading (ui c)"
    and "request_result out = Inr resp"
  shows "messages (ui (chat_step base c Click_clear)) = [] \<and>
         messages (ui (chat_run base c [Click_clear, Settled 0 out])) =
           hd (inflight c) @ [\<lparr>role = assistant, content = response resp\<rparr>]"
proof -
  from assms(1) have "one_at_a_time c"
    by (rule reachable_one_at_a_time)
  then obtain k where "inflight c = [k]"
    using assms(2) by (rule pending_single)
  then show ?thesis
    using assms(3) by (simp add: clearChat_def)
qed

theorem answer_restores_cleared_history_witness:
  "messages (ui (chat_step [] (chat_run [] initial_config [Change_input (ascii ''hi''), Click_send])
                   Click_clear)) = [] \<and>
   messages (ui (chat_run [] (chat_run [] initial_config [Change_input (ascii ''hi''), Click_send])
                   [Click_clear, Settled 0 (Fetch_resolved (Response_ok (Inr \<lparr>response = ascii ''hello''\<rparr>)))])) =
     hd (inflight (chat_run [] initial_config [Change_input (ascii ''hi''), Click_send])) @
       [\<lparr>role = assistant, content = response \<lparr>response = ascii ''hello''\<rparr>\<rparr>]"
  by (rule answer_restores_cleared_history [OF reachable_run [OF chat_reachable.start]])
     (simp_all only: example_run, simp_all add: request_result_def)

text \<open>
  Every call the panel has made is a POST to \<^verbatim>\<open>/ai/chat\<close> under the API base
  with the JSON content type.
\<close>

theorem chat_calls_are_chat_posts:
  assumes "chat_reachable base c"
  shows "list_all (is_chat_call base) (sent c)"
  using assms by (rule reachable_sent)

theorem chat_calls_are_chat_posts_witness:
  "list_all (is_chat_call (ascii ''/api''))
     (sent (chat_run (ascii ''/api'') initial_config [Change_input (ascii ''hi''), Click_send]))"
  by (rule chat_calls_are_chat_posts [OF reachable_run [OF chat_reachable.start]])

end
