(* ===== verification/Admin.thy ===== *)
theory Admin
  imports Api_Client
begin

text \<open>
  The administration panel of \<^verbatim>\<open>src/frontend/src/components/Admin.tsx\<close>.

  \<^descr>[State] \<open>admin_state\<close> has one field per \<^verbatim>\<open>useState\<close> hook. \<^verbatim>\<open>loading\<close> is
  \<^verbatim>\<open>string | null\<close> in the source and an optional string here.
  \<^descr>[Handlers] One definition per handler and, for the \<^verbatim>\<open>async\<close> ones, one per
  continuation. \<^verbatim>\<open>handleClearAll\<close> awaits twice, so it has two continuations; the
  second call it makes uses the \<^verbatim>\<open>password\<close> of the closure, which is why the
  pending entry \<open>All_search_pending\<close> carries a password. The argument
  \<open>confirmed\<close> of the destructive handlers is the answer of \<^verbatim>\<open>confirm(...)\<close>.
  \<^descr>[View] \<open>render_Admin\<close> is the login form or the panel, with what each shows
  and disables.
  \<^descr>[System] \<open>admin_step\<close> runs one event on a configuration: the state, the
  continuations pending, the number of \<^verbatim>\<open>setTimeout\<close> callbacks not yet run, and
  a history of what has been observed (calls made, authentications accepted).
  User events reach a handler only through a control the current view shows and
  does not disable.
\<close>

section \<open>State\<close>

record admin_state =
  password :: jsstring
  isAuthenticated :: bool
  loading :: "jsstring option"
  error :: "jsstring option"
  success :: "jsstring option"

definition initial_admin :: admin_state where
  "initial_admin =
     \<lparr>password = [], isAuthenticated = False, loading = None, error = None, success = None\<rparr>"

section \<open>Texts\<close>

text \<open>The string literals of the handlers and of the button labels, as code units.\<close>

definition msg_enter_password :: jsstring where
  "msg_enter_password =
     [0x30D1, 0x30B9, 0x30EF, 0x30FC, 0x30C9, 0x3092, 0x5165, 0x529B, 0x3057, 0x3066, 0x304F,
      0x3060, 0x3055, 0x3044]"

definition msg_auth_ok :: jsstring where
  "msg_auth_ok = [0x8A8D, 0x8A3C, 0x6210, 0x529F]"

definition msg_wrong_password :: jsstring where
  "msg_wrong_password =
     [0x30D1, 0x30B9, 0x30EF, 0x30FC, 0x30C9, 0x304C, 0x6B63, 0x3057, 0x304F, 0x3042, 0x308A,
      0x307E, 0x305B, 0x3093]"

definition msg_clear_failed :: jsstring where
  "msg_clear_failed =
     [0x30AF, 0x30EA, 0x30A2, 0x306B, 0x5931, 0x6557, 0x3057, 0x307E, 0x3057, 0x305F]"

definition msg_search_cleared :: "jsstring \<Rightarrow> jsstring" where
  "msg_search_cleared index =
     [0x30D9, 0x30AF, 0x30C8, 0x30EB, 0x0044, 0x0042, 0x3092, 0x30AF, 0x30EA, 0x30A2, 0x3057,
      0x307E, 0x3057, 0x305F, 0xFF08, 0x30A4, 0x30F3, 0x30C7, 0x30C3, 0x30AF, 0x30B9, 0x003A,
      0x0020] @ index @ [0xFF09]"

definition msg_storage_cleared :: "int \<Rightarrow> jsstring" where
  "msg_storage_cleared n =
     [0x30B9, 0x30C8, 0x30EC, 0x30FC, 0x30B8, 0x3092, 0x30AF, 0x30EA, 0x30A2, 0x3057, 0x307E,
      0x3057, 0x305F, 0xFF08, 0x524A, 0x9664, 0x30D5, 0x30A1, 0x30A4, 0x30EB, 0x6570, 0x003A,
      0x0020] @ number_to_string n @ [0xFF09]"

definition msg_all_cleared :: "int \<Rightarrow> jsstring" where
  "msg_all_cleared n =
     [0x5168, 0x30C7, 0x30FC, 0x30BF, 0x3092, 0x30AF, 0x30EA, 0x30A2, 0x3057, 0x307E, 0x3057,
      0x305F, 0xFF08, 0x524A, 0x9664, 0x30D5, 0x30A1, 0x30A4, 0x30EB, 0x6570, 0x003A, 0x0020]
     @ number_to_string n @ [0xFF09]"

definition label_authenticating :: jsstring where
  "label_authenticating = [0x8A8D, 0x8A3C, 0x4E2D, 0x002E, 0x002E, 0x002E]"

definition label_login :: jsstring where
  "label_login = [0x30ED, 0x30B0, 0x30A4, 0x30F3]"

definition label_processing :: jsstring where
  "label_processing = [0x51E6, 0x7406, 0x4E2D, 0x002E, 0x002E, 0x002E]"

definition label_clear :: jsstring where
  "label_clear = [0x30AF, 0x30EA, 0x30A2]"

definition label_clear_all :: jsstring where
  "label_clear_all = [0x5168, 0x524A, 0x9664]"

section \<open>Handlers\<close>

subsection \<open>Authentication\<close>

definition handleAuth :: "jsstring \<Rightarrow> admin_state \<Rightarrow> admin_state \<times> fetch_call option" where
  "handleAuth base s =
     (if \<not> truthy (trim (password s)) then (s\<lparr>error := Some msg_enter_password\<rparr>, None)
      else (s\<lparr>loading := Some (ascii ''auth''), error := None\<rparr>,
            Some (adminAuth base (password s))))"

text \<open>The second component says whether a 3000 ms timer was started.\<close>

definition handleAuth_settled :: "thrown + auth_response \<Rightarrow> admin_state \<Rightarrow> admin_state \<times> bool" where
  "handleAuth_settled settled s =
     (case settled of
        Inr r \<Rightarrow> (s\<lparr>isAuthenticated := True, success := Some msg_auth_ok, loading := None\<rparr>, True)
      | Inl err \<Rightarrow>
          (s\<lparr>error := Some msg_wrong_password, isAuthenticated := False, loading := None\<rparr>, False))"

definition auth_timeout :: "admin_state \<Rightarrow> admin_state" where
  "auth_timeout s = s\<lparr>success := None\<rparr>"

subsection \<open>Clearing the search index\<close>

definition handleClearSearch ::
    "jsstring \<Rightarrow> bool \<Rightarrow> admin_state \<Rightarrow> admin_state \<times> fetch_call option" where
  "handleClearSearch base confirmed s =
     (if \<not> confirmed then (s, None)
      else (s\<lparr>loading := Some (ascii ''search''), error := None, success := None\<rparr>,
            Some (clearSearch base (password s))))"

definition handleClearSearch_settled ::
    "thrown + clear_search_response \<Rightarrow> admin_state \<Rightarrow> admin_state" where
  "handleClearSearch_settled settled s =
     (case settled of
        Inr r \<Rightarrow> s\<lparr>success := Some (msg_search_cleared (index_name r)), loading := None\<rparr>
      | Inl err \<Rightarrow> s\<lparr>error := Some (catch_message err msg_clear_failed), loading := None\<rparr>)"

subsection \<open>Clearing the blob store\<close>

definition handleClearStorage ::
    "jsstring \<Rightarrow> bool \<Rightarrow> admin_state \<Rightarrow> admin_state \<times> fetch_call option" where
  "handleClearStorage base confirmed s =
     (if \<not> confirmed then (s, None)
      else (s\<lparr>loading := Some (ascii ''storage''), error := None, success := None\<rparr>,
            Some (clearStorage base (password s))))"

definition handleClearStorage_settled ::
    "thrown + clear_storage_response \<Rightarrow> admin_state \<Rightarrow> admin_state" where
  "handleClearStorage_settled settled s =
     (case settled of
        Inr r \<Rightarrow> s\<lparr>success := Some (msg_storage_cleared (deleted_count r)), loading := None\<rparr>
      | Inl err \<Rightarrow> s\<lparr>error := Some (catch_message err msg_clear_failed), loading := None\<rparr>)"

subsection \<open>Clearing both\<close>

definition handleClearAll ::
    "jsstring \<Rightarrow> bool \<Rightarrow> admin_state \<Rightarrow> admin_state \<times> (jsstring \<times> fetch_call) option" where
  "handleClearAll base confirmed s =
     (if \<not> confirmed then (s, None)
      else (s\<lparr>loading := Some (ascii ''all''), error := None, success := None\<rparr>,
            Some (password s, clearSearch base (password s))))"

text \<open>
  After the first \<^verbatim>\<open>await\<close>: on success the second call is made at once, with the
  password of the closure; on failure control passes to \<^verbatim>\<open>catch\<close> and \<^verbatim>\<open>finally\<close>.
\<close>

definition handleClearAll_search_settled ::
    "jsstring \<Rightarrow> jsstring \<Rightarrow> thrown + clear_search_response \<Rightarrow> admin_state \<Rightarrow>
     admin_state \<times> fetch_call option" where
  "handleClearAll_search_settled base captured_password settled s =
     (case settled of
        Inr r \<Rightarrow> (s, Some (clearStorage base captured_password))
      | Inl err \<Rightarrow>
          (s\<lparr>error := Some (catch_message err msg_clear_failed), loading := None\<rparr>, None))"

definition handleClearAll_storage_settled ::
    "thrown + clear_storage_response \<Rightarrow> admin_state \<Rightarrow> admin_state" where
  "handleClearAll_storage_settled settled s =
     (case settled of
        Inr storageResult \<Rightarrow>
          s\<lparr>success := Some (msg_all_cleared (deleted_count storageResult)), loading := None\<rparr>
      | Inl err \<Rightarrow> s\<lparr>error := Some (catch_message err msg_clear_failed), loading := None\<rparr>)"

subsection \<open>Logging out\<close>

definition handleLogout :: "admin_state \<Rightarrow> admin_state" where
  "handleLogout s = s\<lparr>isAuthenticated := False, password := [], error := None, success := None\<rparr>"

section \<open>View\<close>

record login_view =
  login_error :: "jsstring option"
  password_value :: jsstring
  login_disabled :: bool
  login_label :: jsstring

record panel_view =
  panel_error :: "jsstring option"
  panel_success :: "jsstring option"
  clear_disabled :: bool
  search_label :: jsstring
  storage_label :: jsstring
  all_label :: jsstring

datatype admin_view = Login_view login_view | Panel_view panel_view

definition shown :: "jsstring option \<Rightarrow> jsstring option" where
  "shown m = (if truthy_opt m then m else None)"

definition render_Admin :: "admin_state \<Rightarrow> admin_view" where
  "render_Admin s =
     (if \<not> isAuthenticated s then
        Login_view
          \<lparr>login_error = shown (error s),
           password_value = password s,
           login_disabled = (loading s = Some (ascii ''auth'')),
           login_label = (if loading s = Some (ascii ''auth'') then label_authenticating else label_login)\<rparr>
      else
        Panel_view
          \<lparr>panel_error = shown (error s),
           panel_success = shown (success s),
           clear_disabled = (loading s \<noteq> None),
           search_label = (if loading s = Some (ascii ''search'') then label_processing else label_clear),
           storage_label = (if loading s = Some (ascii ''storage'') then label_processing else label_clear),
           all_label = (if loading s = Some (ascii ''all'') then label_processing else label_clear_all)\<rparr>)"

text \<open>Which controls the user can reach in a view.\<close>

fun login_enabled :: "admin_view \<Rightarrow> bool" where
  "login_enabled (Login_view v) = (\<not> login_disabled v)"
| "login_enabled (Panel_view v) = False"

fun clear_enabled :: "admin_view \<Rightarrow> bool" where
  "clear_enabled (Login_view v) = False"
| "clear_enabled (Panel_view v) = (\<not> clear_disabled v)"

fun logout_shown :: "admin_view \<Rightarrow> bool" where
  "logout_shown (Login_view v) = False"
| "logout_shown (Panel_view v) = True"

section \<open>The panel as a system\<close>

datatype admin_pending =
    Auth_pending
  | Search_pending
  | Storage_pending
  | All_search_pending jsstring
  | All_storage_pending

datatype admin_outcome =
    Auth_outcome "auth_response fetch_outcome"
  | Search_outcome "clear_search_response fetch_outcome"
  | Storage_outcome "clear_storage_response fetch_outcome"

datatype admin_event =
    Change_password jsstring
  | Key_down jsstring
  | Click_login
  | Click_clear_search bool
  | Click_clear_storage bool
  | Click_clear_all bool
  | Click_logout
  | Completed nat admin_outcome
  | Timer_fired

datatype admin_obs = Called fetch_call | Auth_accepted

record admin_config =
  admin_ui :: admin_state
  pending :: "admin_pending list"
  timers :: nat
  history :: "admin_obs list"

definition initial_admin_config :: admin_config where
  "initial_admin_config = \<lparr>admin_ui = initial_admin, pending = [], timers = 0, history = []\<rparr>"

text \<open>
  \<open>started c k r\<close>: the first half of a handler returned \<open>r\<close>; if it made a call,
  the continuation \<open>k\<close> becomes pending and the call is recorded.
\<close>

definition started ::
    "admin_config \<Rightarrow> admin_pending \<Rightarrow> admin_state \<times> fetch_call option \<Rightarrow> admin_config" where
  "started c k r =
     (case snd r of
        None \<Rightarrow> c\<lparr>admin_ui := fst r\<rparr>
      | Some call \<Rightarrow>
          c\<lparr>admin_ui := fst r, pending := pending c @ [k], history := history c @ [Called call]\<rparr>)"

text \<open>
  \<open>complete base p out s\<close>: the continuation \<open>p\<close> run on outcome \<open>out\<close> in state
  \<open>s\<close>. The result is the new state, the continuation and call that follow (for
  the first stage of clearing both), whether a timer was started and whether an
  authentication was accepted. An outcome of the wrong kind for \<open>p\<close> is \<open>None\<close>.
\<close>

fun complete ::
    "jsstring \<Rightarrow> admin_pending \<Rightarrow> admin_outcome \<Rightarrow> admin_state \<Rightarrow>
     (admin_state \<times> (admin_pending \<times> fetch_call) option \<times> bool \<times> bool) option" where
  "complete base Auth_pending (Auth_outcome out) s =
     Some (fst (handleAuth_settled (request_result out) s), None,
           snd (handleAuth_settled (request_result out) s),
           snd (handleAuth_settled (request_result out) s))"
| "complete base Search_pending (Search_outcome out) s =
     Some (handleClearSearch_settled (request_result out) s, None, False, False)"
| "complete base Storage_pending (Storage_outcome out) s =
     Some (handleClearStorage_settled (request_result out) s, None, False, False)"
| "complete base (All_search_pending pw) (Search_outcome out) s =
     Some (fst (handleClearAll_search_settled base pw (request_result out) s),
           map_option (Pair All_storage_pending)
             (snd (handleClearAll_search_settled base pw (request_result out) s)),
           False, False)"
| "complete base All_storage_pending (Storage_outcome out) s =
     Some (handleClearAll_storage_settled (request_result out) s, None, False, False)"
| "complete base p out s = None"

fun admin_step :: "jsstring \<Rightarrow> admin_config \<Rightarrow> admin_event \<Rightarrow> admin_config" where
  "admin_step base c (Change_password v) =
     (if login_enabled (render_Admin (admin_ui c)) then c\<lparr>admin_ui := (admin_ui c)\<lparr>password := v\<rparr>\<rparr>
      else c)"
| "admin_step base c (Key_down k) =
     (if login_enabled (render_Admin (admin_ui c)) \<and> k = ascii ''Enter''
      then started c Auth_pending (handleAuth base (admin_ui c)) else c)"
| "admin_step base c Click_login =
     (if login_enabled (render_Admin (admin_ui c))
      then started c Auth_pending (handleAuth base (admin_ui c)) else c)"
| "admin_step base c (Click_clear_search confirmed) =
     (if clear_enabled (render_Admin (admin_ui c))
      then started c Search_pending (handleClearSearch base confirmed (admin_ui c)) else c)"
| "admin_step base c (Click_clear_storage confirmed) =
     (if clear_enabled (render_Admin (admin_ui c))
      then started c Storage_pending (handleClearStorage base confirmed (admin_ui c)) else c)"
| "admin_step base c (Click_clear_all confirmed) =
     (if clear_enabled (render_Admin (admin_ui c))
      then (case handleClearAll base confirmed (admin_ui c) of
              (s, None) \<Rightarrow> c\<lparr>admin_ui := s\<rparr>
            | (s, Some (pw, call)) \<Rightarrow> started c (All_search_pending pw) (s, Some call))
      else c)"
| "admin_step base c Click_logout =
     (if logout_shown (render_Admin (admin_ui c)) then c\<lparr>admin_ui := handleLogout (admin_ui c)\<rparr>
      else c)"
| "admin_step base c (Completed i out) =
     (if i < length (pending c) then
        (case complete base (pending c ! i) out (admin_ui c) of
           None \<Rightarrow> c
         | Some (s, next, timer, accepted) \<Rightarrow>
             c\<lparr>admin_ui := s,
               pending := remove_nth i (pending c) @ (case next of None \<Rightarrow> [] | Some (k, call) \<Rightarrow> [k]),
               timers := timers c + (if timer then 1 else 0),
               history := history c @ (if accepted then [Auth_accepted] else [])
                            @ (case next of None \<Rightarrow> [] | Some (k, call) \<Rightarrow> [Called call])\<rparr>)
      else c)"
| "admin_step base c Timer_fired =
     (if timers c > 0 then c\<lparr>admin_ui := auth_timeout (admin_ui c), timers := timers c - 1\<rparr>
      else c)"

fun admin_run :: "jsstring \<Rightarrow> admin_config \<Rightarrow> admin_event list \<Rightarrow> admin_config" where
  "admin_run base c [] = c"
| "admin_run base c (e # es) = admin_run base (admin_step base c e) es"

inductive admin_reachable :: "jsstring \<Rightarrow> admin_config \<Rightarrow> bool" for base where
  admin_start: "admin_reachable base initial_admin_config"
| admin_next: "admin_reachable base c \<Longrightarrow> admin_reachable base (admin_step base c e)"

lemmas admin_handler_defs [handler_defs] =
  handleAuth_def handleAuth_settled_def auth_timeout_def handleClearSearch_def
  handleClearSearch_settled_def handleClearStorage_def handleClearStorage_settled_def
  handleClearAll_def handleClearAll_search_settled_def handleClearAll_storage_settled_def
  handleLogout_def

lemmas admin_view_defs [view_defs] = render_Admin_def shown_def

section \<open>What the history must look like\<close>

text \<open>
  The calls that destroy data are those to the two clearing endpoints.
  \<open>authorised base a h\<close> reads a history from the left and says that each of
  them comes after an accepted authentication (\<open>a\<close>: one has been seen already).
\<close>

definition is_destructive :: "jsstring \<Rightarrow> fetch_call \<Rightarrow> bool" where
  "is_destructive base call \<longleftrightarrow>
     url call = base @ ascii ''/admin/clear-search'' \<or>
     url call = base @ ascii ''/admin/clear-storage''"

fun authorised :: "jsstring \<Rightarrow> bool \<Rightarrow> admin_obs list \<Rightarrow> bool" where
  "authorised base a [] = True"
| "authorised base a (Auth_accepted # h) = authorised base True h"
| "authorised base a (Called call # h) = ((is_destructive base call \<longrightarrow> a) \<and> authorised base a h)"

definition is_admin_call :: "jsstring \<Rightarrow> fetch_call \<Rightarrow> bool" where
  "is_admin_call base call \<longleftrightarrow>
     (url call = base @ ascii ''/admin/auth'' \<or> is_destructive base call) \<and>
     init_method (init call) = Some POST \<and> sends_json call \<and>
     (case init_body (init call) of
        Some (Json_text (JObj [(k, JStr pw)])) \<Rightarrow> k = ascii ''password''
      | _ \<Rightarrow> False)"

text \<open>The events that submit the login form.\<close>

fun is_submit :: "admin_event \<Rightarrow> bool" where
  "is_submit Click_login = True"
| "is_submit (Key_down k) = True"
| "is_submit e = False"

text \<open>
  \<open>entitled c\<close>: whoever sees the panel, or has a clearing operation pending,
  got there through an accepted authentication.
\<close>

definition entitled :: "admin_config \<Rightarrow> bool" where
  "entitled c \<longleftrightarrow>
     (isAuthenticated (admin_ui c) \<or> (\<exists>p \<in> set (pending c). p \<noteq> Auth_pending)
        \<longrightarrow> Auth_accepted \<in> set (history c))"

text \<open>
  \<open>orderly c\<close>: at most one continuation is pending, the loading flag says so,
  and the view matches what is pending.
\<close>

definition orderly :: "admin_config \<Rightarrow> bool" where
  "orderly c \<longleftrightarrow>
     (case pending c of
        [] \<Rightarrow> loading (admin_ui c) = None
      | [p] \<Rightarrow>
          (if p = Auth_pending
           then loading (admin_ui c) = Some (ascii ''auth'') \<and> \<not> isAuthenticated (admin_ui c)
           else loading (admin_ui c) \<noteq> None \<and> isAuthenticated (admin_ui c))
      | _ \<Rightarrow> False)"

definition secure :: "jsstring \<Rightarrow> admin_config \<Rightarrow> bool" where
  "secure base c \<longleftrightarrow> entitled c \<and> authorised base False (history c)"

lemmas admin_inv_defs [inv_defs] = entitled_def orderly_def secure_def

section \<open>The handlers, branch by branch\<close>

lemma handleAuth_blank: "blank (password s) \<Longrightarrow> handleAuth base s = (s\<lparr>error := Some msg_enter_password\<rparr>, None)"
  by (simp add: handleAuth_def blank_def)

lemma handleAuth_sent:
  "\<not> blank (password s) \<Longrightarrow>
   handleAuth base s =
     (s\<lparr>loading := Some (ascii ''auth''), error := None\<rparr>, Some (adminAuth base (password s)))"
  by (simp add: handleAuth_def blank_def)

lemma handleAuth_settled_simps [simp]:
  "handleAuth_settled (Inr r) s =
     (s\<lparr>isAuthenticated := True, success := Some msg_auth_ok, loading := None\<rparr>, True)"
  "handleAuth_settled (Inl err) s =
     (s\<lparr>error := Some msg_wrong_password, isAuthenticated := False, loading := None\<rparr>, False)"
  by (simp_all add: handleAuth_settled_def)

lemma handleAuth_settled_fields [simp]:
  "isAuthenticated (fst (handleAuth_settled r s)) = (\<not> isl r)"
  "snd (handleAuth_settled r s) = (\<not> isl r)"
  "loading (fst (handleAuth_settled r s)) = None"
  "password (fst (handleAuth_settled r s)) = password s"
  by (cases r; simp)+

lemma handleAuth_fields [simp]:
  "isAuthenticated (fst (handleAuth base s)) = isAuthenticated s"
  "password (fst (handleAuth base s)) = password s"
  "loading (fst (handleAuth base s)) = (if blank (password s) then loading s else Some (ascii ''auth''))"
  "snd (handleAuth base s) = (if blank (password s) then None else Some (adminAuth base (password s)))"
  by (simp_all add: handleAuth_def blank_def)

lemma handleClearSearch_fields [simp]:
  "isAuthenticated (fst (handleClearSearch base ok s)) = isAuthenticated s"
  "loading (fst (handleClearSearch base ok s)) = (if ok then Some (ascii ''search'') else loading s)"
  "snd (handleClearSearch base ok s) = (if ok then Some (clearSearch base (password s)) else None)"
  by (simp_all add: handleClearSearch_def)

lemma handleClearStorage_fields [simp]:
  "isAuthenticated (fst (handleClearStorage base ok s)) = isAuthenticated s"
  "loading (fst (handleClearStorage base ok s)) = (if ok then Some (ascii ''storage'') else loading s)"
  "snd (handleClearStorage base ok s) = (if ok then Some (clearStorage base (password s)) else None)"
  by (simp_all add: handleClearStorage_def)

lemma handleClearAll_simps [simp]:
  "handleClearAll base False s = (s, None)"
  "handleClearAll base True s =
     (s\<lparr>loading := Some (ascii ''all''), error := None, success := None\<rparr>,
      Some (password s, clearSearch base (password s)))"
  by (simp_all add: handleClearAll_def)

lemma settled_fields [simp]:
  "isAuthenticated (handleClearSearch_settled r1 s) = isAuthenticated s"
  "isAuthenticated (handleClearStorage_settled r2 s) = isAuthenticated s"
  "isAuthenticated (handleClearAll_storage_settled r2 s) = isAuthenticated s"
  "isAuthenticated (fst (handleClearAll_search_settled base pw r1 s)) = isAuthenticated s"
  "loading (handleClearSearch_settled r1 s) = None"
  "loading (handleClearStorage_settled r2 s) = None"
  "loading (handleClearAll_storage_settled r2 s) = None"
  "loading (fst (handleClearAll_search_settled base pw r1 s)) = (if isl r1 then None else loading s)"
  "snd (handleClearAll_search_settled base pw r1 s) = (if isl r1 then None else Some (clearStorage base pw))"
  by (simp_all add: admin_handler_defs split: sum.splits)

lemma auth_timeout_fields [simp]:
  "isAuthenticated (auth_timeout s) = isAuthenticated s"
  "loading (auth_timeout s) = loading s"
  "password (auth_timeout s) = password s"
  "error (auth_timeout s) = error s"
  "success (auth_timeout s) = None"
  by (simp_all add: auth_timeout_def)

section \<open>The view\<close>

lemma login_enabled_iff [simp]:
  "login_enabled (render_Admin s) \<longleftrightarrow> \<not> isAuthenticated s \<and> loading s \<noteq> Some (ascii ''auth'')"
  by (simp add: render_Admin_def)

lemma clear_enabled_iff [simp]:
  "clear_enabled (render_Admin s) \<longleftrightarrow> isAuthenticated s \<and> loading s = None"
  by (simp add: render_Admin_def)

lemma logout_shown_iff [simp]: "logout_shown (render_Admin s) \<longleftrightarrow> isAuthenticated s"
  by (simp add: render_Admin_def)

section \<open>Steps\<close>

lemma started_fields [simp]:
  "admin_ui (started c k r) = fst r"
  "pending (started c k r) = pending c @ (case snd r of None \<Rightarrow> [] | Some call \<Rightarrow> [k])"
  "history (started c k r) = history c @ (case snd r of None \<Rightarrow> [] | Some call \<Rightarrow> [Called call])"
  "timers (started c k r) = timers c"
  by (simp_all add: started_def split: option.splits)

text \<open>The continuation that runs on a completion, and its result, by what was pending.\<close>

lemma complete_cases:
  assumes "complete base p out s = Some r"
  obtains (auth) x where "p = Auth_pending" "out = Auth_outcome x"
      "r = (fst (handleAuth_settled (request_result x) s), None,
           snd (handleAuth_settled (request_result x) s),
           snd (handleAuth_settled (request_result x) s))"
  | (search) x where "p = Search_pending" "out = Search_outcome x"
      "r = (handleClearSearch_settled (request_result x) s, None, False, False)"
  | (storage) x where "p = Storage_pending" "out = Storage_outcome x"
      "r = (handleClearStorage_settled (request_result x) s, None, False, False)"
  | (all_search) pw x where "p = All_search_pending pw" "out = Search_outcome x"
      "r = (fst (handleClearAll_search_settled base pw (request_result x) s),
           map_option (Pair All_storage_pending)
             (snd (handleClearAll_search_settled base pw (request_result x) s)),
           False, False)"
  | (all_storage) x where "p = All_storage_pending" "out = Storage_outcome x"
      "r = (handleClearAll_storage_settled (request_result x) s, None, False, False)"
  using assms by (cases p; cases out) simp_all

lemma admin_step_Completed:
  assumes "i < length (pending c)"
    and "complete base (pending c ! i) out (admin_ui c) = Some (s, nxt, timer, accepted)"
  shows "admin_step base c (Completed i out) =
           c\<lparr>admin_ui := s,
             pending := remove_nth i (pending c) @ (case nxt of None \<Rightarrow> [] | Some (k, call) \<Rightarrow> [k]),
             timers := timers c + (if timer then 1 else 0),
             history := history c @ (if accepted then [Auth_accepted] else [])
                          @ (case nxt of None \<Rightarrow> [] | Some (k, call) \<Rightarrow> [Called call])\<rparr>"
  using assms by simp

lemma admin_run_append [simp]:
  "admin_run base c (es @ fs) = admin_run base (admin_run base c es) fs"
  by (induction es arbitrary: c) simp_all

lemma admin_reachable_run: "admin_reachable base c \<Longrightarrow> admin_reachable base (admin_run base c es)"
  by (induction es arbitrary: c) (auto intro: admin_next)

section \<open>Calls\<close>

lemma is_destructive_simps [simp]:
  "is_destructive base (clearSearch base pw)"
  "is_destructive base (clearStorage base pw)"
  "\<not> is_destructive base (adminAuth base pw)"
  by (simp_all add: is_destructive_def clearSearch_def clearStorage_def adminAuth_def)

lemma is_admin_call_simps [simp]:
  "is_admin_call base (clearSearch base pw)"
  "is_admin_call base (clearStorage base pw)"
  "is_admin_call base (adminAuth base pw)"
  by (simp_all add: is_admin_call_def is_destructive_def clearSearch_def clearStorage_def
      adminAuth_def post_json_def password_body_def request_no_headers)

lemma authorised_append [simp]:
  "authorised base a (h @ h') \<longleftrightarrow>
     authorised base a h \<and> authorised base (a \<or> Auth_accepted \<in> set h) h'"
  by (induction base a h rule: authorised.induct) auto

lemma authorisedD:
  "authorised base False (h @ Called call # h') \<Longrightarrow> is_destructive base call \<Longrightarrow>
   Auth_accepted \<in> set h"
  by simp

lemma admin_step_Click_clear_all [simp]:
  "admin_step base c (Click_clear_all ok) =
     (if clear_enabled (render_Admin (admin_ui c)) \<and> ok
      then started c (All_search_pending (password (admin_ui c)))
             ((admin_ui c)\<lparr>loading := Some (ascii ''all''), error := None, success := None\<rparr>,
              Some (clearSearch base (password (admin_ui c))))
      else c)"
  by (cases ok) simp_all

declare admin_step.simps(6) [simp del]

section \<open>Authentication comes first\<close>

lemma secure_initial [simp]: "secure base initial_admin_config"
  by (simp add: secure_def entitled_def initial_admin_config_def initial_admin_def)

lemma secure_completed:
  assumes "secure base c"
  shows "secure base (admin_step base c (Completed i out))"
proof (cases "i < length (pending c) \<and> complete base (pending c ! i) out (admin_ui c) \<noteq> None")
  case False
  then have "admin_step base c (Completed i out) = c"
    by (auto split: option.splits)
  with assms show ?thesis by simp
next
  case True
  then obtain r where i: "i < length (pending c)"
    and r: "complete base (pending c ! i) out (admin_ui c) = Some r"
    by auto
  from i have mem: "pending c ! i \<in> set (pending c)"
    by simp
  from r show ?thesis
    using assms i mem
    by (cases rule: complete_cases)
      (auto simp: secure_def entitled_def split: sum.splits dest: in_set_remove_nthD)
qed

lemma secure_step: "secure base c \<Longrightarrow> secure base (admin_step base c e)"
proof (cases e)
  case (Completed i out)
  assume "secure base c"
  with Completed show ?thesis by (simp only: secure_completed)
qed (auto simp: secure_def entitled_def handleLogout_def)

lemma reachable_secure: "admin_reachable base c \<Longrightarrow> secure base c"
  by (induction rule: admin_reachable.induct) (simp_all add: secure_step)

lemma reachable_admin_calls:
  "admin_reachable base c \<Longrightarrow> \<forall>call. Called call \<in> set (history c) \<longrightarrow> is_admin_call base call"
proof (induction rule: admin_reachable.induct)
  case admin_start
  show ?case by (simp add: initial_admin_config_def)
next
  case (admin_next c e)
  show ?case
  proof (cases e)
    case (Completed i out)
    show ?thesis
    proof (cases "i < length (pending c) \<and> complete base (pending c ! i) out (admin_ui c) \<noteq> None")
      case False
      then have "admin_step base c (Completed i out) = c"
        by (auto split: option.splits)
      with admin_next.IH Completed show ?thesis by simp
    next
      case True
      then obtain r where "i < length (pending c)"
        and "complete base (pending c ! i) out (admin_ui c) = Some r"
        by auto
      from this(2) show ?thesis
        using admin_next.IH Completed \<open>i < length (pending c)\<close>
        by (cases rule: complete_cases) (auto split: if_splits)
    qed
  qed (use admin_next.IH in \<open>auto split: if_splits\<close>)
qed

section \<open>One operation at a time\<close>

lemma orderly_initial [simp]: "orderly initial_admin_config"
  by (simp add: orderly_def initial_admin_config_def initial_admin_def)

lemma orderly_cases:
  assumes "orderly c"
  obtains (idle) "pending c = []" "loading (admin_ui c) = None"
  | (auth) "pending c = [Auth_pending]" "loading (admin_ui c) = Some (ascii ''auth'')"
      "\<not> isAuthenticated (admin_ui c)"
  | (clearing) p where "pending c = [p]" "p \<noteq> Auth_pending" "loading (admin_ui c) \<noteq> None"
      "isAuthenticated (admin_ui c)"
  using assms by (auto simp: orderly_def split: list.splits if_splits)

lemma orderly_iff:
  "orderly c \<longleftrightarrow>
     pending c = [] \<and> loading (admin_ui c) = None \<or>
     pending c = [Auth_pending] \<and> loading (admin_ui c) = Some (ascii ''auth'') \<and>
       \<not> isAuthenticated (admin_ui c) \<or>
     (\<exists>p. pending c = [p] \<and> p \<noteq> Auth_pending \<and> loading (admin_ui c) \<noteq> None \<and>
       isAuthenticated (admin_ui c))"
  by (auto simp: orderly_def split: list.splits if_splits)

lemma orderlyD:
  "orderly c \<Longrightarrow> length (pending c) \<le> 1 \<and> (loading (admin_ui c) = None \<longleftrightarrow> pending c = [])"
  by (erule orderly_cases) auto

lemma orderly_completed:
  assumes "orderly c"
  shows "orderly (admin_step base c (Completed i out))"
proof (cases "i < length (pending c) \<and> complete base (pending c ! i) out (admin_ui c) \<noteq> None")
  case False
  then have "admin_step base c (Completed i out) = c"
    by (auto split: option.splits)
  with assms show ?thesis by simp
next
  case True
  then obtain r where i: "i < length (pending c)"
    and r: "complete base (pending c ! i) out (admin_ui c) = Some r"
    by auto
  from assms show ?thesis
  proof (cases rule: orderly_cases)
    case idle
    with i show ?thesis by simp
  next
    case auth
    with i have "i = 0" by simp
    with r auth show ?thesis
      by (cases rule: complete_cases) (auto simp: orderly_def)
  next
    case (clearing p)
    with i have "i = 0" by simp
    with r clearing show ?thesis
      by (cases rule: complete_cases) (auto simp: orderly_def)
  qed
qed

lemma orderly_step:
  assumes "orderly c" and "e \<noteq> Click_logout"
  shows "orderly (admin_step base c e)"
proof (cases e)
  case (Completed i out)
  with assms(1) show ?thesis by (simp only: orderly_completed)
qed (use assms in \<open>auto simp: orderly_iff\<close>)

lemma orderly_run:
  "orderly c \<Longrightarrow> Click_logout \<notin> set es \<Longrightarrow> orderly (admin_run base c es)"
  by (induction es arbitrary: c) (auto simp: orderly_step)

lemma settled_password [simp]:
  "password (handleClearSearch_settled r1 s) = password s"
  "password (handleClearStorage_settled r2 s) = password s"
  "password (handleClearAll_storage_settled r2 s) = password s"
  by (simp_all add: admin_handler_defs split: sum.splits)

section \<open>A session, step by step\<close>

lemmas admin_run_defs =
  initial_admin_config_def initial_admin_def started_def admin_handler_defs trim_def
  is_white_space_def truthy_def request_result_def

lemma admin_example_submitted:
  "admin_run base initial_admin_config [Change_password (ascii ''pw''), Click_login] =
   \<lparr>admin_ui = \<lparr>password = ascii ''pw'', isAuthenticated = False, loading = Some (ascii ''auth''),
                error = None, success = None\<rparr>,
     pending = [Auth_pending], timers = 0,
     history = [Called (adminAuth base (ascii ''pw''))]\<rparr>"
  by (simp add: admin_run_defs)

lemma admin_example_clear_search:
  "admin_run base initial_admin_config
     [Change_password (ascii ''pw''), Click_login,
      Completed 0 (Auth_outcome (Fetch_resolved (Response_ok (Inr \<lparr>auth_success = True, auth_message = []\<rparr>)))),
      Click_clear_search True] =
   \<lparr>admin_ui = \<lparr>password = ascii ''pw'', isAuthenticated = True, loading = Some (ascii ''search''),
                error = None, success = None\<rparr>,
     pending = [Search_pending], timers = 1,
     history = [Called (adminAuth base (ascii ''pw'')), Auth_accepted,
                Called (clearSearch base (ascii ''pw''))]\<rparr>"
  by (simp add: admin_run_defs)

lemma admin_example_clear_all:
  "admin_run base initial_admin_config
     [Change_password (ascii ''pw''), Click_login,
      Completed 0 (Auth_outcome (Fetch_resolved (Response_ok (Inr \<lparr>auth_success = True, auth_message = []\<rparr>)))),
      Click_clear_all True] =
   \<lparr>admin_ui = \<lparr>password = ascii ''pw'', isAuthenticated = True, loading = Some (ascii ''all''),
                error = None, success = None\<rparr>,
     pending = [All_search_pending (ascii ''pw'')], timers = 1,
     history = [Called (adminAuth base (ascii ''pw'')), Auth_accepted,
                Called (clearSearch base (ascii ''pw''))]\<rparr>"
  by (simp add: admin_run_defs)

section \<open>Properties of the administration panel\<close>

text \<open>
  C2: No data is destroyed before an authentication has been accepted: in the
  history of every reachable configuration, each call to a clearing endpoint
  comes after the backend has accepted a password.
\<close>

theorem destructive_calls_follow_authentication:
  assumes "admin_reachable base c" and "history c = h @ Called call # h'"
    and "is_destructive base call"
  shows "Auth_accepted \<in> set h"
proof -
  from assms(1) have "authorised base False (history c)"
    using reachable_secure by (simp add: secure_def)
  then have "authorised base False (h @ Called call # h')"
    by (simp only: assms(2))
  then show ?thesis
    using assms(3) by (rule authorisedD)
qed

theorem destructive_calls_follow_authentication_witness:
  "Auth_accepted \<in> set [Called (adminAuth [] (ascii ''pw'')), Auth_accepted]"
  by (rule destructive_calls_follow_authentication
        [OF admin_reachable_run [OF admin_start, where base = "[]" and es =
           "[Change_password (ascii ''pw''), Click_login,
             Completed 0 (Auth_outcome (Fetch_resolved (Response_ok
               (Inr \<lparr>auth_success = True, auth_message = []\<rparr>)))),
             Click_clear_search True]"],
         where call = "clearSearch [] (ascii ''pw'')" and h' = "[]"])
     (simp_all only: admin_example_clear_search, simp_all)

text \<open>
  C13: Without a logout, at most one operation is pending at any time and the
  loading flag is set exactly while one is: every control that starts an
  operation is disabled until the pending one has completed.
\<close>

theorem admin_one_operation_at_a_time:
  assumes "Click_logout \<notin> set es"
  shows "length (pending (admin_run base initial_admin_config es)) \<le> 1 \<and>
         (loading (admin_ui (admin_run base initial_admin_config es)) = None \<longleftrightarrow>
          pending (admin_run base initial_admin_config es) = [])"
proof -
  from assms have "orderly (admin_run base initial_admin_config es)"
    by (simp add: orderly_run)
  then show ?thesis
    by (rule orderlyD)
qed

theorem admin_one_operation_at_a_time_witness:
  "length (pending (admin_run [] initial_admin_config
      [Change_password (ascii ''pw''), Click_login, Click_login])) \<le> 1 \<and>
   (loading (admin_ui (admin_run [] initial_admin_config
      [Change_password (ascii ''pw''), Click_login, Click_login])) = None \<longleftrightarrow>
    pending (admin_run [] initial_admin_config
      [Change_password (ascii ''pw''), Click_login, Click_login]) = [])"
  by (rule admin_one_operation_at_a_time) simp_all

text \<open>
  C26: A logout lets the login form call the authentication endpoint twice at
  a time. In any configuration with the panel open and a clearing of the index
  pending, after a logout, a password that is not blank and a submission, the
  completion of the clearing (whatever its outcome) clears the loading flag
  although the authentication is still pending: the login form is enabled
  again, and a second submission makes a second call.
\<close>

theorem logout_leaves_operation_pending:
  assumes "isAuthenticated (admin_ui c)" and "loading (admin_ui c) \<noteq> Some (ascii ''auth'')"
    and "i < length (pending c)" and "pending c ! i = Search_pending" and "\<not> blank pw"
  shows "pending (admin_run base c
           [Click_logout, Change_password pw, Click_login, Completed i (Search_outcome out)]) =
           remove_nth i (pending c) @ [Auth_pending] \<and>
         loading (admin_ui (admin_run base c
           [Click_logout, Change_password pw, Click_login, Completed i (Search_outcome out)])) = None \<and>
         login_enabled (render_Admin (admin_ui (admin_run base c
           [Click_logout, Change_password pw, Click_login, Completed i (Search_outcome out)]))) \<and>
         history (admin_run base c
           [Click_logout, Change_password pw, Click_login, Completed i (Search_outcome out), Click_login]) =
           history c @ [Called (adminAuth base pw), Called (adminAuth base pw)]"
  using assms by (simp add: handleLogout_def nth_append remove_nth_append)

theorem logout_leaves_operation_pending_witness:
  "pending (admin_run [] (admin_run [] initial_admin_config
       [Change_password (ascii ''pw''), Click_login,
        Completed 0 (Auth_outcome (Fetch_resolved (Response_ok (Inr \<lparr>auth_success = True, auth_message = []\<rparr>)))),
        Click_clear_search True])
     [Click_logout, Change_password (ascii ''pw''), Click_login,
      Completed 0 (Search_outcome (Fetch_rejected Non_error))]) =
     remove_nth 0 (pending (admin_run [] initial_admin_config
       [Change_password (ascii ''pw''), Click_login,
        Completed 0 (Auth_outcome (Fetch_resolved (Response_ok (Inr \<lparr>auth_success = True, auth_message = []\<rparr>)))),
        Click_clear_search True])) @ [Auth_pending] \<and>
   loading (admin_ui (admin_run [] (admin_run [] initial_admin_config
       [Change_password (ascii ''pw''), Click_login,
        Completed 0 (Auth_outcome (Fetch_resolved (Response_ok (Inr \<lparr>auth_success = True, auth_message = []\<rparr>)))),
        Click_clear_search True])
     [Click_logout, Change_password (ascii ''pw''), Click_login,
      Completed 0 (Search_outcome (Fetch_rejected Non_error))])) = None \<and>
   login_enabled (render_Admin (admin_ui (admin_run [] (admin_run [] initial_admin_config
       [Change_password (ascii ''pw''), Click_login,
        Completed 0 (Auth_outcome (Fetch_resolved (Response_ok (Inr \<lparr>auth_success = True, auth_message = []\<rparr>)))),
        Click_clear_search True])
     [Click_logout, Change_password (ascii ''pw''), Click_login,
      Completed 0 (Search_outcome (Fetch_rejected Non_error))]))) \<and>
   history (admin_run [] (admin_run [] initial_admin_config
       [Change_password (ascii ''pw''), Click_login,
        Completed 0 (Auth_outcome (Fetch_resolved (Response_ok (Inr \<lparr>auth_success = True, auth_message = []\<rparr>)))),
        Click_clear_search True])
     [Click_logout, Change_password (ascii ''pw''), Click_login,
      Completed 0 (Search_outcome (Fetch_rejected Non_error)), Click_login]) =
     history (admin_run [] initial_admin_config
       [Change_password (ascii ''pw''), Click_login,
        Completed 0 (Auth_outcome (Fetch_resolved (Response_ok (Inr \<lparr>auth_success = True, auth_message = []\<rparr>)))),
        Click_clear_search True]) @
       [Called (adminAuth [] (ascii ''pw'')), Called (adminAuth [] (ascii ''pw''))]"
  by (rule logout_leaves_operation_pending)
     (simp_all only: admin_example_clear_search, simp_all add: is_white_space_def)

text \<open>
  C25: Submitting a password calls the authentication endpoint once: from the
  initial state, entering a password that is not blank and submitting it makes
  one call, with that password, and submitting again (by button or by key)
  before the answer makes no further call.
\<close>

theorem login_calls_auth_once:
  assumes "\<not> blank pw" and "list_all is_submit es"
  shows "history (admin_run base initial_admin_config (Change_password pw # Click_login # es)) =
           [Called (adminAuth base pw)]"
proof -
  have "admin_run base c es = c" if "loading (admin_ui c) = Some (ascii ''auth'')" for c
    using assms(2) that by (induction es) (auto elim: is_submit.elims)
  then show ?thesis
    using assms(1) by (simp add: initial_admin_config_def initial_admin_def)
qed

theorem login_calls_auth_once_witness:
  "history (admin_run [] initial_admin_config
     (Change_password (ascii ''pw'') # Click_login # [Click_login, Key_down (ascii ''Enter'')])) =
   [Called (adminAuth [] (ascii ''pw''))]"
  by (rule login_calls_auth_once) (simp_all add: is_white_space_def)

text \<open>
  C18: The result of an authentication depends only on whether the request
  succeeded: any successful response opens the panel, and any failure (a
  rejected password, a network error, a server error) closes it and shows the
  same message, that the password is wrong.
\<close>

theorem auth_outcome:
  assumes "i < length (pending c)" and "pending c ! i = Auth_pending"
  shows "isAuthenticated (admin_ui (admin_step base c (Completed i (Auth_outcome out)))) =
           (\<not> isl (request_result out)) \<and>
         loading (admin_ui (admin_step base c (Completed i (Auth_outcome out)))) = None \<and>
         error (admin_ui (admin_step base c (Completed i (Auth_outcome out)))) =
           (if isl (request_result out) then Some msg_wrong_password else error (admin_ui c))"
  using assms by (cases "request_result out") simp_all

theorem auth_outcome_witness:
  "isAuthenticated (admin_ui (admin_step [] (initial_admin_config\<lparr>pending := [Auth_pending]\<rparr>)
      (Completed 0 (Auth_outcome (Fetch_rejected Non_error))))) =
     (\<not> isl (request_result (Fetch_rejected Non_error :: auth_response fetch_outcome))) \<and>
   loading (admin_ui (admin_step [] (initial_admin_config\<lparr>pending := [Auth_pending]\<rparr>)
      (Completed 0 (Auth_outcome (Fetch_rejected Non_error))))) = None \<and>
   error (admin_ui (admin_step [] (initial_admin_config\<lparr>pending := [Auth_pending]\<rparr>)
      (Completed 0 (Auth_outcome (Fetch_rejected Non_error))))) =
     (if isl (request_result (Fetch_rejected Non_error :: auth_response fetch_outcome))
      then Some msg_wrong_password
      else error (admin_ui (initial_admin_config\<lparr>pending := [Auth_pending]\<rparr>)))"
  by (rule auth_outcome) (simp_all add: initial_admin_config_def)

text \<open>
  A blank password is refused in the browser: submitting it makes no call
  and leaves nothing pending, and where the login form is enabled it shows the
  request to enter a password.
\<close>

theorem blank_password_refused:
  assumes "blank (password (admin_ui c))"
  shows "history (admin_step base c Click_login) = history c \<and>
         pending (admin_step base c Click_login) = pending c \<and>
         error (admin_ui (admin_step base c Click_login)) =
           (if login_enabled (render_Admin (admin_ui c)) then Some msg_enter_password
            else error (admin_ui c))"
  using assms by (simp add: handleAuth_blank)

theorem blank_password_refused_witness:
  "history (admin_step [] (initial_admin_config\<lparr>admin_ui := initial_admin\<lparr>password := ascii '' ''\<rparr>\<rparr>) Click_login) =
     history (initial_admin_config\<lparr>admin_ui := initial_admin\<lparr>password := ascii '' ''\<rparr>\<rparr>) \<and>
   pending (admin_step [] (initial_admin_config\<lparr>admin_ui := initial_admin\<lparr>password := ascii '' ''\<rparr>\<rparr>) Click_login) =
     pending (initial_admin_config\<lparr>admin_ui := initial_admin\<lparr>password := ascii '' ''\<rparr>\<rparr>) \<and>
   error (admin_ui (admin_step [] (initial_admin_config\<lparr>admin_ui := initial_admin\<lparr>password := ascii '' ''\<rparr>\<rparr>) Click_login)) =
     (if login_enabled (render_Admin (admin_ui (initial_admin_config\<lparr>admin_ui := initial_admin\<lparr>password := ascii '' ''\<rparr>\<rparr>)))
      then Some msg_enter_password
      else error (admin_ui (initial_admin_config\<lparr>admin_ui := initial_admin\<lparr>password := ascii '' ''\<rparr>\<rparr>)))"
  by (rule blank_password_refused) (simp add: is_white_space_def)

text \<open>
  C34: A destructive action that the user does not confirm does nothing: no state
  changes, no call is made.
\<close>

theorem unconfirmed_clear_does_nothing:
  "admin_step base c (Click_clear_search False) = c \<and>
   admin_step base c (Click_clear_storage False) = c \<and>
   admin_step base c (Click_clear_all False) = c"
  by (simp add: started_def handleClearSearch_def handleClearStorage_def)

text \<open>
  C19: Clearing both stores clears the index first and the blob store only if
  that succeeded: when the first call fails, no second call is made, the error
  of the first is shown and the operation is over.
\<close>

theorem clear_all_stops_on_failure:
  assumes "i < length (pending c)" and "pending c ! i = All_search_pending pw"
    and "request_result out = Inl err"
  shows "history (admin_step base c (Completed i (Search_outcome out))) = history c \<and>
         pending (admin_step base c (Completed i (Search_outcome out))) = remove_nth i (pending c) \<and>
         error (admin_ui (admin_step base c (Completed i (Search_outcome out)))) =
           Some (catch_message err msg_clear_failed) \<and>
         loading (admin_ui (admin_step base c (Completed i (Search_outcome out)))) = None"
  using assms by (simp add: handleClearAll_search_settled_def)

theorem clear_all_stops_on_failure_witness:
  "history (admin_step [] (initial_admin_config\<lparr>pending := [All_search_pending []]\<rparr>)
      (Completed 0 (Search_outcome (Fetch_rejected Non_error)))) =
     history (initial_admin_config\<lparr>pending := [All_search_pending []]\<rparr>) \<and>
   pending (admin_step [] (initial_admin_config\<lparr>pending := [All_search_pending []]\<rparr>)
      (Completed 0 (Search_outcome (Fetch_rejected Non_error)))) =
     remove_nth 0 (pending (initial_admin_config\<lparr>pending := [All_search_pending []]\<rparr>)) \<and>
   error (admin_ui (admin_step [] (initial_admin_config\<lparr>pending := [All_search_pending []]\<rparr>)
      (Completed 0 (Search_outcome (Fetch_rejected Non_error))))) =
     Some (catch_message Non_error msg_clear_failed) \<and>
   loading (admin_ui (admin_step [] (initial_admin_config\<lparr>pending := [All_search_pending []]\<rparr>)
      (Completed 0 (Search_outcome (Fetch_rejected Non_error))))) = None"
  by (rule clear_all_stops_on_failure) (simp_all add: initial_admin_config_def request_result_def)

text \<open>
  C8: A logout does not stop a clearing of both stores that is under way: if
  the user logs out while the first call is pending and that call then
  succeeds, the second destructive call is still made, with the password the
  closure captured, although the state no longer holds a password.
\<close>

theorem clear_all_continues_after_logout:
  assumes "i < length (pending c)" and "pending c ! i = All_search_pending pw"
    and "request_result out = Inr r" and "isAuthenticated (admin_ui c)"
  shows "history (admin_run base c [Click_logout, Completed i (Search_outcome out)]) =
           history c @ [Called (clearStorage base pw)] \<and>
         password (admin_ui (admin_run base c [Click_logout, Completed i (Search_outcome out)])) = [] \<and>
         \<not> isAuthenticated (admin_ui (admin_run base c [Click_logout, Completed i (Search_outcome out)]))"
  using assms by (simp add: handleLogout_def handleClearAll_search_settled_def)

theorem clear_all_continues_after_logout_witness:
  "history (admin_run [] (admin_run [] initial_admin_config
       [Change_password (ascii ''pw''), Click_login,
        Completed 0 (Auth_outcome (Fetch_resolved (Response_ok (Inr \<lparr>auth_success = True, auth_message = []\<rparr>)))),
        Click_clear_all True])
     [Click_logout, Completed 0 (Search_outcome (Fetch_resolved (Response_ok (Inr
        \<lparr>clear_search_success = True, clear_search_message = [], clear_search_cleared = True,
         index_name = []\<rparr>))))]) =
   history (admin_run [] initial_admin_config
       [Change_password (ascii ''pw''), Click_login,
        Completed 0 (Auth_outcome (Fetch_resolved (Response_ok (Inr \<lparr>auth_success = True, auth_message = []\<rparr>)))),
        Click_clear_all True]) @ [Called (clearStorage [] (ascii ''pw''))] \<and>
   password (admin_ui (admin_run [] (admin_run [] initial_admin_config
       [Change_password (ascii ''pw''), Click_login,
        Completed 0 (Auth_outcome (Fetch_resolved (Response_ok (Inr \<lparr>auth_success = True, auth_message = []\<rparr>)))),
        Click_clear_all True])
     [Click_logout, Completed 0 (Search_outcome (Fetch_resolved (Response_ok (Inr
        \<lparr>clear_search_success = True, clear_search_message = [], clear_search_cleared = True,
         index_name = []\<rparr>))))])) = [] \<and>
   \<not> isAuthenticated (admin_ui (admin_run [] (admin_run [] initial_admin_config
       [Change_password (ascii ''pw''), Click_login,
        Completed 0 (Auth_outcome (Fetch_resolved (Response_ok (Inr \<lparr>auth_success = True, auth_message = []\<rparr>)))),
        Click_clear_all True])
     [Click_logout, Completed 0 (Search_outcome (Fetch_resolved (Response_ok (Inr
        \<lparr>clear_search_success = True, clear_search_message = [], clear_search_cleared = True,
         index_name = []\<rparr>))))]))"
  by (rule clear_all_continues_after_logout)
     (simp_all only: admin_example_clear_all, simp_all add: request_result_def)

text \<open>
  C35: The timer that hides the message of a successful login is never
  cancelled, so it hides whatever message is shown when it fires. Whenever an
  authentication succeeds and the user then clears the blob store, the
  confirmation of the clearing is shown, the timer of the login is still armed,
  and its firing removes the confirmation.
\<close>

theorem stale_timer_hides_message:
  assumes "i < length (pending c)" and "pending c ! i = Auth_pending"
    and "request_result out = Inr r" and "request_result out' = Inr r'"
  shows "success (admin_ui (admin_run base c
           [Completed i (Auth_outcome out), Click_clear_storage True,
            Completed (length (pending c) - 1) (Storage_outcome out')])) =
           Some (msg_storage_cleared (deleted_count r')) \<and>
         0 < timers (admin_run base c
           [Completed i (Auth_outcome out), Click_clear_storage True,
            Completed (length (pending c) - 1) (Storage_outcome out')]) \<and>
         success (admin_ui (admin_run base c
           [Completed i (Auth_outcome out), Click_clear_storage True,
            Completed (length (pending c) - 1) (Storage_outcome out'), Timer_fired])) = None"
  using assms by (simp add: nth_append handleClearStorage_settled_def)

theorem stale_timer_hides_message_witness:
  "success (admin_ui (admin_run []
       (admin_run [] initial_admin_config [Change_password (ascii ''pw''), Click_login])
       [Completed 0 (Auth_outcome (Fetch_resolved (Response_ok (Inr \<lparr>auth_success = True, auth_message = []\<rparr>)))),
        Click_clear_storage True,
        Completed (length (pending (admin_run [] initial_admin_config
            [Change_password (ascii ''pw''), Click_login])) - 1)
          (Storage_outcome (Fetch_resolved (Response_ok (Inr
            \<lparr>clear_storage_success = True, clear_storage_message = [], clear_storage_cleared = True,
             deleted_count = 3\<rparr>))))])) =
     Some (msg_storage_cleared (deleted_count
            \<lparr>clear_storage_success = True, clear_storage_message = [], clear_storage_cleared = True,
             deleted_count = 3\<rparr>)) \<and>
   0 < timers (admin_run []
       (admin_run [] initial_admin_config [Change_password (ascii ''pw''), Click_login])
       [Completed 0 (Auth_outcome (Fetch_resolved (Response_ok (Inr \<lparr>auth_success = True, auth_message = []\<rparr>)))),
        Click_clear_storage True,
        Completed (length (pending (admin_run [] initial_admin_config
            [Change_password (ascii ''pw''), Click_login])) - 1)
          (Storage_outcome (Fetch_resolved (Response_ok (Inr
            \<lparr>clear_storage_success = True, clear_storage_message = [], clear_storage_cleared = True,
             deleted_count = 3\<rparr>))))]) \<and>
   success (admin_ui (admin_run []
       (admin_run [] initial_admin_config [Change_password (ascii ''pw''), Click_login])
       [Completed 0 (Auth_outcome (Fetch_resolved (Response_ok (Inr \<lparr>auth_success = True, auth_message = []\<rparr>)))),
        Click_clear_storage True,
        Completed (length (pending (admin_run [] initial_admin_config
            [Change_password (ascii ''pw''), Click_login])) - 1)
          (Storage_outcome (Fetch_resolved (Response_ok (Inr
            \<lparr>clear_storage_success = True, clear_storage_message = [], clear_storage_cleared = True,
             deleted_count = 3\<rparr>)))),
        Timer_fired])) = None"
  by (rule stale_timer_hides_message [where r = "\<lparr>auth_success = True, auth_message = []\<rparr>"])
     (simp_all only: admin_example_submitted, simp_all add: request_result_def)

text \<open>
  Every call the panel makes is a POST with the JSON content type to one of
  the three administration endpoints, and its body is an object with the one
  property \<^verbatim>\<open>password\<close>.
\<close>

theorem admin_calls_carry_password:
  assumes "admin_reachable base c" and "Called call \<in> set (history c)"
  shows "is_admin_call base call"
  using reachable_admin_calls [OF assms(1)] assms(2) by simp

theorem admin_calls_carry_password_witness:
  "is_admin_call [] (clearSearch [] (ascii ''pw''))"
  by (rule admin_calls_carry_password
        [OF admin_reachable_run [OF admin_start, where base = "[]" and es =
           "[Change_password (ascii ''pw''), Click_login,
             Completed 0 (Auth_outcome (Fetch_resolved (Response_ok
               (Inr \<lparr>auth_success = True, auth_message = []\<rparr>)))),
             Click_clear_search True]"]])
     (simp only: admin_example_clear_search, simp)

text \<open>
  C39: The messages that confirm a clearing of the blob store, alone or with the
  index, show the count the backend reported: reading the first run of digits
  of the message gives the magnitude of the count back.
\<close>

theorem success_message_shows_count:
  "map_option read_count (success (handleClearStorage_settled (Inr r) s)) =
     Some (nat \<bar>deleted_count r\<bar>) \<and>
   map_option read_count (success (handleClearAll_storage_settled (Inr r) s)) =
     Some (nat \<bar>deleted_count r\<bar>)"
  by (simp add: handleClearStorage_settled_def handleClearAll_storage_settled_def
      msg_storage_cleared_def msg_all_cleared_def number_to_string_def is_digit_unit_def)

end
