(* ===== verification/Document_Upload.thy ===== *)
theory Document_Upload
  imports Api_Client
begin

text \<open>
  The document panel of \<^verbatim>\<open>src/frontend/src/components/DocumentUpload.tsx\<close>.

  \<^descr>[State] \<open>upload_state\<close> has one field per \<^verbatim>\<open>useState\<close> hook. A configuration
  \<open>upload_config\<close> is one mounted instance of the component: the state, the
  value of the file input behind \<^verbatim>\<open>fileInputRef\<close>, the continuations waiting for
  a call to settle, the intervals and timeouts that are armed, and the calls
  made so far.
  \<^descr>[Handlers] The handlers start timers and further calls, so they are
  functions on configurations. An \<^verbatim>\<open>async\<close> handler is two definitions, split at
  its \<^verbatim>\<open>await\<close>; the second takes what the closure captured (the file and the
  interval of an upload, the name of a deleted document). \<^verbatim>\<open>loadDocuments\<close> is
  called without \<^verbatim>\<open>await\<close> by three continuations: it runs up to its own
  \<^verbatim>\<open>await\<close> inside them.
  \<^descr>[Formatting] \<open>formatSize\<close> and \<open>formatDate\<close>; the conversion of a date to
  local text is a parameter.
  \<^descr>[View and system] \<open>render_DocumentUpload\<close>, and \<open>upload_step\<close>, which runs one
  event: a user event through the control that carries it, the completion of a
  call, a tick of an interval, the firing of a timeout.
\<close>

section \<open>State\<close>

record upload_state =
  uploading :: bool
  uploadProgress :: int
  error :: "jsstring option"
  success :: "jsstring option"
  documents :: "Document list"
  loading :: bool
  dragging :: bool
  reindexing :: bool

definition initial_upload :: upload_state where
  "initial_upload =
     \<lparr>uploading = False, uploadProgress = 0, error = None, success = None, documents = [],
      loading = False, dragging = False, reindexing = False\<rparr>"

datatype upload_pending =
    List_pending
  | Upload_pending browser_file nat
  | Delete_pending jsstring
  | Reindex_pending

record upload_config =
  upload_ui :: upload_state
  input_value :: jsstring
  waiting :: "upload_pending list"
  intervals :: "nat list"
  next_interval :: nat
  timeouts :: nat
  calls :: "fetch_call list"

definition initial_upload_config :: upload_config where
  "initial_upload_config =
     \<lparr>upload_ui = initial_upload, input_value = [], waiting = [], intervals = [],
      next_interval = 0, timeouts = 0, calls = []\<rparr>"

text \<open>A call is made and the rest of the handler waits for it.\<close>

definition awaiting :: "upload_pending \<Rightarrow> fetch_call \<Rightarrow> upload_config \<Rightarrow> upload_config" where
  "awaiting k call c = c\<lparr>waiting := waiting c @ [k], calls := calls c @ [call]\<rparr>"

section \<open>Texts\<close>

definition msg_load_failed :: jsstring where
  "msg_load_failed =
     [0x30C9, 0x30AD, 0x30E5, 0x30E1, 0x30F3, 0x30C8, 0x306E, 0x8AAD, 0x307F, 0x8FBC, 0x307F,
      0x306B, 0x5931, 0x6557, 0x3057, 0x307E, 0x3057, 0x305F]"

definition msg_uploaded :: "jsstring \<Rightarrow> jsstring" where
  "msg_uploaded fname =
     [0x300C] @ fname @
     [0x300D, 0x306E, 0x30A2, 0x30C3, 0x30D7, 0x30ED, 0x30FC, 0x30C9, 0x304C, 0x5B8C, 0x4E86,
      0x3057, 0x307E, 0x3057, 0x305F, 0xFF01, 0x0041, 0x0049, 0x306B, 0x3088, 0x308B, 0x30A4,
      0x30F3, 0x30C7, 0x30C3, 0x30AF, 0x30B9, 0x767B, 0x9332, 0x3082, 0x5B8C, 0x4E86, 0x3002]"

definition msg_upload_failed :: jsstring where
  "msg_upload_failed =
     [0x30A2, 0x30C3, 0x30D7, 0x30ED, 0x30FC, 0x30C9, 0x306B, 0x5931, 0x6557, 0x3057, 0x307E,
      0x3057, 0x305F]"

definition msg_deleted :: "jsstring \<Rightarrow> jsstring" where
  "msg_deleted fileName =
     [0x300C] @ fileName @
     [0x300D, 0x3092, 0x524A, 0x9664, 0x3057, 0x307E, 0x3057, 0x305F]"

definition msg_delete_failed :: jsstring where
  "msg_delete_failed =
     [0x524A, 0x9664, 0x306B, 0x5931, 0x6557, 0x3057, 0x307E, 0x3057, 0x305F]"

definition msg_reindexed :: "int \<Rightarrow> int \<Rightarrow> jsstring" where
  "msg_reindexed indexed_count total_count =
     [0x518D, 0x30A4, 0x30F3, 0x30C7, 0x30C3, 0x30AF, 0x30B9, 0x5B8C, 0x4E86, 0xFF01, 0x0020] @ number_to_string indexed_count @
     [0x002F] @ number_to_string total_count @
     [0x0020, 0x30D5, 0x30A1, 0x30A4, 0x30EB, 0x3092, 0x51E6, 0x7406, 0x3057, 0x307E, 0x3057,
      0x305F]"

definition msg_reindex_failed :: jsstring where
  "msg_reindex_failed =
     [0x518D, 0x30A4, 0x30F3, 0x30C7, 0x30C3, 0x30AF, 0x30B9, 0x306B, 0x5931, 0x6557, 0x3057,
      0x307E, 0x3057, 0x305F]"

definition msg_unknown :: jsstring where
  "msg_unknown =
     [0x4E0D, 0x660E]"

definition label_reindexing :: jsstring where
  "label_reindexing =
     [0x23F3, 0x0020, 0x51E6, 0x7406, 0x4E2D, 0x002E, 0x002E, 0x002E]"

definition label_reindex :: jsstring where
  "label_reindex =
     [0x26A1, 0x0020, 0x518D, 0x30A4, 0x30F3, 0x30C7, 0x30C3, 0x30AF, 0x30B9]"

definition label_loading :: jsstring where
  "label_loading =
     [0x8AAD, 0x8FBC, 0x4E2D, 0x002E, 0x002E, 0x002E]"

definition label_refresh :: jsstring where
  "label_refresh =
     [0xD83D, 0xDCCB, 0x0020, 0x4E00, 0x89A7, 0x66F4, 0x65B0]"

section \<open>Handlers\<close>

subsection \<open>Loading the list\<close>

definition loadDocuments :: "jsstring \<Rightarrow> upload_config \<Rightarrow> upload_config" where
  "loadDocuments base c =
     awaiting List_pending (listDocuments base) (c\<lparr>upload_ui := (upload_ui c)\<lparr>loading := True\<rparr>\<rparr>)"

definition loadDocuments_settled :: "thrown + list_response \<Rightarrow> upload_config \<Rightarrow> upload_config" where
  "loadDocuments_settled settled c =
     (case settled of
        Inr result \<Rightarrow>
          c\<lparr>upload_ui := (upload_ui c)\<lparr>documents := list_response.documents result, loading := False\<rparr>\<rparr>
      | Inl err \<Rightarrow>
          c\<lparr>upload_ui := (upload_ui c)\<lparr>error := Some (catch_message err msg_load_failed),
                                        loading := False\<rparr>\<rparr>)"

subsection \<open>Uploading\<close>

definition handleFileSelect :: "jsstring \<Rightarrow> browser_file \<Rightarrow> upload_config \<Rightarrow> upload_config" where
  "handleFileSelect base file c =
     (let progressInterval = next_interval c in
      awaiting (Upload_pending file progressInterval) (uploadDocument base file)
        (c\<lparr>upload_ui := (upload_ui c)\<lparr>uploading := True, error := None, success := None,
                                      uploadProgress := 0\<rparr>,
           intervals := intervals c @ [progressInterval],
           next_interval := Suc (next_interval c)\<rparr>))"

text \<open>The callback of the interval, a functional update.\<close>

definition progress_tick :: "upload_config \<Rightarrow> upload_config" where
  "progress_tick c =
     c\<lparr>upload_ui := (upload_ui c)\<lparr>uploadProgress := min (uploadProgress (upload_ui c) + 10) 90\<rparr>\<rparr>"

text \<open>The callback of the timeout that \<^verbatim>\<open>finally\<close> arms.\<close>

definition progress_reset :: "upload_config \<Rightarrow> upload_config" where
  "progress_reset c = c\<lparr>upload_ui := (upload_ui c)\<lparr>uploadProgress := 0\<rparr>\<rparr>"

text \<open>
  The rest of \<^verbatim>\<open>handleFileSelect\<close>: the end of \<^verbatim>\<open>try\<close>, the \<^verbatim>\<open>catch\<close> clause and
  \<^verbatim>\<open>finally\<close>. The \<^verbatim>\<open>finally\<close> block empties the file input if \<^verbatim>\<open>fileInputRef.current\<close>
  is set; the ref belongs to the input element that every view of the panel
  renders, so it is set as long as the panel is mounted, and \<open>input_value\<close> is
  the value of that element. Once the panel is unmounted (theory \<open>App\<close>) there
  is no element, and the field stands for nothing.
\<close>

definition handleFileSelect_settled ::
    "jsstring \<Rightarrow> browser_file \<Rightarrow> nat \<Rightarrow> thrown + upload_response \<Rightarrow> upload_config \<Rightarrow>
     upload_config" where
  "handleFileSelect_settled base file progressInterval settled c =
     (let c1 =
        (case settled of
           Inr r \<Rightarrow>
             loadDocuments base
               (c\<lparr>upload_ui := (upload_ui c)\<lparr>uploadProgress := 100,
                                             success := Some (msg_uploaded (filename file))\<rparr>\<rparr>)
         | Inl err \<Rightarrow>
             c\<lparr>upload_ui := (upload_ui c)\<lparr>error := Some (catch_message err msg_upload_failed)\<rparr>\<rparr>)
      in c1\<lparr>intervals := removeAll progressInterval (intervals c1),
            upload_ui := (upload_ui c1)\<lparr>uploading := False\<rparr>,
            timeouts := Suc (timeouts c1),
            input_value := []\<rparr>)"

definition handleInputChange :: "jsstring \<Rightarrow> browser_file option \<Rightarrow> upload_config \<Rightarrow> upload_config" where
  "handleInputChange base first_file c =
     (case first_file of None \<Rightarrow> c | Some file \<Rightarrow> handleFileSelect base file c)"

definition handleDrop :: "jsstring \<Rightarrow> browser_file option \<Rightarrow> upload_config \<Rightarrow> upload_config" where
  "handleDrop base first_file c =
     (let c1 = c\<lparr>upload_ui := (upload_ui c)\<lparr>dragging := False\<rparr>\<rparr> in
      case first_file of None \<Rightarrow> c1 | Some file \<Rightarrow> handleFileSelect base file c1)"

definition handleDragOver :: "upload_config \<Rightarrow> upload_config" where
  "handleDragOver c = c\<lparr>upload_ui := (upload_ui c)\<lparr>dragging := True\<rparr>\<rparr>"

definition handleDragLeave :: "upload_config \<Rightarrow> upload_config" where
  "handleDragLeave c = c\<lparr>upload_ui := (upload_ui c)\<lparr>dragging := False\<rparr>\<rparr>"

subsection \<open>Deleting\<close>

definition handleDelete_settled ::
    "jsstring \<Rightarrow> jsstring \<Rightarrow> thrown + delete_response \<Rightarrow> upload_config \<Rightarrow> upload_config" where
  "handleDelete_settled base fileName settled c =
     (case settled of
        Inr r \<Rightarrow>
          loadDocuments base (c\<lparr>upload_ui := (upload_ui c)\<lparr>success := Some (msg_deleted fileName)\<rparr>\<rparr>)
      | Inl err \<Rightarrow>
          c\<lparr>upload_ui := (upload_ui c)\<lparr>error := Some (catch_message err msg_delete_failed)\<rparr>\<rparr>)"

text \<open>
  When \<^verbatim>\<open>encodeURIComponent\<close> throws inside \<^verbatim>\<open>deleteDocument\<close>, no call is made and
  the promise is rejected at once: the \<^verbatim>\<open>catch\<close> clause runs before any other
  event.
\<close>

definition handleDelete ::
    "(jsstring \<Rightarrow> thrown + jsstring) \<Rightarrow> jsstring \<Rightarrow> jsstring \<Rightarrow> bool \<Rightarrow> upload_config \<Rightarrow>
     upload_config" where
  "handleDelete encodeURIComponent base fileName confirmed c =
     (if \<not> confirmed then c
      else case deleteDocument encodeURIComponent base fileName of
             Inr call \<Rightarrow> awaiting (Delete_pending fileName) call c
           | Inl uri_error \<Rightarrow> handleDelete_settled base fileName (Inl uri_error) c)"

subsection \<open>Reindexing\<close>

definition handleReindex :: "jsstring \<Rightarrow> bool \<Rightarrow> upload_config \<Rightarrow> upload_config" where
  "handleReindex base confirmed c =
     (if \<not> confirmed then c
      else awaiting Reindex_pending (reindexAll base)
             (c\<lparr>upload_ui := (upload_ui c)\<lparr>reindexing := True, error := None, success := None\<rparr>\<rparr>))"

definition handleReindex_settled ::
    "jsstring \<Rightarrow> thrown + reindex_response \<Rightarrow> upload_config \<Rightarrow> upload_config" where
  "handleReindex_settled base settled c =
     (let c1 =
        (case settled of
           Inr result \<Rightarrow>
             loadDocuments base
               (c\<lparr>upload_ui := (upload_ui c)\<lparr>success :=
                      Some (msg_reindexed (indexed result) (total result))\<rparr>\<rparr>)
         | Inl err \<Rightarrow>
             c\<lparr>upload_ui := (upload_ui c)\<lparr>error := Some (catch_message err msg_reindex_failed)\<rparr>\<rparr>)
      in c1\<lparr>upload_ui := (upload_ui c1)\<lparr>reindexing := False\<rparr>\<rparr>)"

section \<open>Formatting\<close>

definition formatSize :: "int \<Rightarrow> jsstring" where
  "formatSize bytes =
     (if bytes < 1024 then number_to_string bytes @ ascii '' B''
      else if bytes < 1024 * 1024 then to_fixed_1 bytes 1024 @ ascii '' KB''
      else to_fixed_1 bytes (1024 * 1024) @ ascii '' MB'')"

definition formatDate :: "(jsstring \<Rightarrow> jsstring) \<Rightarrow> jsstring option \<Rightarrow> jsstring" where
  "formatDate toLocaleString dateStr =
     (case dateStr of
        None \<Rightarrow> msg_unknown
      | Some d \<Rightarrow> if \<not> truthy d then msg_unknown else toLocaleString d)"

section \<open>View\<close>

datatype upload_area = Busy "int option" | Idle

record document_row =
  row_key :: jsstring
  row_name :: jsstring
  row_meta :: jsstring

record upload_view =
  shown_error :: "jsstring option"
  shown_success :: "jsstring option"
  area_dragging :: bool
  input_disabled :: bool
  area :: upload_area
  reindex_disabled :: bool
  reindex_label :: jsstring
  refresh_disabled :: bool
  refresh_label :: jsstring
  rows :: "document_row list"

definition render_row :: "(jsstring \<Rightarrow> jsstring) \<Rightarrow> Document \<Rightarrow> document_row" where
  "render_row toLocaleString doc =
     \<lparr>row_key = name doc, row_name = name doc,
      row_meta = formatSize (size_bytes doc) @
     [0x0020, 0x2022, 0x0020] @
                 formatDate toLocaleString (last_modified doc)\<rparr>"

definition render_DocumentUpload :: "(jsstring \<Rightarrow> jsstring) \<Rightarrow> upload_state \<Rightarrow> upload_view" where
  "render_DocumentUpload toLocaleString s =
     \<lparr>shown_error = (if truthy_opt (error s) then error s else None),
      shown_success = (if truthy_opt (success s) then success s else None),
      area_dragging = dragging s,
      input_disabled = uploading s,
      area = (if uploading s
              then Busy (if uploadProgress s > 0 then Some (uploadProgress s) else None)
              else Idle),
      reindex_disabled = reindexing s,
      reindex_label = (if reindexing s then label_reindexing else label_reindex),
      refresh_disabled = loading s,
      refresh_label = (if loading s then label_loading else label_refresh),
      rows = map (render_row toLocaleString) (documents s)\<rparr>"

section \<open>The panel as a system\<close>

datatype upload_outcome =
    List_outcome "list_response fetch_outcome"
  | Upload_outcome "upload_response fetch_outcome"
  | Delete_outcome "delete_response fetch_outcome"
  | Reindex_outcome "reindex_response fetch_outcome"

datatype upload_event =
    Choose_file "browser_file option"
  | Drop_file "browser_file option"
  | Drag_over
  | Drag_leave
  | Click_delete nat bool
  | Click_reindex bool
  | Click_refresh
  | Finished nat upload_outcome
  | Interval_tick nat
  | Timeout_fired

text \<open>
  \<open>resume base k out c\<close>: the continuation \<open>k\<close> run on the outcome \<open>out\<close>; \<open>None\<close>
  when the outcome is not one of the call \<open>k\<close> waits for.
\<close>

fun resume :: "jsstring \<Rightarrow> upload_pending \<Rightarrow> upload_outcome \<Rightarrow> upload_config \<Rightarrow> upload_config option" where
  "resume base List_pending (List_outcome out) c = Some (loadDocuments_settled (request_result out) c)"
| "resume base (Upload_pending file i) (Upload_outcome out) c =
     Some (handleFileSelect_settled base file i (uploadDocument_result out) c)"
| "resume base (Delete_pending fileName) (Delete_outcome out) c =
     Some (handleDelete_settled base fileName (request_result out) c)"
| "resume base Reindex_pending (Reindex_outcome out) c =
     Some (handleReindex_settled base (request_result out) c)"
| "resume base k out c = None"

text \<open>
  A file input fires \<^verbatim>\<open>change\<close> only when its value changes, and not at all when
  it is disabled; a drop on the area reaches \<open>handleDrop\<close> in every state. The
  delete button of row \<open>i\<close> exists when the list has a row \<open>i\<close>.
\<close>

fun upload_step ::
    "(jsstring \<Rightarrow> thrown + jsstring) \<Rightarrow> jsstring \<Rightarrow> upload_config \<Rightarrow> upload_event \<Rightarrow> upload_config" where
  "upload_step enc base c (Choose_file first_file) =
     (let v = (case first_file of None \<Rightarrow> [] | Some file \<Rightarrow> filename file) in
      if uploading (upload_ui c) \<or> v = input_value c then c
      else handleInputChange base first_file (c\<lparr>input_value := v\<rparr>))"
| "upload_step enc base c (Drop_file first_file) = handleDrop base first_file c"
| "upload_step enc base c Drag_over = handleDragOver c"
| "upload_step enc base c Drag_leave = handleDragLeave c"
| "upload_step enc base c (Click_delete i confirmed) =
     (if i < length (documents (upload_ui c))
      then handleDelete enc base (name (documents (upload_ui c) ! i)) confirmed c
      else c)"
| "upload_step enc base c (Click_reindex confirmed) =
     (if reindexing (upload_ui c) then c else handleReindex base confirmed c)"
| "upload_step enc base c Click_refresh =
     (if loading (upload_ui c) then c else loadDocuments base c)"
| "upload_step enc base c (Finished i out) =
     (if i < length (waiting c)
      then (case resume base (waiting c ! i) out (c\<lparr>waiting := remove_nth i (waiting c)\<rparr>) of
              None \<Rightarrow> c
            | Some c' \<Rightarrow> c')
      else c)"
| "upload_step enc base c (Interval_tick i) =
     (if i \<in> set (intervals c) then progress_tick c else c)"
| "upload_step enc base c Timeout_fired =
     (if timeouts c > 0 then progress_reset (c\<lparr>timeouts := timeouts c - 1\<rparr>) else c)"

fun upload_run ::
    "(jsstring \<Rightarrow> thrown + jsstring) \<Rightarrow> jsstring \<Rightarrow> upload_config \<Rightarrow> upload_event list \<Rightarrow>
     upload_config" where
  "upload_run enc base c [] = c"
| "upload_run enc base c (e # es) = upload_run enc base (upload_step enc base c e) es"

inductive upload_reachable ::
    "(jsstring \<Rightarrow> thrown + jsstring) \<Rightarrow> jsstring \<Rightarrow> upload_config \<Rightarrow> bool" for enc base where
  upload_start: "upload_reachable enc base initial_upload_config"
| upload_next: "upload_reachable enc base c \<Longrightarrow> upload_reachable enc base (upload_step enc base c e)"

section \<open>What is armed and what is waiting\<close>

fun interval_of :: "upload_pending \<Rightarrow> nat list" where
  "interval_of (Upload_pending file i) = [i]"
| "interval_of k = []"

definition pending_intervals :: "upload_pending list \<Rightarrow> nat list" where
  "pending_intervals ks = concat (map interval_of ks)"

definition timers_ok :: "upload_config \<Rightarrow> bool" where
  "timers_ok c \<longleftrightarrow>
     mset (intervals c) = mset (pending_intervals (waiting c)) \<and> distinct (intervals c) \<and>
     list_all (\<lambda>i. i < next_interval c) (intervals c)"

definition flags_ok :: "upload_config \<Rightarrow> bool" where
  "flags_ok c \<longleftrightarrow>
     count (mset (waiting c)) Reindex_pending = (if reindexing (upload_ui c) then 1 else 0) \<and>
     (uploading (upload_ui c) \<longrightarrow> intervals c \<noteq> []) \<and>
     (loading (upload_ui c) \<longrightarrow> 0 < count (mset (waiting c)) List_pending)"

definition progress_ok :: "upload_config \<Rightarrow> bool" where
  "progress_ok c \<longleftrightarrow> 0 \<le> uploadProgress (upload_ui c) \<and> uploadProgress (upload_ui c) \<le> 100"

lemmas upload_handler_defs [handler_defs] =
  awaiting_def loadDocuments_def loadDocuments_settled_def handleFileSelect_def progress_tick_def
  progress_reset_def handleFileSelect_settled_def handleInputChange_def handleDrop_def
  handleDragOver_def handleDragLeave_def handleDelete_def handleDelete_settled_def
  handleReindex_def handleReindex_settled_def

lemmas upload_view_defs [view_defs] = render_DocumentUpload_def render_row_def

lemmas upload_inv_defs [inv_defs] = timers_ok_def flags_ok_def progress_ok_def

section \<open>Completions\<close>

lemma resume_cases:
  assumes "resume base k out c = Some c'"
  obtains (list) x where "k = List_pending" "out = List_outcome x"
      "c' = loadDocuments_settled (request_result x) c"
  | (upload) f i x where "k = Upload_pending f i" "out = Upload_outcome x"
      "c' = handleFileSelect_settled base f i (uploadDocument_result x) c"
  | (delete) fileName x where "k = Delete_pending fileName" "out = Delete_outcome x"
      "c' = handleDelete_settled base fileName (request_result x) c"
  | (reindex) x where "k = Reindex_pending" "out = Reindex_outcome x"
      "c' = handleReindex_settled base (request_result x) c"
  using assms by (cases k; cases out) simp_all

lemma pending_intervals_simps [simp]:
  "pending_intervals [] = []"
  "pending_intervals (ks @ ks') = pending_intervals ks @ pending_intervals ks'"
  "pending_intervals [k] = interval_of k"
  by (simp_all add: pending_intervals_def)

lemma pending_intervals_remove_nth:
  "i < length ks \<Longrightarrow>
   mset (pending_intervals (remove_nth i ks)) = mset (pending_intervals ks) - mset (interval_of (ks ! i))"
  by (simp add: pending_intervals_def mset_concat_map_remove_nth)

section \<open>The handlers, field by field\<close>

lemma loadDocuments_fields [simp]:
  "upload_ui (loadDocuments base c) = (upload_ui c)\<lparr>loading := True\<rparr>"
  "waiting (loadDocuments base c) = waiting c @ [List_pending]"
  "calls (loadDocuments base c) = calls c @ [listDocuments base]"
  "intervals (loadDocuments base c) = intervals c"
  "next_interval (loadDocuments base c) = next_interval c"
  "timeouts (loadDocuments base c) = timeouts c"
  "input_value (loadDocuments base c) = input_value c"
  by (simp_all add: loadDocuments_def awaiting_def)

lemma loadDocuments_settled_fields [simp]:
  "upload_ui (loadDocuments_settled r c) =
     (case r of
        Inr result \<Rightarrow> (upload_ui c)\<lparr>documents := list_response.documents result, loading := False\<rparr>
      | Inl err \<Rightarrow> (upload_ui c)\<lparr>error := Some (catch_message err msg_load_failed), loading := False\<rparr>)"
  "waiting (loadDocuments_settled r c) = waiting c"
  "calls (loadDocuments_settled r c) = calls c"
  "intervals (loadDocuments_settled r c) = intervals c"
  "next_interval (loadDocuments_settled r c) = next_interval c"
  "timeouts (loadDocuments_settled r c) = timeouts c"
  "input_value (loadDocuments_settled r c) = input_value c"
  by (simp_all add: loadDocuments_settled_def split: sum.splits)

lemma handleFileSelect_fields [simp]:
  "upload_ui (handleFileSelect base f c) =
     (upload_ui c)\<lparr>uploading := True, error := None, success := None, uploadProgress := 0\<rparr>"
  "waiting (handleFileSelect base f c) = waiting c @ [Upload_pending f (next_interval c)]"
  "calls (handleFileSelect base f c) = calls c @ [uploadDocument base f]"
  "intervals (handleFileSelect base f c) = intervals c @ [next_interval c]"
  "next_interval (handleFileSelect base f c) = Suc (next_interval c)"
  "timeouts (handleFileSelect base f c) = timeouts c"
  "input_value (handleFileSelect base f c) = input_value c"
  by (simp_all add: handleFileSelect_def awaiting_def Let_def)

lemma handleFileSelect_settled_fields [simp]:
  "upload_ui (handleFileSelect_settled base f n r c) =
     (case r of
        Inr resp \<Rightarrow>
          (upload_ui c)\<lparr>uploadProgress := 100, success := Some (msg_uploaded (filename f)),
                         loading := True, uploading := False\<rparr>
      | Inl err \<Rightarrow>
          (upload_ui c)\<lparr>error := Some (catch_message err msg_upload_failed), uploading := False\<rparr>)"
  "waiting (handleFileSelect_settled base f n r c) = waiting c @ (if isl r then [] else [List_pending])"
  "calls (handleFileSelect_settled base f n r c) = calls c @ (if isl r then [] else [listDocuments base])"
  "intervals (handleFileSelect_settled base f n r c) = removeAll n (intervals c)"
  "next_interval (handleFileSelect_settled base f n r c) = next_interval c"
  "timeouts (handleFileSelect_settled base f n r c) = Suc (timeouts c)"
  "input_value (handleFileSelect_settled base f n r c) = []"
  by (simp_all add: handleFileSelect_settled_def Let_def split: sum.splits)

lemma handleDelete_settled_fields [simp]:
  "upload_ui (handleDelete_settled base fileName r c) =
     (case r of
        Inr resp \<Rightarrow> (upload_ui c)\<lparr>success := Some (msg_deleted fileName), loading := True\<rparr>
      | Inl err \<Rightarrow> (upload_ui c)\<lparr>error := Some (catch_message err msg_delete_failed)\<rparr>)"
  "waiting (handleDelete_settled base fileName r c) = waiting c @ (if isl r then [] else [List_pending])"
  "calls (handleDelete_settled base fileName r c) = calls c @ (if isl r then [] else [listDocuments base])"
  "intervals (handleDelete_settled base fileName r c) = intervals c"
  "next_interval (handleDelete_settled base fileName r c) = next_interval c"
  "timeouts (handleDelete_settled base fileName r c) = timeouts c"
  "input_value (handleDelete_settled base fileName r c) = input_value c"
  by (simp_all add: handleDelete_settled_def split: sum.splits)

lemma handleReindex_settled_fields [simp]:
  "upload_ui (handleReindex_settled base r c) =
     (case r of
        Inr result \<Rightarrow>
          (upload_ui c)\<lparr>success := Some (msg_reindexed (indexed result) (total result)),
                         loading := True, reindexing := False\<rparr>
      | Inl err \<Rightarrow>
          (upload_ui c)\<lparr>error := Some (catch_message err msg_reindex_failed), reindexing := False\<rparr>)"
  "waiting (handleReindex_settled base r c) = waiting c @ (if isl r then [] else [List_pending])"
  "calls (handleReindex_settled base r c) = calls c @ (if isl r then [] else [listDocuments base])"
  "intervals (handleReindex_settled base r c) = intervals c"
  "next_interval (handleReindex_settled base r c) = next_interval c"
  "timeouts (handleReindex_settled base r c) = timeouts c"
  "input_value (handleReindex_settled base r c) = input_value c"
  by (simp_all add: handleReindex_settled_def Let_def split: sum.splits)

lemma handleDelete_cases:
  obtains (refused) "\<not> confirmed" "handleDelete enc base fileName confirmed c = c"
  | (sent) encoded where "confirmed" "enc fileName = Inr encoded"
      "handleDelete enc base fileName confirmed c =
         awaiting (Delete_pending fileName)
           (request base (ascii ''/documents/'' @ encoded) (Some (no_options\<lparr>init_method := Some DELETE\<rparr>))) c"
  | (thrown) uri_error where "confirmed" "enc fileName = Inl uri_error"
      "handleDelete enc base fileName confirmed c =
         c\<lparr>upload_ui := (upload_ui c)\<lparr>error := Some (catch_message uri_error msg_delete_failed)\<rparr>\<rparr>"
  by (cases confirmed; cases "enc fileName")
    (auto simp: handleDelete_def deleteDocument_def handleDelete_settled_def)

lemma handleDelete_fields [simp]:
  "intervals (handleDelete enc base fileName confirmed c) = intervals c"
  "next_interval (handleDelete enc base fileName confirmed c) = next_interval c"
  "timeouts (handleDelete enc base fileName confirmed c) = timeouts c"
  "input_value (handleDelete enc base fileName confirmed c) = input_value c"
  "pending_intervals (waiting (handleDelete enc base fileName confirmed c)) = pending_intervals (waiting c)"
  "uploading (upload_ui (handleDelete enc base fileName confirmed c)) = uploading (upload_ui c)"
  "loading (upload_ui (handleDelete enc base fileName confirmed c)) = loading (upload_ui c)"
  "reindexing (upload_ui (handleDelete enc base fileName confirmed c)) = reindexing (upload_ui c)"
  "uploadProgress (upload_ui (handleDelete enc base fileName confirmed c)) = uploadProgress (upload_ui c)"
  "documents (upload_ui (handleDelete enc base fileName confirmed c)) = documents (upload_ui c)"
  by (cases rule: handleDelete_cases [of confirmed enc base fileName c]; simp add: awaiting_def)+

lemma handleReindex_fields [simp]:
  "upload_ui (handleReindex base confirmed c) =
     (if confirmed then (upload_ui c)\<lparr>reindexing := True, error := None, success := None\<rparr>
      else upload_ui c)"
  "waiting (handleReindex base confirmed c) = waiting c @ (if confirmed then [Reindex_pending] else [])"
  "calls (handleReindex base confirmed c) = calls c @ (if confirmed then [reindexAll base] else [])"
  "intervals (handleReindex base confirmed c) = intervals c"
  "next_interval (handleReindex base confirmed c) = next_interval c"
  "timeouts (handleReindex base confirmed c) = timeouts c"
  "input_value (handleReindex base confirmed c) = input_value c"
  by (simp_all add: handleReindex_def awaiting_def)

lemmas upload_small_defs =
  handleInputChange_def handleDrop_def handleDragOver_def handleDragLeave_def progress_tick_def
  progress_reset_def Let_def

text \<open>What the completion of a call does, by the continuation that was waiting.\<close>

lemma finished_cases [case_names noop list upload delete reindex]:
  obtains (noop) "upload_step enc base c (Finished i out) = c"
  | (list) x where "i < length (waiting c)" "waiting c ! i = List_pending"
      "upload_step enc base c (Finished i out) =
         loadDocuments_settled (request_result x) (c\<lparr>waiting := remove_nth i (waiting c)\<rparr>)"
  | (upload) f n x where "i < length (waiting c)" "waiting c ! i = Upload_pending f n"
      "upload_step enc base c (Finished i out) =
         handleFileSelect_settled base f n (uploadDocument_result x)
           (c\<lparr>waiting := remove_nth i (waiting c)\<rparr>)"
  | (delete) fileName x where "i < length (waiting c)" "waiting c ! i = Delete_pending fileName"
      "upload_step enc base c (Finished i out) =
         handleDelete_settled base fileName (request_result x)
           (c\<lparr>waiting := remove_nth i (waiting c)\<rparr>)"
  | (reindex) x where "i < length (waiting c)" "waiting c ! i = Reindex_pending"
      "upload_step enc base c (Finished i out) =
         handleReindex_settled base (request_result x) (c\<lparr>waiting := remove_nth i (waiting c)\<rparr>)"
proof (cases "i < length (waiting c)")
  case False
  then show ?thesis by (intro noop) simp
next
  case True
  show ?thesis
  proof (cases "resume base (waiting c ! i) out (c\<lparr>waiting := remove_nth i (waiting c)\<rparr>)")
    case None
    with True show ?thesis by (intro noop) simp
  next
    case (Some c')
    then show ?thesis
      using True by (cases rule: resume_cases) (auto intro: list upload delete reindex)
  qed
qed

section \<open>Progress stays in range\<close>

lemma progress_ok_initial [simp]: "progress_ok initial_upload_config"
  by (simp add: progress_ok_def initial_upload_config_def initial_upload_def)

lemma progress_ok_step: "progress_ok c \<Longrightarrow> progress_ok (upload_step enc base c e)"
proof (cases e)
  case (Finished i out)
  assume "progress_ok c"
  then have "progress_ok (upload_step enc base c (Finished i out))"
    by (cases rule: finished_cases [of enc base c i out])
      (auto simp: progress_ok_def split: sum.splits)
  then show ?thesis
    by (simp only: Finished)
qed (auto simp: progress_ok_def upload_small_defs split: option.splits)

section \<open>Intervals belong to uploads\<close>

lemma timers_ok_initial [simp]: "timers_ok initial_upload_config"
  by (simp add: timers_ok_def initial_upload_config_def)

lemma mset_removeAll_pending:
  assumes "timers_ok c" and "i < length (waiting c)" and "waiting c ! i = Upload_pending f n"
  shows "mset (removeAll n (intervals c)) = mset (pending_intervals (remove_nth i (waiting c)))"
proof -
  from assms(1) have "mset (removeAll n (intervals c)) = mset (intervals c) - {#n#}"
    by (simp add: timers_ok_def flip: distinct_remove1_removeAll)
  also from assms have "\<dots> = mset (pending_intervals (remove_nth i (waiting c)))"
    by (simp add: timers_ok_def pending_intervals_remove_nth)
  finally show ?thesis .
qed

lemma timers_ok_step: "timers_ok c \<Longrightarrow> timers_ok (upload_step enc base c e)"
proof (cases e)
  case (Finished i out)
  assume ok: "timers_ok c"
  have "timers_ok (upload_step enc base c (Finished i out))"
  proof (cases rule: finished_cases [of enc base c i out])
    case (upload f n x)
    with ok mset_removeAll_pending [OF ok upload(1,2)] show ?thesis
      by (auto simp: timers_ok_def list_all_iff distinct_removeAll)
  qed (use ok in \<open>auto simp: timers_ok_def pending_intervals_remove_nth\<close>)
  then show ?thesis
    by (simp only: Finished)
qed (auto simp: timers_ok_def upload_small_defs list_all_iff split: option.splits)

section \<open>Flags and what is waiting\<close>

lemma flags_ok_initial [simp]: "flags_ok initial_upload_config"
  by (simp add: flags_ok_def initial_upload_config_def initial_upload_def)

lemma count_waiting_nth:
  "i < length (waiting c) \<Longrightarrow> waiting c ! i = k \<Longrightarrow> 0 < count (mset (waiting c)) k"
  using nth_mem_mset [of i "waiting c"] by simp

lemma handleDelete_waiting [simp]:
  assumes "k \<noteq> Delete_pending fileName"
  shows "count (mset (waiting (handleDelete enc base fileName confirmed c))) k = count (mset (waiting c)) k"
    and "k \<in> set (waiting (handleDelete enc base fileName confirmed c)) \<longleftrightarrow> k \<in> set (waiting c)"
  using assms
  by (cases rule: handleDelete_cases [of confirmed enc base fileName c]; simp add: awaiting_def)+

lemma flags_ok_step: "flags_ok c \<Longrightarrow> flags_ok (upload_step enc base c e)"
proof (cases e)
  case (Finished i out)
  assume ok: "flags_ok c"
  have "flags_ok (upload_step enc base c (Finished i out))"
    by (cases rule: finished_cases [of enc base c i out])
      (use ok in \<open>auto simp: flags_ok_def mset_remove_nth dest: count_waiting_nth split: sum.splits if_splits\<close>)
  then show ?thesis
    by (simp only: Finished)
qed (auto simp: flags_ok_def upload_small_defs split: option.splits)

lemma upload_run_append [simp]:
  "upload_run enc base c (es @ fs) = upload_run enc base (upload_run enc base c es) fs"
  by (induction es arbitrary: c) simp_all

lemma upload_reachable_run:
  "upload_reachable enc base c \<Longrightarrow> upload_reachable enc base (upload_run enc base c es)"
  by (induction es arbitrary: c) (auto intro: upload_next)

lemma reachable_upload_inv:
  "upload_reachable enc base c \<Longrightarrow> progress_ok c \<and> timers_ok c \<and> flags_ok c"
  by (induction rule: upload_reachable.induct)
    (simp_all add: progress_ok_step timers_ok_step flags_ok_step)

lemma in_pending_intervals_iff:
  "n \<in> set (pending_intervals ks) \<longleftrightarrow> (\<exists>f. Upload_pending f n \<in> set ks)"
proof (induction ks)
  case (Cons k ks)
  then show ?case by (cases k) (auto simp: pending_intervals_def)
qed (simp add: pending_intervals_def)

section \<open>A session, step by step\<close>

lemmas upload_run_defs =
  initial_upload_config_def initial_upload_def upload_small_defs request_result_def
  uploadDocument_result_def

section \<open>Properties of the document panel\<close>

text \<open>
  C12: A failed upload leaves the document list unchanged: when a pending upload
  fails, the list is as before, no request for the list is made, the error is
  the caught message, the upload flag is cleared and the interval of this
  upload is disarmed.
\<close>

theorem failed_upload_keeps_documents:
  assumes "i < length (waiting c)" and "waiting c ! i = Upload_pending f n"
    and "uploadDocument_result out = Inl err"
  shows "documents (upload_ui (upload_step enc base c (Finished i (Upload_outcome out)))) =
           documents (upload_ui c) \<and>
         calls (upload_step enc base c (Finished i (Upload_outcome out))) = calls c \<and>
         error (upload_ui (upload_step enc base c (Finished i (Upload_outcome out)))) =
           Some (catch_message err msg_upload_failed) \<and>
         \<not> uploading (upload_ui (upload_step enc base c (Finished i (Upload_outcome out)))) \<and>
         n \<notin> set (intervals (upload_step enc base c (Finished i (Upload_outcome out))))"
  using assms by simp

theorem failed_upload_keeps_documents_witness:
  "documents (upload_ui (upload_step (\<lambda>s. Inr s) [] (initial_upload_config\<lparr>waiting := [Upload_pending \<lparr>filename = []\<rparr> 0]\<rparr>)
      (Finished 0 (Upload_outcome (Fetch_rejected Non_error))))) =
     documents (upload_ui (initial_upload_config\<lparr>waiting := [Upload_pending \<lparr>filename = []\<rparr> 0]\<rparr>)) \<and>
   calls (upload_step (\<lambda>s. Inr s) [] (initial_upload_config\<lparr>waiting := [Upload_pending \<lparr>filename = []\<rparr> 0]\<rparr>)
      (Finished 0 (Upload_outcome (Fetch_rejected Non_error)))) =
     calls (initial_upload_config\<lparr>waiting := [Upload_pending \<lparr>filename = []\<rparr> 0]\<rparr>) \<and>
   error (upload_ui (upload_step (\<lambda>s. Inr s) [] (initial_upload_config\<lparr>waiting := [Upload_pending \<lparr>filename = []\<rparr> 0]\<rparr>)
      (Finished 0 (Upload_outcome (Fetch_rejected Non_error))))) =
     Some (catch_message Non_error msg_upload_failed) \<and>
   \<not> uploading (upload_ui (upload_step (\<lambda>s. Inr s) [] (initial_upload_config\<lparr>waiting := [Upload_pending \<lparr>filename = []\<rparr> 0]\<rparr>)
      (Finished 0 (Upload_outcome (Fetch_rejected Non_error))))) \<and>
   0 \<notin> set (intervals (upload_step (\<lambda>s. Inr s) [] (initial_upload_config\<lparr>waiting := [Upload_pending \<lparr>filename = []\<rparr> 0]\<rparr>)
      (Finished 0 (Upload_outcome (Fetch_rejected Non_error)))))"
  by (rule failed_upload_keeps_documents)
     (simp_all add: initial_upload_config_def uploadDocument_result_def)

text \<open>
  C15: A successful upload shows the name of the file, sets the progress to 100,
  asks for the list again, clears the upload flag, empties the file input,
  disarms the interval of this upload and arms the timeout that resets the
  progress.
\<close>

theorem upload_success_reloads:
  assumes "i < length (waiting c)" and "waiting c ! i = Upload_pending f n"
    and "uploadDocument_result out = Inr r"
  shows "upload_step enc base c (Finished i (Upload_outcome out)) =
           c\<lparr>upload_ui := (upload_ui c)\<lparr>uploadProgress := 100,
                    success := Some (msg_uploaded (filename f)), loading := True, uploading := False\<rparr>,
             input_value := [],
             waiting := remove_nth i (waiting c) @ [List_pending],
             intervals := removeAll n (intervals c),
             timeouts := Suc (timeouts c),
             calls := calls c @ [listDocuments base]\<rparr>"
  using assms by (simp add: handleFileSelect_settled_def loadDocuments_def awaiting_def)

text \<open>
  C14: Intervals never leak: in every reachable configuration an interval is
  armed exactly when an upload that holds it is waiting, and no interval is
  armed twice.
\<close>

theorem upload_intervals_never_leak:
  assumes "upload_reachable enc base c"
  shows "distinct (intervals c) \<and>
         (\<forall>n. n \<in> set (intervals c) \<longleftrightarrow> (\<exists>f. Upload_pending f n \<in> set (waiting c)))"
proof -
  from assms have "timers_ok c"
    by (simp add: reachable_upload_inv)
  then have "distinct (intervals c)" and "set (intervals c) = set (pending_intervals (waiting c))"
    by (auto simp: timers_ok_def dest: mset_eq_setD)
  then show ?thesis
    by (simp add: in_pending_intervals_iff)
qed

text \<open>
  C32: The progress shown is a percentage: in every reachable configuration it
  lies between 0 and 100.
\<close>

theorem upload_progress_in_range:
  assumes "upload_reachable enc base c"
  shows "0 \<le> uploadProgress (upload_ui c) \<and> uploadProgress (upload_ui c) \<le> 100"
  using reachable_upload_inv [OF assms] by (simp add: progress_ok_def)

text \<open>
  C22: No busy flag is left set for ever: in every reachable configuration, a
  set reindexing flag has its one call waiting (and there is never a second),
  a set upload flag has an upload waiting, and a set loading flag has a request
  for the list waiting; the completion of that call clears the flag.
\<close>

theorem upload_flags_have_calls:
  assumes "upload_reachable enc base c"
  shows "count (mset (waiting c)) Reindex_pending = (if reindexing (upload_ui c) then 1 else 0) \<and>
         (uploading (upload_ui c) \<longrightarrow> (\<exists>f n. Upload_pending f n \<in> set (waiting c))) \<and>
         (loading (upload_ui c) \<longrightarrow> List_pending \<in> set (waiting c))"
proof -
  from assms have "flags_ok c" and "timers_ok c"
    by (simp_all add: reachable_upload_inv)
  moreover from \<open>timers_ok c\<close> have "set (intervals c) = set (pending_intervals (waiting c))"
    by (auto simp: timers_ok_def dest: mset_eq_setD)
  then have "\<exists>f n. Upload_pending f n \<in> set (waiting c)" if "intervals c \<noteq> []"
    using that in_pending_intervals_iff [of "hd (intervals c)" "waiting c"]
    by (cases "intervals c") auto
  ultimately show ?thesis
    by (auto simp: flags_ok_def)
qed

text \<open>
  C30: For a size of at least 1024 bytes the number shown is the size in its
  unit (KB below 1024 * 1024 bytes, MB from there on) to one decimal, correct
  within half a tenth of the unit.
\<close>

theorem formatSize_accurate:
  assumes "1024 \<le> bytes"
  shows "2 * \<bar>10 * bytes - int (read_fixed_1 (formatSize bytes)) *
               (if bytes < 1024 * 1024 then 1024 else 1024 * 1024)\<bar>
           \<le> (if bytes < 1024 * 1024 then 1024 else 1024 * 1024)"
  using assms tenths_close [of 1024 bytes] tenths_close [of "1024 * 1024" bytes]
  by (simp add: formatSize_def read_fixed_1_to_fixed_1)

theorem formatSize_accurate_witness:
  "2 * \<bar>10 * 1536 - int (read_fixed_1 (formatSize 1536)) *
          (if (1536 :: int) < 1024 * 1024 then 1024 else 1024 * 1024)\<bar>
     \<le> (if (1536 :: int) < 1024 * 1024 then 1024 else 1024 * 1024)"
  by (rule formatSize_accurate) simp

lemma ascii_1024_KB:
  "ascii ''1024.0 KB'' = nat_digits 1024 @ 0x2E # digit_unit 0 # ascii '' KB''"
  by (simp add: nat_digits.simps digit_unit_def)

text \<open>
  C31: The unit is chosen before the number is rounded, so just below the
  boundary the rounding shows through: among the sizes shown in KB, exactly
  those from 1048525 bytes on are shown as 1024.0 KB.
\<close>

theorem formatSize_boundaries:
  assumes "1024 \<le> bytes" and "bytes < 1024 * 1024"
  shows "formatSize bytes = ascii ''1024.0 KB'' \<longleftrightarrow> 1048525 \<le> bytes"
proof
  assume "formatSize bytes = ascii ''1024.0 KB''"
  then have "int (read_fixed_1 (formatSize bytes)) = 10240"
    by (simp only: ascii_1024_KB read_fixed_1_digits)
  with assms have "tenths bytes 1024 = 10240"
    by (simp add: formatSize_def read_fixed_1_to_fixed_1)
  with tenths_bounds(1) [of 1024 bytes] show "1048525 \<le> bytes"
    by simp
next
  assume "1048525 \<le> bytes"
  with assms have "tenths bytes 1024 = 10240"
    unfolding tenths_def by simp
  with assms show "formatSize bytes = ascii ''1024.0 KB''"
    by (simp add: formatSize_def to_fixed_1_def number_to_string_def nat_digits.simps digit_unit_def)
qed

theorem formatSize_boundaries_witness:
  "formatSize 1048575 = ascii ''1024.0 KB'' \<longleftrightarrow> (1048525 :: int) \<le> 1048575"
  by (rule formatSize_boundaries) simp_all


theorem upload_success_reloads_witness:
  "upload_step (\<lambda>s. Inr s) [] (initial_upload_config\<lparr>waiting := [Upload_pending \<lparr>filename = []\<rparr> 0]\<rparr>)
      (Finished 0 (Upload_outcome (Fetch_resolved (Response_ok (Inr
         \<lparr>upload_success = True, upload_file_name = [], blob_url = [], doc_id = []\<rparr>))))) =
   (initial_upload_config\<lparr>waiting := [Upload_pending \<lparr>filename = []\<rparr> 0]\<rparr>)
     \<lparr>upload_ui := (upload_ui (initial_upload_config\<lparr>waiting := [Upload_pending \<lparr>filename = []\<rparr> 0]\<rparr>))
         \<lparr>uploadProgress := 100, success := Some (msg_uploaded (filename \<lparr>filename = []\<rparr>)),
          loading := True, uploading := False\<rparr>,
      input_value := [],
      waiting := remove_nth 0 (waiting (initial_upload_config\<lparr>waiting := [Upload_pending \<lparr>filename = []\<rparr> 0]\<rparr>))
                   @ [List_pending],
      intervals := removeAll 0 (intervals (initial_upload_config\<lparr>waiting := [Upload_pending \<lparr>filename = []\<rparr> 0]\<rparr>)),
      timeouts := Suc (timeouts (initial_upload_config\<lparr>waiting := [Upload_pending \<lparr>filename = []\<rparr> 0]\<rparr>)),
      calls := calls (initial_upload_config\<lparr>waiting := [Upload_pending \<lparr>filename = []\<rparr> 0]\<rparr>)
                 @ [listDocuments []]\<rparr>"
  by (rule upload_success_reloads) (simp_all add: initial_upload_config_def uploadDocument_result_def)

theorem upload_intervals_never_leak_witness:
  "distinct (intervals (upload_run (\<lambda>s. Inr s) [] initial_upload_config
      [Choose_file (Some \<lparr>filename = ascii ''a''\<rparr>), Drop_file (Some \<lparr>filename = ascii ''b''\<rparr>)])) \<and>
   (\<forall>n. n \<in> set (intervals (upload_run (\<lambda>s. Inr s) [] initial_upload_config
      [Choose_file (Some \<lparr>filename = ascii ''a''\<rparr>), Drop_file (Some \<lparr>filename = ascii ''b''\<rparr>)])) \<longleftrightarrow>
     (\<exists>f. Upload_pending f n \<in> set (waiting (upload_run (\<lambda>s. Inr s) [] initial_upload_config
      [Choose_file (Some \<lparr>filename = ascii ''a''\<rparr>), Drop_file (Some \<lparr>filename = ascii ''b''\<rparr>)]))))"
  by (rule upload_intervals_never_leak [OF upload_reachable_run [OF upload_start]])

theorem upload_progress_in_range_witness:
  "0 \<le> uploadProgress (upload_ui (upload_run (\<lambda>s. Inr s) [] initial_upload_config
      [Choose_file (Some \<lparr>filename = ascii ''a''\<rparr>), Interval_tick 0])) \<and>
   uploadProgress (upload_ui (upload_run (\<lambda>s. Inr s) [] initial_upload_config
      [Choose_file (Some \<lparr>filename = ascii ''a''\<rparr>), Interval_tick 0])) \<le> 100"
  by (rule upload_progress_in_range [OF upload_reachable_run [OF upload_start]])

theorem upload_flags_have_calls_witness:
  "List_pending \<in> set (waiting (upload_run (\<lambda>s. Inr s) [] initial_upload_config [Click_refresh])) \<and>
   loading (upload_ui (upload_run (\<lambda>s. Inr s) [] initial_upload_config [Click_refresh]))"
  using upload_flags_have_calls [OF upload_reachable_run [OF upload_start],
      of "\<lambda>s. Inr s" "[]" "[Click_refresh]"]
  by (simp add: initial_upload_config_def initial_upload_def)

text \<open>
  C21: A drop on the upload area is not held back while an upload is in
  progress. In every reachable configuration with the upload flag set there is
  an upload waiting; a drop then starts a second one, and when the first one
  completes, whatever its outcome, the panel shows the idle area and enables
  the file input although the dropped file is still being uploaded and its
  interval still ticks.
\<close>

theorem drop_starts_second_upload:
  assumes "upload_reachable enc base c" and "uploading (upload_ui c)"
  shows "\<exists>i g n. i < length (waiting c) \<and> waiting c ! i = Upload_pending g n \<and>
           calls (upload_step enc base c (Drop_file (Some f))) = calls c @ [uploadDocument base f] \<and>
           (\<forall>out.
              Upload_pending f (next_interval c) \<in> set (waiting (upload_run enc base c
                 [Drop_file (Some f), Finished i (Upload_outcome out)])) \<and>
              next_interval c \<in> set (intervals (upload_run enc base c
                 [Drop_file (Some f), Finished i (Upload_outcome out)])) \<and>
              area (render_DocumentUpload toLocaleString (upload_ui (upload_run enc base c
                 [Drop_file (Some f), Finished i (Upload_outcome out)]))) = Idle \<and>
              \<not> input_disabled (render_DocumentUpload toLocaleString (upload_ui (upload_run enc base c
                 [Drop_file (Some f), Finished i (Upload_outcome out)]))))"
proof -
  from assms(1) have timers: "timers_ok c" and flags: "flags_ok c"
    by (simp_all add: reachable_upload_inv)
  from timers have "set (intervals c) = set (pending_intervals (waiting c))"
    by (auto simp: timers_ok_def dest: mset_eq_setD)
  moreover from flags assms(2) have "intervals c \<noteq> []"
    by (simp add: flags_ok_def)
  ultimately obtain g n where "Upload_pending g n \<in> set (waiting c)"
    using in_pending_intervals_iff [of "hd (intervals c)" "waiting c"]
    by (cases "intervals c") auto
  then obtain i where i: "i < length (waiting c)" "waiting c ! i = Upload_pending g n"
    by (auto simp: in_set_conv_nth)
  then have "n \<in> set (intervals c)"
    using \<open>set (intervals c) = set (pending_intervals (waiting c))\<close>
    by (auto simp: in_pending_intervals_iff) (metis nth_mem)
  with timers have "n \<noteq> next_interval c"
    by (auto simp: timers_ok_def list_all_iff)
  with i show ?thesis
    by (intro exI [of _ i] exI [of _ g] exI [of _ n])
      (auto simp: handleDrop_def nth_append remove_nth_append render_DocumentUpload_def
        split: sum.splits)
qed

theorem drop_starts_second_upload_witness:
  "\<exists>i g n.
     i < length (waiting (upload_run (\<lambda>s. Inr s) [] initial_upload_config
            [Choose_file (Some \<lparr>filename = ascii ''a''\<rparr>)])) \<and>
     waiting (upload_run (\<lambda>s. Inr s) [] initial_upload_config
            [Choose_file (Some \<lparr>filename = ascii ''a''\<rparr>)]) ! i = Upload_pending g n \<and>
     calls (upload_step (\<lambda>s. Inr s) []
            (upload_run (\<lambda>s. Inr s) [] initial_upload_config
               [Choose_file (Some \<lparr>filename = ascii ''a''\<rparr>)])
            (Drop_file (Some \<lparr>filename = ascii ''b''\<rparr>))) =
       calls (upload_run (\<lambda>s. Inr s) [] initial_upload_config
            [Choose_file (Some \<lparr>filename = ascii ''a''\<rparr>)]) @
         [uploadDocument [] \<lparr>filename = ascii ''b''\<rparr>] \<and>
     (\<forall>out.
        Upload_pending \<lparr>filename = ascii ''b''\<rparr>
            (next_interval (upload_run (\<lambda>s. Inr s) [] initial_upload_config
               [Choose_file (Some \<lparr>filename = ascii ''a''\<rparr>)]))
          \<in> set (waiting (upload_run (\<lambda>s. Inr s) []
                 (upload_run (\<lambda>s. Inr s) [] initial_upload_config
                    [Choose_file (Some \<lparr>filename = ascii ''a''\<rparr>)])
                 [Drop_file (Some \<lparr>filename = ascii ''b''\<rparr>), Finished i (Upload_outcome out)])) \<and>
        next_interval (upload_run (\<lambda>s. Inr s) [] initial_upload_config
               [Choose_file (Some \<lparr>filename = ascii ''a''\<rparr>)])
          \<in> set (intervals (upload_run (\<lambda>s. Inr s) []
                 (upload_run (\<lambda>s. Inr s) [] initial_upload_config
                    [Choose_file (Some \<lparr>filename = ascii ''a''\<rparr>)])
                 [Drop_file (Some \<lparr>filename = ascii ''b''\<rparr>), Finished i (Upload_outcome out)])) \<and>
        area (render_DocumentUpload (\<lambda>s. s) (upload_ui (upload_run (\<lambda>s. Inr s) []
                 (upload_run (\<lambda>s. Inr s) [] initial_upload_config
                    [Choose_file (Some \<lparr>filename = ascii ''a''\<rparr>)])
                 [Drop_file (Some \<lparr>filename = ascii ''b''\<rparr>), Finished i (Upload_outcome out)]))) = Idle \<and>
        \<not> input_disabled (render_DocumentUpload (\<lambda>s. s) (upload_ui (upload_run (\<lambda>s. Inr s) []
                 (upload_run (\<lambda>s. Inr s) [] initial_upload_config
                    [Choose_file (Some \<lparr>filename = ascii ''a''\<rparr>)])
                 [Drop_file (Some \<lparr>filename = ascii ''b''\<rparr>), Finished i (Upload_outcome out)]))))"
  by (rule drop_starts_second_upload [OF upload_reachable_run [OF upload_start]])
     (simp add: upload_run_defs)

text \<open>
  C20: The list shown is the one of the response that arrived last, whichever
  request it answers: any waiting request for the list that succeeds replaces
  the documents by its own result, also when a request made after it has been
  answered already.
\<close>

theorem last_list_response_wins:
  assumes "i < length (waiting c)" and "waiting c ! i = List_pending"
    and "request_result out = Inr r"
  shows "documents (upload_ui (upload_step enc base c (Finished i (List_outcome out)))) =
           list_response.documents r \<and>
         waiting (upload_step enc base c (Finished i (List_outcome out))) = remove_nth i (waiting c)"
  using assms by simp

theorem last_list_response_wins_witness:
  "documents (upload_ui (upload_step (\<lambda>s. Inr s) []
       (upload_step (\<lambda>s. Inr s) [] (initial_upload_config\<lparr>waiting := [List_pending, List_pending]\<rparr>)
          (Finished 1 (List_outcome (Fetch_resolved (Response_ok (Inr \<lparr>list_response.documents = []\<rparr>))))))
       (Finished 0 (List_outcome (Fetch_resolved (Response_ok (Inr
          \<lparr>list_response.documents = [\<lparr>name = ascii ''old'', size_bytes = 1, last_modified = None\<rparr>]\<rparr>))))))) =
     list_response.documents \<lparr>list_response.documents = [\<lparr>name = ascii ''old'', size_bytes = 1, last_modified = None\<rparr>]\<rparr> \<and>
   waiting (upload_step (\<lambda>s. Inr s) []
       (upload_step (\<lambda>s. Inr s) [] (initial_upload_config\<lparr>waiting := [List_pending, List_pending]\<rparr>)
          (Finished 1 (List_outcome (Fetch_resolved (Response_ok (Inr \<lparr>list_response.documents = []\<rparr>))))))
       (Finished 0 (List_outcome (Fetch_resolved (Response_ok (Inr
          \<lparr>list_response.documents = [\<lparr>name = ascii ''old'', size_bytes = 1, last_modified = None\<rparr>]\<rparr>)))))) =
     remove_nth 0 (waiting (upload_step (\<lambda>s. Inr s) [] (initial_upload_config\<lparr>waiting := [List_pending, List_pending]\<rparr>)
          (Finished 1 (List_outcome (Fetch_resolved (Response_ok (Inr \<lparr>list_response.documents = []\<rparr>)))))))"
  by (rule last_list_response_wins) (simp_all add: initial_upload_config_def request_result_def)

text \<open>
  C33: A document whose name cannot be encoded is not deleted and the user is
  told why: when \<^verbatim>\<open>encodeURIComponent\<close> throws, the confirmed deletion makes no
  call, leaves nothing waiting, and shows the message of what was thrown.
\<close>

theorem delete_of_unencodable_name:
  assumes "i < length (documents (upload_ui c))"
    and "enc (name (documents (upload_ui c) ! i)) = Inl uri_error"
  shows "upload_step enc base c (Click_delete i True) =
           c\<lparr>upload_ui := (upload_ui c)\<lparr>error := Some (catch_message uri_error msg_delete_failed)\<rparr>\<rparr>"
  using assms by (simp add: handleDelete_def deleteDocument_def handleDelete_settled_def)

theorem delete_of_unencodable_name_witness:
  "upload_step (\<lambda>s. Inl (Error_instance (ascii ''URI malformed''))) []
      (initial_upload_config\<lparr>upload_ui := initial_upload\<lparr>documents :=
          [\<lparr>name = [0xD800], size_bytes = 1, last_modified = None\<rparr>]\<rparr>\<rparr>) (Click_delete 0 True) =
   (initial_upload_config\<lparr>upload_ui := initial_upload\<lparr>documents :=
          [\<lparr>name = [0xD800], size_bytes = 1, last_modified = None\<rparr>]\<rparr>\<rparr>)
     \<lparr>upload_ui := (upload_ui (initial_upload_config\<lparr>upload_ui := initial_upload\<lparr>documents :=
          [\<lparr>name = [0xD800], size_bytes = 1, last_modified = None\<rparr>]\<rparr>\<rparr>))
        \<lparr>error := Some (catch_message (Error_instance (ascii ''URI malformed'')) msg_delete_failed)\<rparr>\<rparr>"
  by (rule delete_of_unencodable_name) simp_all

end
