(* ===== verification/App.thy ===== *)
theory App
  imports Chat Admin Document_Upload
begin

text \<open>
  The shell of \<^verbatim>\<open>src/frontend/src/App.tsx\<close>: one state variable, \<^verbatim>\<open>subPage\<close>, decides
  whether the chat panel or one of the two sub-pages is rendered.

  \<^descr>[State and view] \<open>app_state\<close>, \<open>handleBack\<close>, \<open>render_App\<close>.
  \<^descr>[Mounting] React keeps the state of a component while it is rendered at the
  same place; the two returns of \<^verbatim>\<open>App\<close> render different children, so a change
  of \<^verbatim>\<open>subPage\<close> unmounts the panel shown and mounts the new one in its initial
  state. \<open>app_config\<close> holds the configuration of the mounted panel and those of
  the panels unmounted so far. An unmounted panel receives no user events and
  its state is seen by nobody, but its continuations and timers still run when
  the environment completes them, and the calls they make are made.
  \<^descr>[System] \<open>app_step\<close> runs a navigation event, an event of the mounted panel,
  or an environment event of an unmounted one.
\<close>

section \<open>State and view\<close>

datatype SubPageType = upload | admin

record app_state =
  subPage :: "SubPageType option"

definition initial_app :: app_state where
  "initial_app = \<lparr>subPage = None\<rparr>"

definition handleBack :: "app_state \<Rightarrow> app_state" where
  "handleBack s = s\<lparr>subPage := None\<rparr>"

text \<open>What \<^verbatim>\<open>App\<close> returns: the sub-page with its back button, or the main page.\<close>

datatype panel_kind = Chat_kind | DocumentUpload_kind | Admin_kind

datatype app_view =
    Sub_page "panel_kind option"
  | Main_page panel_kind

definition render_App :: "app_state \<Rightarrow> app_view" where
  "render_App s =
     (case subPage s of
        Some p \<Rightarrow>
          Sub_page (if p = upload then Some DocumentUpload_kind
                    else if p = admin then Some Admin_kind else None)
      | None \<Rightarrow> Main_page Chat_kind)"

fun rendered :: "app_view \<Rightarrow> panel_kind option" where
  "rendered (Sub_page k) = k"
| "rendered (Main_page k) = Some k"

section \<open>Panels, mounted and unmounted\<close>

datatype panel =
    Chat_panel chat_config
  | Upload_panel upload_config
  | Admin_panel admin_config

datatype panel_event =
    Chat_event chat_event
  | Upload_event upload_event
  | Admin_event admin_event

fun kind_of :: "panel \<Rightarrow> panel_kind" where
  "kind_of (Chat_panel c) = Chat_kind"
| "kind_of (Upload_panel c) = DocumentUpload_kind"
| "kind_of (Admin_panel c) = Admin_kind"

fun mount :: "panel_kind \<Rightarrow> panel" where
  "mount Chat_kind = Chat_panel initial_config"
| "mount DocumentUpload_kind = Upload_panel initial_upload_config"
| "mount Admin_kind = Admin_panel initial_admin_config"

fun panel_step ::
    "(jsstring \<Rightarrow> thrown + jsstring) \<Rightarrow> jsstring \<Rightarrow> panel \<Rightarrow> panel_event \<Rightarrow> panel" where
  "panel_step enc base (Chat_panel c) (Chat_event e) = Chat_panel (chat_step base c e)"
| "panel_step enc base (Upload_panel c) (Upload_event e) = Upload_panel (upload_step enc base c e)"
| "panel_step enc base (Admin_panel c) (Admin_event e) = Admin_panel (admin_step base c e)"
| "panel_step enc base p e = p"

text \<open>The events that come from the environment and not from the user.\<close>

fun from_environment :: "panel_event \<Rightarrow> bool" where
  "from_environment (Chat_event (Settled i out)) = True"
| "from_environment (Upload_event (Finished i out)) = True"
| "from_environment (Upload_event (Interval_tick i)) = True"
| "from_environment (Upload_event Timeout_fired) = True"
| "from_environment (Admin_event (Completed i out)) = True"
| "from_environment (Admin_event Timer_fired) = True"
| "from_environment e = False"

text \<open>The calls a panel has made.\<close>

fun called :: "admin_obs \<Rightarrow> fetch_call list" where
  "called (Called call) = [call]"
| "called Auth_accepted = []"

fun calls_of :: "panel \<Rightarrow> fetch_call list" where
  "calls_of (Chat_panel c) = sent c"
| "calls_of (Upload_panel c) = calls c"
| "calls_of (Admin_panel c) = concat (map called (history c))"

section \<open>The application as a system\<close>

record app_config =
  app_ui :: app_state
  mounted :: panel
  unmounted :: "panel list"

definition initial_app_config :: app_config where
  "initial_app_config = \<lparr>app_ui = initial_app, mounted = mount Chat_kind, unmounted = []\<rparr>"

datatype app_event =
    Click_documents
  | Click_settings
  | Click_back
  | In_panel panel_event
  | In_unmounted nat panel_event

text \<open>
  \<open>rerender s c\<close>: the state becomes \<open>s\<close> and \<^verbatim>\<open>App\<close> renders again. If the panel
  it returns is of another kind than the mounted one, that one is unmounted and
  a fresh one is mounted.
\<close>

definition rerender :: "app_state \<Rightarrow> app_config \<Rightarrow> app_config" where
  "rerender s c =
     (case rendered (render_App s) of
        None \<Rightarrow> c\<lparr>app_ui := s\<rparr>
      | Some k \<Rightarrow>
          if k = kind_of (mounted c) then c\<lparr>app_ui := s\<rparr>
          else c\<lparr>app_ui := s, mounted := mount k, unmounted := unmounted c @ [mounted c]\<rparr>)"

fun app_step ::
    "(jsstring \<Rightarrow> thrown + jsstring) \<Rightarrow> jsstring \<Rightarrow> app_config \<Rightarrow> app_event \<Rightarrow> app_config" where
  "app_step enc base c Click_documents =
     (case render_App (app_ui c) of
        Main_page k \<Rightarrow> rerender ((app_ui c)\<lparr>subPage := Some upload\<rparr>) c
      | Sub_page k \<Rightarrow> c)"
| "app_step enc base c Click_settings =
     (case render_App (app_ui c) of
        Main_page k \<Rightarrow> rerender ((app_ui c)\<lparr>subPage := Some admin\<rparr>) c
      | Sub_page k \<Rightarrow> c)"
| "app_step enc base c Click_back =
     (case render_App (app_ui c) of
        Main_page k \<Rightarrow> c
      | Sub_page k \<Rightarrow> rerender (handleBack (app_ui c)) c)"
| "app_step enc base c (In_panel e) = c\<lparr>mounted := panel_step enc base (mounted c) e\<rparr>"
| "app_step enc base c (In_unmounted i e) =
     (if i < length (unmounted c) \<and> from_environment e
      then c\<lparr>unmounted := (unmounted c)[i := panel_step enc base (unmounted c ! i) e]\<rparr>
      else c)"

fun app_run ::
    "(jsstring \<Rightarrow> thrown + jsstring) \<Rightarrow> jsstring \<Rightarrow> app_config \<Rightarrow> app_event list \<Rightarrow> app_config" where
  "app_run enc base c [] = c"
| "app_run enc base c (e # es) = app_run enc base (app_step enc base c e) es"

inductive app_reachable ::
    "(jsstring \<Rightarrow> thrown + jsstring) \<Rightarrow> jsstring \<Rightarrow> app_config \<Rightarrow> bool" for enc base where
  app_start: "app_reachable enc base initial_app_config"
| app_next: "app_reachable enc base c \<Longrightarrow> app_reachable enc base (app_step enc base c e)"

text \<open>\<open>all_calls c\<close>: every call made since the page was loaded.\<close>

definition all_calls :: "app_config \<Rightarrow> fetch_call list" where
  "all_calls c = concat (map calls_of (unmounted c)) @ calls_of (mounted c)"

text \<open>\<open>consistent c\<close>: the mounted panel is the one the view shows.\<close>

definition consistent :: "app_config \<Rightarrow> bool" where
  "consistent c \<longleftrightarrow> rendered (render_App (app_ui c)) = Some (kind_of (mounted c))"

lemmas app_defs [handler_defs] = initial_app_def handleBack_def render_App_def rerender_def

text \<open>
  \<open>panel_reachable enc base p\<close>: the configuration inside \<open>p\<close> is one the panel
  can reach on its own, so that everything proved of the panels holds of \<open>p\<close>.
\<close>

fun panel_reachable :: "(jsstring \<Rightarrow> thrown + jsstring) \<Rightarrow> jsstring \<Rightarrow> panel \<Rightarrow> bool" where
  "panel_reachable enc base (Chat_panel c) = chat_reachable base c"
| "panel_reachable enc base (Upload_panel c) = upload_reachable enc base c"
| "panel_reachable enc base (Admin_panel c) = admin_reachable base c"

section \<open>Mounting\<close>

lemma kind_of_mount [simp]: "kind_of (mount k) = k"
  by (cases k) simp_all

lemma panel_reachable_mount [simp]: "panel_reachable enc base (mount k)"
  by (cases k) (simp_all add: chat_reachable.start upload_start admin_start)

lemma kind_of_panel_step [simp]: "kind_of (panel_step enc base p e) = kind_of p"
  by (cases "(enc, base, p, e)" rule: panel_step.cases) simp_all

lemma panel_reachable_step:
  "panel_reachable enc base p \<Longrightarrow> panel_reachable enc base (panel_step enc base p e)"
  by (cases "(enc, base, p, e)" rule: panel_step.cases)
    (simp_all add: chat_reachable.step upload_next admin_next)

lemma rendered_cases:
  obtains (main) "subPage s = None" "render_App s = Main_page Chat_kind"
  | (documents) "subPage s = Some upload" "render_App s = Sub_page (Some DocumentUpload_kind)"
  | (settings) "subPage s = Some admin" "render_App s = Sub_page (Some Admin_kind)"
proof (cases "subPage s")
  case None
  then show ?thesis by (intro main) (simp_all add: render_App_def)
next
  case (Some p)
  then show ?thesis
    by (cases p) (auto intro: documents settings simp: render_App_def)
qed

lemma rerender_fields [simp]:
  "app_ui (rerender s c) = s"
  "mounted (rerender s c) =
     (case rendered (render_App s) of
        None \<Rightarrow> mounted c
      | Some k \<Rightarrow> if k = kind_of (mounted c) then mounted c else mount k)"
  "unmounted (rerender s c) =
     (case rendered (render_App s) of
        None \<Rightarrow> unmounted c
      | Some k \<Rightarrow> if k = kind_of (mounted c) then unmounted c else unmounted c @ [mounted c])"
  by (simp_all add: rerender_def split: option.splits)

lemma consistent_rerender [simp]: "consistent (rerender s c)"
  by (cases rule: rendered_cases [of s]) (simp_all add: consistent_def)

section \<open>Invariants of the application\<close>

lemma consistent_updates [simp]:
  "consistent (c\<lparr>mounted := panel_step enc base (mounted c) e\<rparr>) = consistent c"
  "consistent (c\<lparr>unmounted := ps\<rparr>) = consistent c"
  by (simp_all add: consistent_def)

lemma consistent_step: "consistent c \<Longrightarrow> consistent (app_step enc base c e)"
  by (cases e) (simp_all split: app_view.splits)

lemma panels_reachable_step:
  assumes "panel_reachable enc base (mounted c)"
    and "list_all (panel_reachable enc base) (unmounted c)"
  shows "panel_reachable enc base (mounted (app_step enc base c e)) \<and>
         list_all (panel_reachable enc base) (unmounted (app_step enc base c e))"
proof (cases e)
  case (In_unmounted i pe)
  with assms show ?thesis
    by (auto simp: list_all_length nth_list_update panel_reachable_step)
qed (use assms in \<open>auto simp: panel_reachable_step split: app_view.splits option.splits\<close>)

lemma app_reachable_inv:
  assumes "app_reachable enc base c"
  shows "consistent c" and "panel_reachable enc base (mounted c)"
    and "list_all (panel_reachable enc base) (unmounted c)"
  using assms
proof (induction rule: app_reachable.induct)
  case app_start
  {
    case 1 show ?case by (simp add: consistent_def initial_app_config_def initial_app_def render_App_def)
  next
    case 2 show ?case by (simp add: initial_app_config_def chat_reachable.start)
  next
    case 3 show ?case by (simp add: initial_app_config_def)
  }
next
  case (app_next c e)
  {
    case 1 from app_next.IH(1) show ?case by (rule consistent_step)
  next
    case 2 from panels_reachable_step [OF app_next.IH(2,3)] show ?case by simp
  next
    case 3 from panels_reachable_step [OF app_next.IH(2,3)] show ?case by simp
  }
qed

lemma app_run_append [simp]:
  "app_run enc base c (es @ fs) = app_run enc base (app_run enc base c es) fs"
  by (induction es arbitrary: c) simp_all

lemma app_reachable_run: "app_reachable enc base c \<Longrightarrow> app_reachable enc base (app_run enc base c es)"
  by (induction es arbitrary: c) (auto intro: app_next)

lemma all_calls_simps [simp]:
  "all_calls (c\<lparr>mounted := p\<rparr>) = concat (map calls_of (unmounted c)) @ calls_of p"
  "all_calls (c\<lparr>unmounted := ps\<rparr>) = concat (map calls_of ps) @ calls_of (mounted c)"
  "all_calls (c\<lparr>app_ui := s\<rparr>) = all_calls c"
  by (simp_all add: all_calls_def)

lemma calls_of_mount [simp]: "calls_of (mount k) = []"
  by (cases k) (simp_all add: initial_config_def initial_upload_config_def initial_admin_config_def)

section \<open>Sessions inside a panel\<close>

lemma app_run_in_admin:
  "mounted c = Admin_panel a \<Longrightarrow>
   app_run enc base c (map (\<lambda>e. In_panel (Admin_event e)) es) =
     c\<lparr>mounted := Admin_panel (admin_run base a es)\<rparr>"
  by (induction es arbitrary: c a) simp_all

lemma app_example_admin:
  "app_run enc base initial_app_config (Click_settings # map (\<lambda>e. In_panel (Admin_event e)) es) =
     \<lparr>app_ui = \<lparr>subPage = Some admin\<rparr>,
      mounted = Admin_panel (admin_run base initial_admin_config es),
      unmounted = [Chat_panel initial_config]\<rparr>"
  by (simp add: app_run_in_admin [where a = initial_admin_config] initial_app_config_def
      initial_app_def render_App_def rerender_def)

section \<open>Properties of the application\<close>

text \<open>
  C7: Leaving the chat for a sub-page and coming back starts a new chat: the
  chat panel mounted after the return is in its initial state, with no messages,
  whatever the conversation was before.
\<close>

theorem navigation_remounts_chat:
  assumes "app_reachable enc base c" and "subPage (app_ui c) = None"
  shows "mounted (app_run enc base c [Click_documents, Click_back]) = Chat_panel initial_config \<and>
         mounted (app_run enc base c [Click_settings, Click_back]) = Chat_panel initial_config"
proof -
  from assms have "kind_of (mounted c) = Chat_kind"
    using app_reachable_inv(1) [of enc base c] by (simp add: consistent_def render_App_def)
  with assms(2) show ?thesis
    by (simp add: render_App_def handleBack_def)
qed

theorem navigation_remounts_chat_witness:
  "mounted (app_run (\<lambda>s. Inr s) []
      (app_run (\<lambda>s. Inr s) [] initial_app_config
         [In_panel (Chat_event (Change_input (ascii ''hi''))), In_panel (Chat_event Click_send)])
      [Click_documents, Click_back]) = Chat_panel initial_config \<and>
   mounted (app_run (\<lambda>s. Inr s) []
      (app_run (\<lambda>s. Inr s) [] initial_app_config
         [In_panel (Chat_event (Change_input (ascii ''hi''))), In_panel (Chat_event Click_send)])
      [Click_settings, Click_back]) = Chat_panel initial_config"
  by (rule navigation_remounts_chat [OF app_reachable_run [OF app_start]])
     (simp add: initial_app_config_def initial_app_def)

text \<open>
  C9: Leaving the administration page does not stop a clearing of both stores
  that is under way: when the first call succeeds after the panel was
  unmounted, the second destructive call is made all the same.
\<close>

theorem unmounted_clear_all_continues:
  assumes "mounted c = Admin_panel a" and "subPage (app_ui c) = Some admin"
    and "i < length (pending a)" and "pending a ! i = All_search_pending pw"
    and "request_result out = Inr r"
  shows "all_calls (app_run enc base c
           [Click_back,
            In_unmounted (length (unmounted c)) (Admin_event (Completed i (Search_outcome out)))]) =
         all_calls c @ [clearStorage base pw]"
  using assms
  by (simp add: render_App_def handleBack_def all_calls_def handleClearAll_search_settled_def
      initial_config_def)

theorem unmounted_clear_all_continues_witness:
  "all_calls (app_run (\<lambda>s. Inr s) []
      \<lparr>app_ui = \<lparr>subPage = Some admin\<rparr>,
       mounted = Admin_panel (initial_admin_config\<lparr>pending := [All_search_pending (ascii ''pw'')]\<rparr>),
       unmounted = []\<rparr>
      [Click_back,
       In_unmounted (length (unmounted
           \<lparr>app_ui = \<lparr>subPage = Some admin\<rparr>,
            mounted = Admin_panel (initial_admin_config\<lparr>pending := [All_search_pending (ascii ''pw'')]\<rparr>),
            unmounted = []\<rparr>))
         (Admin_event (Completed 0 (Search_outcome (Fetch_resolved (Response_ok (Inr
            \<lparr>clear_search_success = True, clear_search_message = [], clear_search_cleared = True,
             index_name = []\<rparr>))))))]) =
   all_calls
      \<lparr>app_ui = \<lparr>subPage = Some admin\<rparr>,
       mounted = Admin_panel (initial_admin_config\<lparr>pending := [All_search_pending (ascii ''pw'')]\<rparr>),
       unmounted = []\<rparr> @ [clearStorage [] (ascii ''pw'')]"
  by (rule unmounted_clear_all_continues
        [where a = "initial_admin_config\<lparr>pending := [All_search_pending (ascii ''pw'')]\<rparr>"])
     (simp_all add: request_result_def)

end
