(* ===== verification/Dialogue.thy ===== *)
theory Dialogue
  imports Chat
begin

text \<open>
  What the chat panel promises, as a machine without promises, closures or
  lists of pending calls: a dialogue is a transcript, a draft, and at most one
  question that waits for its answer. The refinement lemmas say that the panel
  of theory \<open>Chat\<close> implements it: the abstraction of a step of the panel is the
  run of the dialogue on the abstraction of the event.

  The dialogue keeps, with the question that waits, the transcript as it was
  when the question was asked (\<open>asked\<close>), because that is what the answer is
  appended to; this is the one place where the specification has to follow the
  code rather than intuition.
\<close>

section \<open>The dialogue\<close>

record dialogue =
  transcript :: "ChatMessage list"
  draft :: jsstring
  retrieval :: bool
  asked :: "ChatMessage list option"
  notice :: "jsstring option"

datatype move =
    Type jsstring
  | Set_retrieval bool
  | Ask
  | Forget
  | Answer jsstring
  | Fail jsstring

fun dialogue_step :: "dialogue \<Rightarrow> move \<Rightarrow> dialogue" where
  "dialogue_step d (Type v) = (if asked d = None then d\<lparr>draft := v\<rparr> else d)"
| "dialogue_step d (Set_retrieval b) = d\<lparr>retrieval := b\<rparr>"
| "dialogue_step d Ask =
     (if asked d = None \<and> \<not> blank (draft d)
      then d\<lparr>transcript := transcript d @ [\<lparr>role = user, content = draft d\<rparr>],
             draft := [],
             asked := Some (transcript d @ [\<lparr>role = user, content = draft d\<rparr>]),
             notice := None\<rparr>
      else d)"
| "dialogue_step d Forget = d\<lparr>transcript := [], notice := None\<rparr>"
| "dialogue_step d (Answer a) =
     (case asked d of
        None \<Rightarrow> d
      | Some k \<Rightarrow> d\<lparr>transcript := k @ [\<lparr>role = assistant, content = a\<rparr>], asked := None\<rparr>)"
| "dialogue_step d (Fail m) =
     (case asked d of
        None \<Rightarrow> d
      | Some k \<Rightarrow> d\<lparr>notice := Some m, asked := None\<rparr>)"

definition dialogue_run :: "dialogue \<Rightarrow> move list \<Rightarrow> dialogue" where
  "dialogue_run = foldl dialogue_step"

definition initial_dialogue :: dialogue where
  "initial_dialogue = \<lparr>transcript = [], draft = [], retrieval = True, asked = None, notice = None\<rparr>"

section \<open>The abstraction\<close>

definition dialogue_of :: "chat_config \<Rightarrow> dialogue" where
  "dialogue_of c =
     \<lparr>transcript = messages (ui c), draft = input (ui c), retrieval = useSearch (ui c),
      asked = (case inflight c of [] \<Rightarrow> None | k # ks \<Rightarrow> Some k),
      notice = error (ui c)\<rparr>"

text \<open>
  The moves an event of the panel stands for. A key other than Enter, or Enter
  with shift, is no move; the completion of a call is the answer or the failure
  it carries.
\<close>

fun moves_of :: "chat_event \<Rightarrow> move list" where
  "moves_of (Change_input v) = [Type v]"
| "moves_of (Toggle_search b) = [Set_retrieval b]"
| "moves_of Click_send = [Ask]"
| "moves_of (Key_press e) = (if key e = ascii ''Enter'' \<and> \<not> shiftKey e then [Ask] else [])"
| "moves_of Click_clear = [Forget]"
| "moves_of (Settled i out) =
     (if i = 0
      then (case request_result out of
              Inr resp \<Rightarrow> [Answer (response resp)]
            | Inl err \<Rightarrow> [Fail (catch_message err msg_response_failed)])
      else [])"

section \<open>Refinement\<close>

lemma dialogue_run_simps [simp]:
  "dialogue_run d [] = d"
  "dialogue_run d (m # ms) = dialogue_run (dialogue_step d m) ms"
  "dialogue_run d (ms @ ms') = dialogue_run (dialogue_run d ms) ms'"
  by (simp_all add: dialogue_run_def)

lemma dialogue_of_initial [simp]: "dialogue_of initial_config = initial_dialogue"
  by (simp add: dialogue_of_def initial_config_def initial_chat_def initial_dialogue_def)

lemma asked_dialogue_of:
  "one_at_a_time c \<Longrightarrow> asked (dialogue_of c) = None \<longleftrightarrow> \<not> loading (ui c)"
  by (cases "inflight c") (simp_all add: dialogue_of_def one_at_a_time_def)

text \<open>One step of the panel, seen through the abstraction, is the run of its moves.\<close>

lemma step_refines:
  assumes "one_at_a_time c"
  shows "dialogue_of (chat_step base c e) = dialogue_run (dialogue_of c) (moves_of e)"
proof (cases e)
  case (Settled i out)
  show ?thesis
  proof (cases "inflight c")
    case Nil
    then show ?thesis
      by (simp add: Settled dialogue_of_def split: sum.splits)
  next
    case (Cons k ks)
    with assms have "ks = []"
      by (simp add: one_at_a_time_def)
    with Cons show ?thesis
      by (cases "request_result out") (simp_all add: Settled dialogue_of_def)
  qed
next
  case Click_send
  with assms show ?thesis
    by (cases "inflight c")
      (auto simp: dialogue_of_def one_at_a_time_def launch_def handleSend_def blank_def Let_def)
next
  case (Key_press k)
  with assms show ?thesis
    by (cases "inflight c")
      (auto simp: dialogue_of_def one_at_a_time_def launch_def handleSend_def handleKeyPress_def
        blank_def Let_def)
qed (use assms in \<open>auto simp: dialogue_of_def one_at_a_time_def clearChat_def split: list.splits\<close>)

lemma run_refines:
  "one_at_a_time c \<Longrightarrow>
   dialogue_of (chat_run base c es) = dialogue_run (dialogue_of c) (concat (map moves_of es))"
  by (induction es arbitrary: c) (simp_all add: step_refines one_at_a_time_step)

section \<open>The panel implements the dialogue\<close>

text \<open>
  C11: Every session of the chat panel is a session of the dialogue: after any
  sequence of events from the initial configuration, the transcript, the draft,
  the retrieval switch, the question waiting and the notice of the panel are
  those the dialogue reaches from its initial state on the moves the events
  stand for.
\<close>

theorem chat_refines_dialogue:
  "dialogue_of (chat_run base initial_config es) =
     dialogue_run initial_dialogue (concat (map moves_of es))"
  using run_refines [of initial_config base es] by simp

end
