(* ===== verification/Spec2Isabelle.thy ===== *)
theory Spec2Isabelle
  imports App Dialogue
begin

text \<open>
  A verification development for the browser front end under
  \<^verbatim>\<open>src/frontend/src\<close>: a React application of three panels (chat, document
  management, administration) over one HTTP client.

  \<^bold>\<open>The program.\<close> \<^verbatim>\<open>App.tsx\<close> shows the chat panel or, after a click, one of the
  two sub-pages. Each panel keeps its state in \<^verbatim>\<open>useState\<close> hooks, reacts to user
  events with handlers, and talks to the backend only through the methods of
  \<^verbatim>\<open>api/client.ts\<close>, all of which are \<^verbatim>\<open>async\<close>. The backend is not part of the
  repository.

  \<^bold>\<open>The theories.\<close>
  \<^item> \<open>JS_Prelude\<close>: strings as lists of 16-bit code units, \<^verbatim>\<open>trim\<close>, truthiness,
    thrown values and the \<^verbatim>\<open>instanceof Error\<close> idiom, decimal rendering of
    integers and \<^verbatim>\<open>toFixed(1)\<close> with the functions that read such numbers back,
    lists of pending work.
  \<^item> \<open>Json\<close>: parsed JSON values, reading a property, \<^verbatim>\<open>||\<close>, \<^verbatim>\<open>ToString\<close>.
  \<^item> \<open>Api_Client\<close>: \<^verbatim>\<open>api/client.ts\<close>. The data transfer types as records, each
    endpoint method as a function into the call of \<^verbatim>\<open>fetch\<close> it makes, and
    \<open>request_result\<close> / \<open>uploadDocument_result\<close> for what the method returns
    once \<^verbatim>\<open>fetch\<close> has settled.
  \<^item> \<open>Chat\<close>: \<^verbatim>\<open>components/Chat.tsx\<close>. State, handlers, view, and the panel as a
    transition system over user events and completions of pending requests.
  \<^item> \<open>Admin\<close>: \<^verbatim>\<open>components/Admin.tsx\<close>. State, handlers (\<^verbatim>\<open>handleClearAll\<close> with
    its two continuations), the timer of the login message, both views, and the
    panel as a transition system whose configurations also record the calls made
    and the authentications accepted.
  \<^item> \<open>Document_Upload\<close>: \<^verbatim>\<open>components/DocumentUpload.tsx\<close>. State, handlers as
    functions on a configuration that also holds the file input, the armed
    intervals and timeouts and the calls made; \<open>formatSize\<close>, \<open>formatDate\<close>; the
    view; the panel as a transition system.
  \<^item> \<open>Dialogue\<close>: the specification of the chat panel as a machine with a
    transcript and at most one question waiting, its abstraction function, and
    the refinement lemmas.
  \<^item> \<open>App\<close>: \<^verbatim>\<open>App.tsx\<close>. The sub-page state, the view, and the application as a
    transition system that mounts and unmounts the panels.
  \<^item> This theory: properties that need several of these together.

  \<^bold>\<open>How asynchronous code is modelled.\<close> An \<^verbatim>\<open>async\<close> function runs synchronously up
  to its first \<^verbatim>\<open>await\<close>; the rest runs later, when the awaited promise settles,
  in a closure that still holds the local variables of the first part but reads
  component state through setters only. So each \<^verbatim>\<open>async\<close> handler is two
  definitions (three for \<^verbatim>\<open>handleClearAll\<close>): the first gives the new state, the
  call made and what the closure captured; the later ones (\<open>..._settled\<close>) take
  the captured values, the settled result and the state of the moment. A
  configuration of a panel holds the state and the list of captured
  continuations still pending; the environment may complete any of them at any
  time with any outcome, and may fire any armed timer. Nothing is assumed about
  the backend's answers beyond their TypeScript types. A user event reaches a
  handler only through a control that the view of the moment shows and does not
  disable; the answer to \<^verbatim>\<open>confirm\<close> is part of the event.

  \<^bold>\<open>What the lemmas show.\<close> For the client: which outcomes resolve and which
  reject, and with which message, branch by branch, including the payloads the
  source's fallback does not catch. For the chat panel: the behaviour of each
  handler on every branch; that at most one request is ever pending and the
  loading flag tracks it; that the history stays well formed; that the
  completion of the pending request ends loading; what happens when the user clears the chat while a request is
  pending; and that every session of the panel is a session of the dialogue of
  theory \<open>Dialogue\<close>. For the administration panel: that no clearing call is made before
  an authentication was accepted; that without a logout one operation runs at a
  time; what an authentication, a refusal to confirm and a failure of the first
  half of clearing both do; and what a logout and the login timer do to an
  operation under way. For the document panel: what a failed and a successful
  upload do; that intervals are armed exactly while their upload is waiting;
  that the progress stays a percentage; that every busy flag has a call waiting
  whose completion clears it; that a drop starts an upload in every state and that the list
  shown is that of the last response to arrive; how exact \<open>formatSize\<close> is and
  which sizes it shows as 1024.0 KB. For the application: that navigation
  remounts the panels, that no administration panel inside it, mounted or not,
  makes a clearing call before an authentication was accepted (by the lemma
  that every panel inside the application is in a configuration the panel can
  reach on its own), and that an unmounted panel goes on with what it had
  begun.

  \<^bold>\<open>Bounds.\<close> Numbers are integers; the model of their rendering is exact for
  safe integers, and so is that of \<^verbatim>\<open>toFixed(1)\<close> for the quotients the code forms,
  a safe integer over a power of two. There is no fuel: every definition is
  total and terminates by structural recursion or by \<^theory_text>\<open>fun\<close>'s own termination
  proof.

  \<^bold>\<open>Not modelled.\<close> CSS classes, inline styles and the literal texts of the JSX
  that no branch depends on; scrolling (\<^verbatim>\<open>scrollToBottom\<close>); \<^verbatim>\<open>JSON.stringify\<close>
  (a request body is the value that is serialised); \<^verbatim>\<open>encodeURIComponent\<close> and
  \<^verbatim>\<open>Date.toLocaleString\<close> (parameters of the definitions that call them); the
  network and the backend (they are the environment that chooses outcomes).
\<close>

section \<open>A failed request that shows no error\<close>

text \<open>
  C28: A failed request can show no error. The chat panel shows no error banner
  after an error response exactly when the payload has a usable \<^verbatim>\<open>detail\<close> whose
  conversion to a string is empty, and such a detail is always an array (for
  example the empty array): it passes the client's truthiness test, becomes an
  \<^verbatim>\<open>Error\<close> with the empty message, and the view, which tests the error for
  truthiness, shows nothing.
\<close>

theorem empty_detail_is_silent:
  "error_banner (render_Chat (handleSend_settled k
       (request_result (Fetch_resolved (Response_not_ok q))) s)) = None \<longleftrightarrow>
   (\<exists>d. usable_detail q = Some d \<and> is_array d \<and> js_to_string d = [])"
proof (cases "usable_detail q")
  case None
  then show ?thesis
    by (cases "q = Inr JNull")
      (simp_all add: request_result_def error_of_payload_fallback null_property_error_def
        render_Chat_def)
next
  case (Some d)
  then have "js_truthy d"
    by (induction q rule: usable_detail.induct) (auto split: option.splits if_splits)
  then have "js_to_string d = [] \<Longrightarrow> is_array d"
    using js_to_string_truthy [of d] by (auto simp: truthy_def)
  with Some show ?thesis
    by (auto simp: request_result_def error_of_payload_usable new_Error_def render_Chat_def
        truthy_def)
qed

theorem empty_detail_is_silent_witness:
  "error_banner (render_Chat (handleSend_settled []
       (request_result (Fetch_resolved (Response_not_ok
          (Inr (JObj [(ascii ''detail'', JArr [])]))))) initial_chat)) = None"
  using empty_detail_is_silent [of "[]" "Inr (JObj [(ascii ''detail'', JArr [])])" initial_chat]
  by simp

section \<open>The fallback text of the chat panel\<close>

text \<open>
  C37: If the platform rejects only with \<^verbatim>\<open>Error\<close> objects, the error the chat
  panel stores after a failed request is always the message of the caught
  error; the fallback text of its \<^verbatim>\<open>catch\<close> clause is never used.
\<close>

theorem chat_error_is_caught_message:
  assumes "rejects_with_errors out" and "request_result out = Inl err"
  shows "\<exists>m. err = Error_instance m \<and>
              chat_state.error (handleSend_settled k (request_result out) s) = Some m"
proof -
  from assms have "is_error err"
    by (auto simp: request_result_def dest: settle_is_error)
  then obtain m where "err = Error_instance m"
    by (cases err) simp_all
  with assms(2) show ?thesis
    by simp
qed

theorem chat_error_is_caught_message_witness:
  "\<exists>m. Error_instance (ascii ''Failed to fetch'') = Error_instance m \<and>
        chat_state.error (handleSend_settled []
                 (request_result (Fetch_rejected (Error_instance (ascii ''Failed to fetch''))))
                 initial_chat) = Some m"
  by (rule chat_error_is_caught_message) (simp_all add: request_result_def)

section \<open>Authentication in the whole application\<close>

text \<open>
  C3: In the whole application no data is destroyed before an authentication
  was accepted: for every administration panel, mounted or unmounted, of a
  reachable configuration, each call to a clearing endpoint in its history comes
  after an authentication that the backend accepted for that panel.
\<close>

theorem app_destructive_calls_follow_authentication:
  assumes "app_reachable enc base c" and "Admin_panel a \<in> set (mounted c # unmounted c)"
    and "history a = h @ Called call # h'" and "is_destructive base call"
  shows "Auth_accepted \<in> set h"
proof -
  from assms(1) have "\<forall>p \<in> set (mounted c # unmounted c). panel_reachable enc base p"
    using app_reachable_inv(2,3) [of enc base c] by (simp add: list_all_iff)
  with assms(2) have "panel_reachable enc base (Admin_panel a)"
    by blast
  then have "authorised base False (history a)"
    using reachable_secure [of base a] by (simp add: secure_def)
  then have "authorised base False (h @ Called call # h')"
    by (simp only: assms(3))
  then show ?thesis
    using assms(4) by (rule authorisedD)
qed

theorem app_destructive_calls_follow_authentication_witness:
  "Auth_accepted \<in> set [Called (adminAuth [] (ascii ''pw'')), Auth_accepted]"
  by (rule app_destructive_calls_follow_authentication
        [OF app_reachable_run [OF app_start, where enc = "\<lambda>s. Inr s" and base = "[]" and es =
           "Click_settings # map (\<lambda>e. In_panel (Admin_event e))
              [Change_password (ascii ''pw''), Click_login,
               Completed 0 (Auth_outcome (Fetch_resolved (Response_ok
                 (Inr \<lparr>auth_success = True, auth_message = []\<rparr>)))),
               Click_clear_search True]"],
         where a = "admin_run [] initial_admin_config
           [Change_password (ascii ''pw''), Click_login,
            Completed 0 (Auth_outcome (Fetch_resolved (Response_ok
               (Inr \<lparr>auth_success = True, auth_message = []\<rparr>)))),
            Click_clear_search True]"
           and call = "clearSearch [] (ascii ''pw'')" and h' = "[]"])
     (simp_all only: app_example_admin admin_example_clear_search, simp_all)

end
